theory Spec2Isabelle
  imports Complex_Main
begin

section \<open>Arrays and errors\<close>

text \<open>
  The solver works on numpy arrays of rank three. An array is its shape together with
  its data in row-major order. The entries are modelled as real numbers: rounding,
  infinities and NaN of the machine's floating-point numbers are not part of the model.
  A Python exception is a value of \<open>py_error\<close>; a computation that may raise returns
  \<open>py_error + 'a\<close>, with \<open>Inl\<close> for the exception.
\<close>

datatype py_error = ValueError | IndexError | OtherError

type_synonym shape3 = "nat \<times> nat \<times> nat"

record ndarray =
  shape :: shape3
  flat :: "real list"

type_synonym matrix = "real list list"

definition and_then :: "py_error + 'a \<Rightarrow> ('a \<Rightarrow> py_error + 'b) \<Rightarrow> py_error + 'b" where
  "and_then m f = (case m of Inl e \<Rightarrow> Inl e | Inr x \<Rightarrow> f x)"

text \<open>\<open>prod(rc)\<close>: the number of entries of an array of shape \<open>rc\<close>.\<close>

definition prod_shape :: "shape3 \<Rightarrow> nat" where
  "prod_shape rc = (case rc of (nx, ny, nz) \<Rightarrow> nx * ny * nz)"

definition zeros :: "shape3 \<Rightarrow> ndarray" where
  "zeros rc = \<lparr>shape = rc, flat = replicate (prod_shape rc) 0\<rparr>"

text \<open>\<open>reshape(a, n)\<close> to a vector and \<open>reshape(x, rc)\<close> to rank three; numpy raises
  ValueError when the number of entries does not fit.\<close>

definition reshape_vec :: "ndarray \<Rightarrow> nat \<Rightarrow> py_error + real list" where
  "reshape_vec a n = (if length (flat a) = n then Inr (flat a) else Inl ValueError)"

definition reshape_arr :: "real list \<Rightarrow> shape3 \<Rightarrow> py_error + ndarray" where
  "reshape_arr x rc =
     (if length x = prod_shape rc then Inr \<lparr>shape = rc, flat = x\<rparr> else Inl ValueError)"

definition abs_arr :: "ndarray \<Rightarrow> ndarray" where
  "abs_arr a = a\<lparr>flat := map abs (flat a)\<rparr>"

text \<open>\<open>a.max()\<close>: numpy raises ValueError on an array without entries.\<close>

definition amax :: "ndarray \<Rightarrow> py_error + real" where
  "amax a = (case flat a of [] \<Rightarrow> Inl ValueError | x # xs \<Rightarrow> Inr (fold max xs x))"

definition asum :: "ndarray \<Rightarrow> real" where
  "asum a = sum_list (flat a)"

text \<open>\<open>a.mean()\<close>. On an array without entries numpy returns NaN (with a warning, no
  exception); here the quotient is \<open>0\<close>. The only use of the mean is to be subtracted
  from every entry of the same array, and an array without entries has none to change.\<close>

definition mean :: "ndarray \<Rightarrow> real" where
  "mean a = sum_list (flat a) / real (length (flat a))"

definition sub_scalar :: "ndarray \<Rightarrow> real \<Rightarrow> ndarray" where
  "sub_scalar a c = a\<lparr>flat := map (\<lambda>v. v - c) (flat a)\<rparr>"

text \<open>\<open>dt / rho\<close> for a scalar \<open>dt\<close> and an array \<open>rho\<close>. Where \<open>rho\<close> is zero numpy
  gives an infinity or NaN and HOL gives \<open>0\<close>; the quotient is only handed on to
  \<open>create_matrix\<close>.\<close>

definition scalar_div :: "real \<Rightarrow> ndarray \<Rightarrow> ndarray" where
  "scalar_div c a = a\<lparr>flat := map (\<lambda>v. c / v) (flat a)\<rparr>"

text \<open>\<open>obst.any()\<close>: some entry is nonzero.\<close>

definition any_nonzero :: "ndarray \<Rightarrow> bool" where
  "any_nonzero a = list_ex (\<lambda>v. v \<noteq> 0) (flat a)"

text \<open>Row-major position of the entry \<open>[i, j, k]\<close>, and the entry itself.\<close>

definition index3 :: "shape3 \<Rightarrow> nat \<Rightarrow> nat \<Rightarrow> nat \<Rightarrow> nat" where
  "index3 rc i j k = (case rc of (nx, ny, nz) \<Rightarrow> (i * ny + j) * nz + k)"

definition get3 :: "ndarray \<Rightarrow> nat \<Rightarrow> nat \<Rightarrow> nat \<Rightarrow> real" where
  "get3 a i j k = flat a ! index3 (shape a) i j k"

definition indices :: "shape3 \<Rightarrow> (nat \<times> nat \<times> nat) list" where
  "indices rc = (case rc of (nx, ny, nz) \<Rightarrow>
     concat (map (\<lambda>i. concat (map (\<lambda>j. map (\<lambda>k. (i, j, k)) [0..<nz]) [0..<ny])) [0..<nx]))"

text \<open>The slice assignment \<open>tgt[:] = src\<close> writes into the existing array, which keeps
  its shape. Equal shapes copy entry by entry; numpy also accepts a source with extent
  one along an axis and repeats it; any other pair of shapes raises ValueError.\<close>

definition broadcastable :: "shape3 \<Rightarrow> shape3 \<Rightarrow> bool" where
  "broadcastable src tgt = (case (src, tgt) of ((a, b, c), (nx, ny, nz)) \<Rightarrow>
     (a = nx \<or> a = 1) \<and> (b = ny \<or> b = 1) \<and> (c = nz \<or> c = 1))"

definition broadcast_to :: "ndarray \<Rightarrow> shape3 \<Rightarrow> ndarray" where
  "broadcast_to src tgt = (case shape src of (a, b, c) \<Rightarrow>
     \<lparr>shape = tgt,
      flat = map (\<lambda>(i, j, k). get3 src (if a = 1 then 0 else i) (if b = 1 then 0 else j)
                                       (if c = 1 then 0 else k)) (indices tgt)\<rparr>)"

definition assign_all :: "ndarray \<Rightarrow> ndarray \<Rightarrow> py_error + ndarray" where
  "assign_all tgt src =
     (if shape src = shape tgt then Inr (tgt\<lparr>flat := flat src\<rparr>)
      else if broadcastable (shape src) (shape tgt) then Inr (broadcast_to src (shape tgt))
      else Inl ValueError)"

text \<open>An elementwise operation on two arrays, as in \<open>rho * cap\<close> and
  \<open>p_tot + p.val\<close>: equal shapes combine entry by entry, shapes that differ only in
  extents of one are repeated to the joint shape, any other pair raises ValueError.\<close>

definition arr_binop :: "(real \<Rightarrow> real \<Rightarrow> real) \<Rightarrow> ndarray \<Rightarrow> ndarray \<Rightarrow> py_error + ndarray" where
  "arr_binop f a b =
     (if shape a = shape b then Inr (a\<lparr>flat := map2 f (flat a) (flat b)\<rparr>)
      else (case (shape a, shape b) of ((a1, a2, a3), (b1, b2, b3)) \<Rightarrow>
        if (a1 = b1 \<or> a1 = 1 \<or> b1 = 1) \<and> (a2 = b2 \<or> a2 = 1 \<or> b2 = 1)
           \<and> (a3 = b3 \<or> a3 = 1 \<or> b3 = 1)
        then (let j = (if a1 = 1 then b1 else a1, if a2 = 1 then b2 else a2,
                       if a3 = 1 then b3 else a3)
              in Inr \<lparr>shape = j,
                      flat = map2 f (flat (broadcast_to a j)) (flat (broadcast_to b j))\<rparr>)
        else Inl ValueError))"

definition scalar_mul :: "real \<Rightarrow> ndarray \<Rightarrow> ndarray" where
  "scalar_mul c a = a\<lparr>flat := map (\<lambda>v. c * v) (flat a)\<rparr>"

text \<open>An array as numpy builds it has as many entries as its shape says.\<close>

definition wf_array :: "ndarray \<Rightarrow> bool" where
  "wf_array a = (length (flat a) = prod_shape (shape a))"

section \<open>Fields\<close>

text \<open>
  Modelled from the spec: the unknown-field objects that \<open>create_unknown\<close> builds
  (\<open>create_unknown\<close> and the constants modules are not among the sources). Section 3:
  a position tag, the interior values \<open>val\<close>, the snapshot \<open>old\<close> of the previous time
  step, and six boundary records in the order W, E, S, N, B, T, each with a
  boundary-condition kind and a value per face cell. The source writes the position
  tags as \<open>C\<close>, \<open>X\<close>, \<open>Y\<close>, \<open>Z\<close>.
\<close>

datatype position = Pos_C | Pos_X | Pos_Y | Pos_Z

datatype bc_kind = DIRICHLET | NEUMANN | OUTLET

datatype compass = Dir_W | Dir_E | Dir_S | Dir_N | Dir_B | Dir_T

record bnd_face =
  bc_typ :: "bc_kind list"
  bc_val :: ndarray

record unknown =
  pos :: position
  val :: ndarray
  old :: ndarray
  bnd :: "bnd_face list"

type_synonym uvw = "unknown \<times> unknown \<times> unknown"

type_synonym spacings = "ndarray \<times> ndarray \<times> ndarray"

text \<open>
  Modelled from the spec: a field with all-Neumann boundaries as \<open>create_unknown\<close>
  builds it (sections 3 and 8): a grid with at least one cell along every axis and six
  boundary records, each with a slab of values in the shape of its face and the kind
  NEUMANN in every face cell.
\<close>

definition neumann_face :: "shape3 \<Rightarrow> bnd_face \<Rightarrow> bool" where
  "neumann_face rc f =
     (shape (bc_val f) = rc \<and> wf_array (bc_val f) \<and> bc_typ f = replicate (prod_shape rc) NEUMANN)"

definition all_neumann :: "unknown \<Rightarrow> bool" where
  "all_neumann phi = (case shape (val phi) of (nx, ny, nz) \<Rightarrow>
     0 < nx \<and> 0 < ny \<and> 0 < nz
     \<and> list_all2 neumann_face
          [(1, ny, nz), (1, ny, nz), (nx, 1, nz), (nx, 1, nz), (nx, ny, 1), (nx, ny, 1)] (bnd phi))"

section \<open>What a call leaves behind\<close>

text \<open>
  A call is observed through the value it returns, the objects it was handed as it
  leaves them, and the events it caused in order: the lines it printed and the calls it
  made to routines outside the file, each with its arguments.
\<close>

datatype py_value = PyNone | PyFloat real | PyInt int

datatype event =
    Print_float string real
  | Print_int string int
  | Call_create_matrix unknown ndarray ndarray spacings ndarray string
  | Call_vol_balance uvw spacings ndarray
  | Call_bicgstab matrix "real list" real
  | Call_obst_zero_val position ndarray ndarray
  | Call_adj_n_bnds unknown
  | Call_print_time_step nat
  | Call_calc_t unknown uvw ndarray ndarray real spacings ndarray
  | Call_calc_uvw uvw uvw ndarray ndarray ndarray "ndarray \<times> ndarray \<times> ndarray" real spacings ndarray
  | Call_calc_p unknown uvw ndarray real spacings ndarray
  | Call_corr_uvw uvw unknown ndarray real spacings ndarray
  | Call_cfl_max uvw real spacings
  | Call_plot_isolines ndarray uvw "real list \<times> real list \<times> real list" position

text \<open>The routine an event calls; a printed line is \<open>print\<close>.\<close>

fun kind :: "event \<Rightarrow> string" where
  "kind (Print_float l x) = ''print''"
| "kind (Print_int l n) = ''print''"
| "kind (Call_create_matrix phi b c dxyz obst m) = ''create_matrix''"
| "kind (Call_vol_balance uvwf dxyz obst) = ''vol_balance''"
| "kind (Call_bicgstab A b tol) = ''bicgstab''"
| "kind (Call_obst_zero_val d v obst) = ''obst_zero_val''"
| "kind (Call_adj_n_bnds phi) = ''adj_n_bnds''"
| "kind (Call_print_time_step ts) = ''print_time_step''"
| "kind (Call_calc_t phi uvwf rc kappa dt dxyz obst) = ''calc_t''"
| "kind (Call_calc_uvw uvwc uvwf rho mu ptot ef dt dxyz obst) = ''calc_uvw''"
| "kind (Call_calc_p phi uvwf rho dt dxyz obst) = ''calc_p''"
| "kind (Call_corr_uvw uvw0 phi rho dt dxyz obst) = ''corr_uvw''"
| "kind (Call_cfl_max uvwc dt dxyz) = ''cfl_max''"
| "kind (Call_plot_isolines phi uvwc xyzn d) = ''plot_isolines''"

record outcome =
  ret :: py_value
  p_after :: unknown
  uvwf_after :: uvw
  rho_after :: ndarray
  dt_after :: real
  dxyz_after :: spacings
  obst_after :: ndarray
  events :: "event list"

section \<open>Routines outside the sources\<close>

text \<open>
  \<open>calc_p\<close> calls \<open>create_matrix\<close>, \<open>vol_balance\<close> and the library solver \<open>bicgstab\<close>
  and reads the constant \<open>TOL\<close>; the time loops call \<open>calc_t\<close>, \<open>calc_uvw\<close>,
  \<open>corr_uvw\<close> and \<open>cfl_max\<close>. None of them is among the sources; they are parameters
  of the model. A routine whose value the caller uses (\<open>create_matrix\<close>, \<open>vol_balance\<close>,
  \<open>bicgstab\<close>, \<open>cfl_max\<close>) is a function of its arguments that returns a value or
  raises. A routine called as a statement (\<open>calc_t\<close>, \<open>calc_uvw\<close>, \<open>corr_uvw\<close>) works
  on the field objects it is handed: it returns them as it leaves them, or raises.
  \<open>bicgstab\<close> returns the iterate and the integer \<open>info\<close> (zero: converged; positive:
  not converged to tolerance; negative: breakdown). \<open>plot_isolines\<close> only reads its
  arguments and draws; the drawing library is outside the model, so it returns or
  raises.
\<close>

record env =
  TOL :: real
  create_matrix ::
    "unknown \<Rightarrow> ndarray \<Rightarrow> ndarray \<Rightarrow> spacings \<Rightarrow> ndarray \<Rightarrow> string \<Rightarrow> py_error + (matrix \<times> ndarray)"
  vol_balance :: "uvw \<Rightarrow> spacings \<Rightarrow> ndarray \<Rightarrow> py_error + ndarray"
  bicgstab :: "matrix \<Rightarrow> real list \<Rightarrow> real \<Rightarrow> py_error + (real list \<times> int)"
  obst_zero_face :: "position \<Rightarrow> ndarray \<Rightarrow> ndarray \<Rightarrow> py_error + ndarray"
  calc_t ::
    "unknown \<Rightarrow> uvw \<Rightarrow> ndarray \<Rightarrow> ndarray \<Rightarrow> real \<Rightarrow> spacings \<Rightarrow> ndarray \<Rightarrow> py_error + (unknown \<times> uvw)"
  calc_uvw ::
    "uvw \<Rightarrow> uvw \<Rightarrow> ndarray \<Rightarrow> ndarray \<Rightarrow> ndarray \<Rightarrow> ndarray \<times> ndarray \<times> ndarray \<Rightarrow> real \<Rightarrow> spacings
      \<Rightarrow> ndarray \<Rightarrow> py_error + (uvw \<times> uvw)"
  corr_uvw ::
    "uvw \<Rightarrow> unknown \<Rightarrow> ndarray \<Rightarrow> real \<Rightarrow> spacings \<Rightarrow> ndarray \<Rightarrow> py_error + (uvw \<times> unknown)"
  cfl_max :: "uvw \<Rightarrow> real \<Rightarrow> spacings \<Rightarrow> py_error + real"
  plot_isolines ::
    "ndarray \<Rightarrow> uvw \<Rightarrow> real list \<times> real list \<times> real list \<Rightarrow> position \<Rightarrow> py_error + unit"

text \<open>
  Modelled from the spec: \<open>obst_zero_val\<close> is not among the sources. Section 4.4, phase 4:
  "force solid-obstacle cells to zero"; section 3: the mask shares the cell resolution,
  zero is fluid and nonzero is solid; section 7: a shape mismatch between field and mask
  is fatal. For a field that is not cell-centred the spec gives no rule; that case is
  the parameter \<open>obst_zero_face\<close>.
\<close>

definition obst_zero_val :: "env \<Rightarrow> position \<Rightarrow> ndarray \<Rightarrow> ndarray \<Rightarrow> py_error + ndarray" where
  "obst_zero_val env d v obst =
     (if d = Pos_C then
        (if shape obst = shape v
         then Inr (v\<lparr>flat := map2 (\<lambda>x m. if m \<noteq> 0 then 0 else x) (flat v) (flat obst)\<rparr>)
         else Inl ValueError)
      else obst_zero_face env d v obst)"

text \<open>
  Modelled from the spec: \<open>adj_n_bnds\<close> is not among the sources. Section 4.4, phase 4:
  "copy adjacent interior value into each Neumann boundary slab". \<open>adjacent_layer\<close> is
  the layer of interior values next to a face, in the shape of that face's slab; a face
  cell of kind NEUMANN takes the value of the layer, every other face cell keeps its
  value. The routine works on the field object in place; \<open>val\<close>, \<open>old\<close> and \<open>pos\<close>
  are not written. An array with no layer along some axis, or a slab whose shape is
  not the face's, raises.
\<close>

definition adjacent_layer :: "compass \<Rightarrow> ndarray \<Rightarrow> ndarray" where
  "adjacent_layer d v = (case shape v of (nx, ny, nz) \<Rightarrow>
     (case d of
        Dir_W \<Rightarrow> \<lparr>shape = (1, ny, nz), flat = map (\<lambda>(i, j, k). get3 v 0 j k) (indices (1, ny, nz))\<rparr>
      | Dir_E \<Rightarrow> \<lparr>shape = (1, ny, nz), flat = map (\<lambda>(i, j, k). get3 v (nx - 1) j k) (indices (1, ny, nz))\<rparr>
      | Dir_S \<Rightarrow> \<lparr>shape = (nx, 1, nz), flat = map (\<lambda>(i, j, k). get3 v i 0 k) (indices (nx, 1, nz))\<rparr>
      | Dir_N \<Rightarrow> \<lparr>shape = (nx, 1, nz), flat = map (\<lambda>(i, j, k). get3 v i (ny - 1) k) (indices (nx, 1, nz))\<rparr>
      | Dir_B \<Rightarrow> \<lparr>shape = (nx, ny, 1), flat = map (\<lambda>(i, j, k). get3 v i j 0) (indices (nx, ny, 1))\<rparr>
      | Dir_T \<Rightarrow> \<lparr>shape = (nx, ny, 1), flat = map (\<lambda>(i, j, k). get3 v i j (nz - 1)) (indices (nx, ny, 1))\<rparr>))"

definition close_face :: "ndarray \<Rightarrow> bnd_face \<Rightarrow> py_error + bnd_face" where
  "close_face layer f =
     (if shape (bc_val f) = shape layer \<and> length (bc_typ f) = length (flat layer)
         \<and> length (flat (bc_val f)) = length (flat layer)
      then Inr (f\<lparr>bc_val := (bc_val f)\<lparr>flat :=
             map (\<lambda>(ty, b, i). if ty = NEUMANN then i else b)
                 (zip (bc_typ f) (zip (flat (bc_val f)) (flat layer)))\<rparr>\<rparr>)
      else Inl ValueError)"

fun close_faces :: "ndarray \<Rightarrow> compass list \<Rightarrow> bnd_face list \<Rightarrow> py_error + bnd_face list" where
  "close_faces v [] [] = Inr []"
| "close_faces v (d # ds) (f # fs) =
     and_then (close_face (adjacent_layer d v) f) (\<lambda>f'.
     and_then (close_faces v ds fs) (\<lambda>fs'. Inr (f' # fs')))"
| "close_faces v _ _ = Inl IndexError"

definition adj_n_bnds :: "unknown \<Rightarrow> py_error + unknown" where
  "adj_n_bnds phi = (case shape (val phi) of (nx, ny, nz) \<Rightarrow>
     if nx = 0 \<or> ny = 0 \<or> nz = 0 then Inl IndexError
     else and_then (close_faces (val phi) [Dir_W, Dir_E, Dir_S, Dir_N, Dir_B, Dir_T] (bnd phi))
            (\<lambda>b. Inr (phi\<lparr>bnd := b\<rparr>)))"

section \<open>The pressure correction: \<open>calc_p\<close>\<close>

text \<open>
  \<open>Discretization/calc_p.py\<close>, line by line. \<open>anchor\<close> is the right-hand side of
  line 40, \<open>p.val[:] - p.val.mean()\<close>.
\<close>

definition anchor :: "ndarray \<Rightarrow> ndarray" where
  "anchor a = sub_scalar a (mean a)"

definition calc_p ::
  "env \<Rightarrow> unknown \<Rightarrow> uvw \<Rightarrow> ndarray \<Rightarrow> real \<Rightarrow> spacings \<Rightarrow> ndarray \<Rightarrow> py_error + outcome" where
  "calc_p env p uvwf rho dt dxyz obst =
     (let rc = shape (val p) in
      and_then (create_matrix env p (zeros rc) (scalar_div dt rho) dxyz obst ''n'') (\<lambda>(A_p, b_p).
      and_then (vol_balance env uvwf dxyz (zeros rc)) (\<lambda>b_p.
      and_then (amax (abs_arr b_p)) (\<lambda>mx.
      and_then (reshape_vec b_p (prod_shape rc)) (\<lambda>b.
      and_then (bicgstab env A_p b (TOL env)) (\<lambda>res.
      and_then (reshape_arr (fst res) rc) (\<lambda>x.
      and_then (assign_all (val p) x) (\<lambda>v1.
      and_then (assign_all v1 (anchor v1)) (\<lambda>v2.
      and_then (if any_nonzero obst
                then and_then (obst_zero_val env (pos p) v2 obst) (assign_all v2)
                else Inr v2) (\<lambda>v3.
      and_then (adj_n_bnds (p\<lparr>val := v3\<rparr>)) (\<lambda>p'.
      Inr \<lparr>ret = PyNone, p_after = p', uvwf_after = uvwf, rho_after = rho, dt_after = dt,
           dxyz_after = dxyz, obst_after = obst,
           events =
             [Call_create_matrix p (zeros rc) (scalar_div dt rho) dxyz obst ''n'',
              Call_vol_balance uvwf dxyz (zeros rc),
              Print_float ''Maximum volume error before correction'' mx,
              Print_float ''Volume imbalance before correction'' (asum b_p),
              Call_bicgstab A_p b (TOL env),
              Print_int ''res[1] = '' (snd res)]
             @ (if any_nonzero obst then [Call_obst_zero_val (pos p) v2 obst] else [])
             @ [Call_adj_n_bnds (p\<lparr>val := v3\<rparr>)]\<rparr>)))))))))))"

text \<open>
  The four phases of \<open>calc_p\<close> in the words of section 4.4 of the spec, each a function
  of what the phase before it produced: assemble the operator in pressure mode with a
  zero explicit source and compute the source as the divergence of the face velocities
  (reporting its maximum); solve; anchor; force the solid cells to zero and reapply the
  boundary closure.
\<close>

definition assemble ::
  "env \<Rightarrow> unknown \<Rightarrow> uvw \<Rightarrow> ndarray \<Rightarrow> real \<Rightarrow> spacings \<Rightarrow> ndarray \<Rightarrow> py_error + (matrix \<times> ndarray)" where
  "assemble env p uvwf rho dt dxyz obst =
     and_then (create_matrix env p (zeros (shape (val p))) (scalar_div dt rho) dxyz obst ''n'')
       (\<lambda>(A, b0).
     and_then (vol_balance env uvwf dxyz (zeros (shape (val p)))) (\<lambda>src.
     and_then (amax (abs_arr src)) (\<lambda>m. Inr (A, src))))"

definition solve :: "env \<Rightarrow> matrix \<Rightarrow> ndarray \<Rightarrow> shape3 \<Rightarrow> py_error + ndarray" where
  "solve env A src rc =
     and_then (reshape_vec src (prod_shape rc)) (\<lambda>b.
     and_then (bicgstab env A b (TOL env)) (\<lambda>res. reshape_arr (fst res) rc))"

definition mask_and_close :: "env \<Rightarrow> unknown \<Rightarrow> ndarray \<Rightarrow> ndarray \<Rightarrow> py_error + unknown" where
  "mask_and_close env p v obst =
     and_then (obst_zero_val env (pos p) v obst) (\<lambda>v'. adj_n_bnds (p\<lparr>val := v'\<rparr>))"

definition calc_p_phases ::
  "env \<Rightarrow> unknown \<Rightarrow> uvw \<Rightarrow> ndarray \<Rightarrow> real \<Rightarrow> spacings \<Rightarrow> ndarray \<Rightarrow> py_error + unknown" where
  "calc_p_phases env p uvwf rho dt dxyz obst =
     and_then (assemble env p uvwf rho dt dxyz obst) (\<lambda>(A, src).
     and_then (solve env A src (shape (val p))) (\<lambda>x.
     mask_and_close env p (anchor x) obst))"

text \<open>What a caller of \<open>calc_p\<close> gets to see of the solve: the returned value and the
  printed lines. The residual of an iterate \<open>x\<close> for the system \<open>A x = b\<close> is
  \<open>b - A x\<close>.\<close>

definition reported :: "outcome \<Rightarrow> py_value \<times> event list" where
  "reported r = (ret r, filter (\<lambda>e. kind e = ''print'') (events r))"

text \<open>The calls of the routines named in \<open>ks\<close> among the events \<open>es\<close>, in order.\<close>

definition calls_of :: "string list \<Rightarrow> event list \<Rightarrow> event list" where
  "calls_of ks es = filter (\<lambda>e. kind e \<in> set ks) es"

definition matvec :: "matrix \<Rightarrow> real list \<Rightarrow> real list" where
  "matvec A x = map (\<lambda>row. sum_list (map2 (*) row x)) A"

definition residual :: "matrix \<Rightarrow> real list \<Rightarrow> real list \<Rightarrow> real list" where
  "residual A b x = map2 (-) b (matvec A x)"

section \<open>The pressure correction on a store\<close>

text \<open>
  The arrays that \<open>calc_p\<close> is handed are objects that its caller and its callees
  share: a slice assignment writes into the array object, whatever other name refers
  to it, and a routine that is handed an object can write into it. To follow what a
  call writes, the arrays are held in a store: \<open>arrays\<close> maps the address of an array
  object to its content, \<open>kinds\<close> does the same for the arrays of boundary kinds. A
  field object is the record of the addresses of its arrays, and \<open>load\<close> reads the
  value of a field from the store. The position tag and the time step are immutable
  values.
\<close>

type_synonym addr = nat

record heap =
  arrays :: "addr \<Rightarrow> ndarray"
  kinds :: "addr \<Rightarrow> bc_kind list"

record face_ref =
  slab_typ :: addr
  slab_val :: addr

record field_ref =
  ref_pos :: position
  ref_val :: addr
  ref_old :: addr
  ref_bnd :: "face_ref list"

type_synonym uvw_ref = "field_ref \<times> field_ref \<times> field_ref"

type_synonym spacings_ref = "addr \<times> addr \<times> addr"

definition load_face :: "heap \<Rightarrow> face_ref \<Rightarrow> bnd_face" where
  "load_face h f = \<lparr>bc_typ = kinds h (slab_typ f), bc_val = arrays h (slab_val f)\<rparr>"

definition load :: "heap \<Rightarrow> field_ref \<Rightarrow> unknown" where
  "load h q = \<lparr>pos = ref_pos q, val = arrays h (ref_val q), old = arrays h (ref_old q),
              bnd = map (load_face h) (ref_bnd q)\<rparr>"

definition load_uvw :: "heap \<Rightarrow> uvw_ref \<Rightarrow> uvw" where
  "load_uvw h uvwf = (case uvwf of (u, v, w) \<Rightarrow> (load h u, load h v, load h w))"

definition load_spacings :: "heap \<Rightarrow> spacings_ref \<Rightarrow> spacings" where
  "load_spacings h dxyz = (case dxyz of (dx, dy, dz) \<Rightarrow> (arrays h dx, arrays h dy, arrays h dz))"

text \<open>
  \<open>create_matrix\<close> and \<open>vol_balance\<close> are not among the sources. The value that each
  returns is the one of the parameter in \<open>env\<close>, applied to the contents of its
  arguments. What each does to the store is a second parameter: \<open>fx_create_matrix\<close>
  and \<open>fx_vol_balance\<close> give the store as the call leaves it, from the store before
  the call and the objects it is handed (\<open>zeros(rc)\<close> and \<open>dt/rho\<close> are temporaries
  and not in the store). \<open>read_only\<close> says that both leave the store as it is. The
  solver is handed temporaries only.
\<close>

record effects =
  fx_create_matrix :: "heap \<Rightarrow> field_ref \<Rightarrow> spacings_ref \<Rightarrow> addr \<Rightarrow> heap"
  fx_vol_balance :: "heap \<Rightarrow> uvw_ref \<Rightarrow> spacings_ref \<Rightarrow> heap"

definition read_only :: "effects \<Rightarrow> bool" where
  "read_only fx = ((\<forall>h p dxyz obst. fx_create_matrix fx h p dxyz obst = h)
                   \<and> (\<forall>h uvwf dxyz. fx_vol_balance fx h uvwf dxyz = h))"

text \<open>The slice assignment \<open>a[:] = src\<close> on the store.\<close>

definition write_all :: "heap \<Rightarrow> addr \<Rightarrow> ndarray \<Rightarrow> py_error + heap" where
  "write_all h a src =
     and_then (assign_all (arrays h a) src) (\<lambda>v. Inr (h\<lparr>arrays := (arrays h)(a := v)\<rparr>))"

text \<open>
  Modelled from the spec: \<open>adj_n_bnds\<close> on the store writes the closed boundary
  values into the value slabs of the field (section 4.4, phase 4), one face after the
  other, and nothing else.
\<close>

fun store_slabs :: "heap \<Rightarrow> face_ref list \<Rightarrow> bnd_face list \<Rightarrow> heap" where
  "store_slabs h (f # fs) (b # bs) =
     store_slabs (h\<lparr>arrays := (arrays h)(slab_val f := bc_val b)\<rparr>) fs bs"
| "store_slabs h _ _ = h"

definition adj_n_bnds_heap :: "heap \<Rightarrow> field_ref \<Rightarrow> py_error + heap" where
  "adj_n_bnds_heap h q =
     and_then (adj_n_bnds (load h q)) (\<lambda>phi. Inr (store_slabs h (ref_bnd q) (bnd phi)))"

text \<open>\<open>calc_p\<close>, line by line, on the store. It returns its value, the store as it
  leaves it, and the lines it printed.\<close>

definition calc_p_heap ::
  "env \<Rightarrow> effects \<Rightarrow> heap \<Rightarrow> field_ref \<Rightarrow> uvw_ref \<Rightarrow> addr \<Rightarrow> real \<Rightarrow> spacings_ref \<Rightarrow> addr
     \<Rightarrow> py_error + (py_value \<times> heap \<times> event list)" where
  "calc_p_heap env fx h p uvwf rho dt dxyz obst =
     (let rc = shape (arrays h (ref_val p)) in
      and_then (create_matrix env (load h p) (zeros rc) (scalar_div dt (arrays h rho))
                  (load_spacings h dxyz) (arrays h obst) ''n'') (\<lambda>(A_p, b_p).
      let h1 = fx_create_matrix fx h p dxyz obst in
      and_then (vol_balance env (load_uvw h1 uvwf) (load_spacings h1 dxyz) (zeros rc)) (\<lambda>b_p.
      let h2 = fx_vol_balance fx h1 uvwf dxyz in
      and_then (amax (abs_arr b_p)) (\<lambda>mx.
      and_then (reshape_vec b_p (prod_shape rc)) (\<lambda>b.
      and_then (bicgstab env A_p b (TOL env)) (\<lambda>res.
      and_then (reshape_arr (fst res) rc) (\<lambda>x.
      and_then (write_all h2 (ref_val p) x) (\<lambda>h3.
      and_then (write_all h3 (ref_val p) (anchor (arrays h3 (ref_val p)))) (\<lambda>h4.
      and_then (if any_nonzero (arrays h4 obst)
                then and_then (obst_zero_val env (ref_pos p) (arrays h4 (ref_val p)) (arrays h4 obst))
                       (write_all h4 (ref_val p))
                else Inr h4) (\<lambda>h5.
      and_then (adj_n_bnds_heap h5 p) (\<lambda>h6.
      Inr (PyNone, h6,
           [Print_float ''Maximum volume error before correction'' mx,
            Print_float ''Volume imbalance before correction'' (asum b_p),
            Print_int ''res[1] = '' (snd res)]))))))))))))"

text \<open>The addresses that \<open>calc_p\<close> may write for a pressure field \<open>p\<close>: its value
  array and its boundary value slabs. \<open>field_addrs\<close> are all the arrays of values of
  a field, and \<open>separate\<close> says that none of the arrays of the other arguments is
  among those that may be written.\<close>

definition written :: "field_ref \<Rightarrow> addr set" where
  "written p = insert (ref_val p) (slab_val ` set (ref_bnd p))"

definition field_addrs :: "field_ref \<Rightarrow> addr set" where
  "field_addrs q = insert (ref_val q) (insert (ref_old q) (slab_val ` set (ref_bnd q)))"

definition separate :: "field_ref \<Rightarrow> uvw_ref \<Rightarrow> addr \<Rightarrow> spacings_ref \<Rightarrow> addr \<Rightarrow> bool" where
  "separate p uvwf rho dxyz obst = (case (uvwf, dxyz) of ((u, v, w), (dx, dy, dz)) \<Rightarrow>
     written p \<inter> (field_addrs u \<union> field_addrs v \<union> field_addrs w \<union> set [rho, dx, dy, dz, obst]) = {})"

section \<open>The solver\<close>

text \<open>
  Modelled from the spec: the library solver \<open>bicgstab\<close> is not among the sources.
  Section 4.4, phase 2: "an iterative, preconditioned (or unpreconditioned) stabilized
  bi-conjugate-gradient method to a fixed relative/absolute tolerance"; section 5: "a
  deterministic maximum-iteration cutoff with residual-tolerance exit". \<open>bicgstab_loop\<close>
  is the unpreconditioned method started from the zero vector, with the first residual
  as shadow residual \<open>rhat\<close>. Before every iteration, and after the first half of
  one, it stops with \<open>info = 0\<close> when the norm of the residual is at most \<open>tol\<close> times
  the norm of the right-hand side (compared as squares: \<open>bound\<close> is the square of that
  product). A denominator that vanishes stops it with a negative \<open>info\<close>, a breakdown.
  After \<open>maxiter\<close> iterations it returns the iterate it has, with \<open>info = maxiter\<close>.
  \<open>bicgstab_trace\<close> returns the number of iterations made as well. A matrix that
  does not fit the right-hand side raises.
\<close>

definition dot :: "real list \<Rightarrow> real list \<Rightarrow> real" where
  "dot x y = sum_list (map2 (*) x y)"

definition axpy :: "real \<Rightarrow> real list \<Rightarrow> real list \<Rightarrow> real list" where
  "axpy a x y = map2 (\<lambda>u v. a * u + v) x y"

record bicg =
  it_x :: "real list"
  it_r :: "real list"
  it_p :: "real list"
  it_v :: "real list"
  it_rho :: real
  it_alpha :: real
  it_omega :: real

fun bicgstab_loop ::
  "nat \<Rightarrow> nat \<Rightarrow> matrix \<Rightarrow> real list \<Rightarrow> real \<Rightarrow> bicg \<Rightarrow> real list \<times> int \<times> nat" where
  "bicgstab_loop 0 k A rhat bound st = (it_x st, int k, k)"
| "bicgstab_loop (Suc n) k A rhat bound st =
     (if dot (it_r st) (it_r st) \<le> bound then (it_x st, 0, k)
      else let rho = dot rhat (it_r st) in
      if rho = 0 then (it_x st, - 10, k)
      else if 0 < k \<and> it_omega st = 0 then (it_x st, - 11, k)
      else let p = (if k = 0 then it_r st
                    else axpy (rho / it_rho st * (it_alpha st / it_omega st))
                           (axpy (- it_omega st) (it_v st) (it_p st)) (it_r st));
               v = matvec A p;
               rv = dot rhat v in
      if rv = 0 then (it_x st, - 11, k)
      else let alpha = rho / rv;
               s = axpy (- alpha) v (it_r st) in
      if dot s s \<le> bound then (axpy alpha p (it_x st), 0, Suc k)
      else let t = matvec A s in
      if dot t t = 0 then (axpy alpha p (it_x st), - 11, Suc k)
      else let omega = dot t s / dot t t in
        bicgstab_loop n (Suc k) A rhat bound
          \<lparr>it_x = axpy omega s (axpy alpha p (it_x st)), it_r = axpy (- omega) t s,
           it_p = p, it_v = v, it_rho = rho, it_alpha = alpha, it_omega = omega\<rparr>)"

definition bicgstab_trace :: "nat \<Rightarrow> matrix \<Rightarrow> real list \<Rightarrow> real \<Rightarrow> real list \<times> int \<times> nat" where
  "bicgstab_trace maxiter A b tol =
     bicgstab_loop maxiter 0 A b (tol * tol * dot b b)
       \<lparr>it_x = replicate (length b) 0, it_r = b, it_p = [], it_v = [], it_rho = 1, it_alpha = 1,
        it_omega = 1\<rparr>"

definition bicgstab_spec :: "nat \<Rightarrow> matrix \<Rightarrow> real list \<Rightarrow> real \<Rightarrow> py_error + (real list \<times> int)" where
  "bicgstab_spec maxiter A b tol =
     (if length A = length b \<and> list_all (\<lambda>row. length row = length b) A
      then (case bicgstab_trace maxiter A b tol of (x, info, k) \<Rightarrow> Inr (x, info))
      else Inl ValueError)"

section \<open>The time loops\<close>

text \<open>
  The module-level variables of the three driver scripts
  (\<open>test-obstacles-collocated.py\<close>, \<open>test-thermal-plumes-collocated.py\<close>,
  \<open>scrins/tests/test_thermally_driven_cavity_collocated.py\<close>) and the output so far.
  The obstacle script has no temperature field and leaves \<open>g_t\<close> alone; only the cavity
  script has \<open>p_tot\<close>.
\<close>

record sim =
  g_uc :: unknown
  g_vc :: unknown
  g_wc :: unknown
  g_uf :: unknown
  g_vf :: unknown
  g_wf :: unknown
  g_t :: unknown
  g_p :: unknown
  g_p_tot :: ndarray
  g_rho :: ndarray
  g_mu :: ndarray
  g_cap :: ndarray
  g_kappa :: ndarray
  g_obst :: ndarray
  g_dt :: real
  g_dxyz :: spacings
  g_rc :: shape3
  g_xyzn :: "real list \<times> real list \<times> real list"
  g_out :: "event list"

text \<open>The statement \<open>phi.old[:] = phi.val[:]\<close>.\<close>

definition store_old :: "unknown \<Rightarrow> py_error + unknown" where
  "store_old phi = and_then (assign_all (old phi) (val phi)) (\<lambda>v. Inr (phi\<lparr>old := v\<rparr>))"

text \<open>The body of the time loop of \<open>test-obstacles-collocated.py\<close> (lines 109 to 152).\<close>

definition step_obstacles :: "env \<Rightarrow> nat \<Rightarrow> sim \<Rightarrow> py_error + sim" where
  "step_obstacles env ts s =
     (let rho = g_rho s; mu = g_mu s; dt = g_dt s; dxyz = g_dxyz s; obst = g_obst s;
          rc = g_rc s in
      and_then (store_old (g_uc s)) (\<lambda>uc.
      and_then (store_old (g_vc s)) (\<lambda>vc.
      and_then (store_old (g_wc s)) (\<lambda>wc.
      let ef = (zeros rc, zeros rc, zeros rc) in
      and_then (calc_uvw env (uc, vc, wc) (g_uf s, g_vf s, g_wf s) rho mu (zeros rc) ef dt dxyz obst)
        (\<lambda>(uvwc1, uvwf1).
      and_then (calc_p env (g_p s) uvwf1 rho dt dxyz obst) (\<lambda>r.
      let p1 = p_after r; uvwf2 = uvwf_after r; rho' = rho_after r; dt' = dt_after r;
          dxyz' = dxyz_after r; obst' = obst_after r in
      and_then (corr_uvw env uvwc1 p1 rho' dt' dxyz' obst') (\<lambda>(uvwc2, p2).
      and_then (corr_uvw env uvwf2 p2 rho' dt' dxyz' obst') (\<lambda>(uvwf3, p3).
      and_then (vol_balance env uvwf3 dxyz' obst') (\<lambda>err.
      and_then (amax (abs_arr err)) (\<lambda>m.
      and_then (cfl_max env uvwc2 dt' dxyz') (\<lambda>cfl.
      and_then (if ts mod 20 = 0 then plot_isolines env (val p3) uvwc2 (g_xyzn s) Pos_Z
                else Inr ()) (\<lambda>u.
      Inr (s\<lparr>g_uc := fst uvwc2, g_vc := fst (snd uvwc2), g_wc := snd (snd uvwc2),
             g_uf := fst uvwf3, g_vf := fst (snd uvwf3), g_wf := snd (snd uvwf3),
             g_p := p3, g_rho := rho', g_obst := obst', g_dt := dt', g_dxyz := dxyz',
             g_out := g_out s
               @ [Call_print_time_step ts,
                  Call_calc_uvw (uc, vc, wc) (g_uf s, g_vf s, g_wf s) rho mu (zeros rc) ef dt dxyz obst,
                  Call_calc_p (g_p s) uvwf1 rho dt dxyz obst]
               @ events r
               @ [Call_corr_uvw uvwc1 p1 rho' dt' dxyz' obst',
                  Call_corr_uvw uvwf2 p2 rho' dt' dxyz' obst',
                  Call_vol_balance uvwf3 dxyz' obst',
                  Print_float ''Maximum volume error after correction'' m,
                  Call_cfl_max uvwc2 dt' dxyz',
                  Print_float ''Maximum CFL number'' cfl]
               @ (if ts mod 20 = 0 then [Call_plot_isolines (val p3) uvwc2 (g_xyzn s) Pos_Z]
                  else [])\<rparr>)))))))))))))"

text \<open>The body of the time loop of \<open>test-thermal-plumes-collocated.py\<close> (lines 117 to
  167).\<close>

definition step_plumes :: "env \<Rightarrow> nat \<Rightarrow> sim \<Rightarrow> py_error + sim" where
  "step_plumes env ts s =
     (let rho = g_rho s; mu = g_mu s; cap = g_cap s; kappa = g_kappa s; dt = g_dt s;
          dxyz = g_dxyz s; obst = g_obst s; rc = g_rc s in
      and_then (store_old (g_t s)) (\<lambda>t0.
      and_then (store_old (g_uc s)) (\<lambda>uc.
      and_then (store_old (g_vc s)) (\<lambda>vc.
      and_then (store_old (g_wc s)) (\<lambda>wc.
      and_then (arr_binop (*) rho cap) (\<lambda>rho_cap.
      and_then (calc_t env t0 (g_uf s, g_vf s, g_wf s) rho_cap kappa dt dxyz obst) (\<lambda>(t1, uvwf0).
      let ef = (zeros rc, scalar_mul 150 (val t1), zeros rc) in
      and_then (calc_uvw env (uc, vc, wc) uvwf0 rho mu (zeros rc) ef dt dxyz obst)
        (\<lambda>(uvwc1, uvwf1).
      and_then (calc_p env (g_p s) uvwf1 rho dt dxyz obst) (\<lambda>r.
      let p1 = p_after r; uvwf2 = uvwf_after r; rho' = rho_after r; dt' = dt_after r;
          dxyz' = dxyz_after r; obst' = obst_after r in
      and_then (corr_uvw env uvwc1 p1 rho' dt' dxyz' obst') (\<lambda>(uvwc2, p2).
      and_then (corr_uvw env uvwf2 p2 rho' dt' dxyz' obst') (\<lambda>(uvwf3, p3).
      and_then (vol_balance env uvwf3 dxyz' obst') (\<lambda>err.
      and_then (amax (abs_arr err)) (\<lambda>m.
      and_then (cfl_max env uvwc2 dt' dxyz') (\<lambda>cfl.
      and_then (if ts mod 150 = 0
                then and_then (plot_isolines env (val t1) uvwc2 (g_xyzn s) Pos_Z)
                       (\<lambda>u. plot_isolines env (val p3) uvwc2 (g_xyzn s) Pos_Z)
                else Inr ()) (\<lambda>u.
      Inr (s\<lparr>g_uc := fst uvwc2, g_vc := fst (snd uvwc2), g_wc := snd (snd uvwc2),
             g_uf := fst uvwf3, g_vf := fst (snd uvwf3), g_wf := snd (snd uvwf3),
             g_t := t1, g_p := p3, g_rho := rho', g_obst := obst', g_dt := dt',
             g_dxyz := dxyz',
             g_out := g_out s
               @ [Call_print_time_step ts,
                  Call_calc_t t0 (g_uf s, g_vf s, g_wf s) rho_cap kappa dt dxyz obst,
                  Call_calc_uvw (uc, vc, wc) uvwf0 rho mu (zeros rc) ef dt dxyz obst,
                  Call_calc_p (g_p s) uvwf1 rho dt dxyz obst]
               @ events r
               @ [Call_corr_uvw uvwc1 p1 rho' dt' dxyz' obst',
                  Call_corr_uvw uvwf2 p2 rho' dt' dxyz' obst',
                  Call_vol_balance uvwf3 dxyz' obst',
                  Print_float ''Maximum volume error after correction'' m,
                  Call_cfl_max uvwc2 dt' dxyz',
                  Print_float ''Maximum CFL number'' cfl]
               @ (if ts mod 150 = 0
                  then [Call_plot_isolines (val t1) uvwc2 (g_xyzn s) Pos_Z,
                        Call_plot_isolines (val p3) uvwc2 (g_xyzn s) Pos_Z]
                  else [])\<rparr>))))))))))))))))"

text \<open>The body of the time loop of \<open>main\<close> in
  \<open>scrins/tests/test_thermally_driven_cavity_collocated.py\<close> (lines 120 to 173).\<close>

definition step_cavity :: "env \<Rightarrow> bool \<Rightarrow> nat \<Rightarrow> sim \<Rightarrow> py_error + sim" where
  "step_cavity env show_plot ts s =
     (let rho = g_rho s; mu = g_mu s; cap = g_cap s; kappa = g_kappa s; dt = g_dt s;
          dxyz = g_dxyz s; obst = g_obst s; rc = g_rc s in
      and_then (store_old (g_t s)) (\<lambda>t0.
      and_then (store_old (g_uc s)) (\<lambda>uc.
      and_then (store_old (g_vc s)) (\<lambda>vc.
      and_then (store_old (g_wc s)) (\<lambda>wc.
      and_then (arr_binop (*) rho cap) (\<lambda>rho_cap.
      and_then (calc_t env t0 (g_uf s, g_vf s, g_wf s) rho_cap kappa dt dxyz obst) (\<lambda>(t1, uvwf0).
      let ef = (zeros rc, val t1, zeros rc) in
      and_then (calc_uvw env (uc, vc, wc) uvwf0 rho mu (g_p_tot s) ef dt dxyz obst)
        (\<lambda>(uvwc1, uvwf1).
      and_then (calc_p env (g_p s) uvwf1 rho dt dxyz obst) (\<lambda>r.
      let p1 = p_after r; uvwf2 = uvwf_after r; rho' = rho_after r; dt' = dt_after r;
          dxyz' = dxyz_after r; obst' = obst_after r in
      and_then (arr_binop (+) (g_p_tot s) (val p1)) (\<lambda>p_tot.
      and_then (corr_uvw env uvwc1 p1 rho' dt' dxyz' obst') (\<lambda>(uvwc2, p2).
      and_then (corr_uvw env uvwf2 p2 rho' dt' dxyz' obst') (\<lambda>(uvwf3, p3).
      and_then (vol_balance env uvwf3 dxyz' obst') (\<lambda>err.
      and_then (amax (abs_arr err)) (\<lambda>m.
      and_then (cfl_max env uvwc2 dt' dxyz') (\<lambda>cfl.
      and_then (if show_plot \<and> ts mod 20 = 0
                then plot_isolines env (val t1) uvwc2 (g_xyzn s) Pos_Z
                else Inr ()) (\<lambda>u.
      Inr (s\<lparr>g_uc := fst uvwc2, g_vc := fst (snd uvwc2), g_wc := snd (snd uvwc2),
             g_uf := fst uvwf3, g_vf := fst (snd uvwf3), g_wf := snd (snd uvwf3),
             g_t := t1, g_p := p3, g_p_tot := p_tot, g_rho := rho', g_obst := obst',
             g_dt := dt', g_dxyz := dxyz',
             g_out := g_out s
               @ [Call_print_time_step ts,
                  Call_calc_t t0 (g_uf s, g_vf s, g_wf s) rho_cap kappa dt dxyz obst,
                  Call_calc_uvw (uc, vc, wc) uvwf0 rho mu (g_p_tot s) ef dt dxyz obst,
                  Call_calc_p (g_p s) uvwf1 rho dt dxyz obst]
               @ events r
               @ [Call_corr_uvw uvwc1 p1 rho' dt' dxyz' obst',
                  Call_corr_uvw uvwf2 p2 rho' dt' dxyz' obst',
                  Call_vol_balance uvwf3 dxyz' obst',
                  Print_float ''Maximum volume error after correction'' m,
                  Call_cfl_max uvwc2 dt' dxyz',
                  Print_float ''Maximum CFL number'' cfl]
               @ (if show_plot \<and> ts mod 20 = 0
                  then [Call_plot_isolines (val t1) uvwc2 (g_xyzn s) Pos_Z]
                  else [])\<rparr>)))))))))))))))))"

text \<open>\<open>for ts in range(1, ndt + 1)\<close>: the body runs for each time step in turn and the
  first exception ends the run.\<close>

fun run_steps :: "(nat \<Rightarrow> sim \<Rightarrow> py_error + sim) \<Rightarrow> nat list \<Rightarrow> sim \<Rightarrow> py_error + sim" where
  "run_steps body [] s = Inr s"
| "run_steps body (ts # tss) s = and_then (body ts s) (run_steps body tss)"

definition time_loop_obstacles :: "env \<Rightarrow> nat \<Rightarrow> sim \<Rightarrow> py_error + sim" where
  "time_loop_obstacles env ndt s = run_steps (step_obstacles env) [1..<ndt + 1] s"

definition time_loop_plumes :: "env \<Rightarrow> nat \<Rightarrow> sim \<Rightarrow> py_error + sim" where
  "time_loop_plumes env ndt s = run_steps (step_plumes env) [1..<ndt + 1] s"

definition time_loop_cavity :: "env \<Rightarrow> bool \<Rightarrow> nat \<Rightarrow> sim \<Rightarrow> py_error + sim" where
  "time_loop_cavity env show_plot ndt s = run_steps (step_cavity env show_plot) [1..<ndt + 1] s"

text \<open>
  The phases of one time step in the words of section 2 of the spec ("store old field
  values, transport scalar, transport momentum, assemble and solve pressure correction,
  correct velocities (cell- and face-centered), recompute divergence and CFL number for
  diagnostics, visualize periodically"), each a function from the state the phase
  before it left to the state it leaves. \<open>seq\<close> runs a list of phases in order.
  The scripts differ in the source term and total pressure they hand to the momentum
  transport, in whether the total pressure is accumulated, and in what is drawn when.
\<close>

fun seq :: "('s \<Rightarrow> py_error + 's) list \<Rightarrow> 's \<Rightarrow> py_error + 's" where
  "seq [] s = Inr s"
| "seq (f # fs) s = and_then (f s) (seq fs)"

definition announce :: "nat \<Rightarrow> sim \<Rightarrow> py_error + sim" where
  "announce ts s = Inr (s\<lparr>g_out := g_out s @ [Call_print_time_step ts]\<rparr>)"

definition store_old_values :: "sim \<Rightarrow> py_error + sim" where
  "store_old_values s =
     and_then (store_old (g_t s)) (\<lambda>t0.
     and_then (store_old (g_uc s)) (\<lambda>uc.
     and_then (store_old (g_vc s)) (\<lambda>vc.
     and_then (store_old (g_wc s)) (\<lambda>wc.
     Inr (s\<lparr>g_uc := uc, g_vc := vc, g_wc := wc, g_t := t0\<rparr>)))))"

definition transport_scalar :: "env \<Rightarrow> sim \<Rightarrow> py_error + sim" where
  "transport_scalar env s =
     and_then (arr_binop (*) (g_rho s) (g_cap s)) (\<lambda>rho_cap.
     and_then (calc_t env (g_t s) (g_uf s, g_vf s, g_wf s) rho_cap (g_kappa s) (g_dt s)
                 (g_dxyz s) (g_obst s)) (\<lambda>(t1, uvwf0).
     Inr (s\<lparr>g_uf := fst uvwf0, g_vf := fst (snd uvwf0), g_wf := snd (snd uvwf0), g_t := t1,
            g_out := g_out s
              @ [Call_calc_t (g_t s) (g_uf s, g_vf s, g_wf s) rho_cap (g_kappa s) (g_dt s)
                   (g_dxyz s) (g_obst s)]\<rparr>)))"

definition transport_momentum ::
  "env \<Rightarrow> (sim \<Rightarrow> ndarray \<times> ndarray \<times> ndarray) \<Rightarrow> (sim \<Rightarrow> ndarray) \<Rightarrow> sim \<Rightarrow> py_error + sim" where
  "transport_momentum env source total_pressure s =
     and_then (calc_uvw env (g_uc s, g_vc s, g_wc s) (g_uf s, g_vf s, g_wf s) (g_rho s) (g_mu s)
                 (total_pressure s) (source s) (g_dt s) (g_dxyz s) (g_obst s)) (\<lambda>(uvwc1, uvwf1).
     Inr (s\<lparr>g_uc := fst uvwc1, g_vc := fst (snd uvwc1), g_wc := snd (snd uvwc1),
            g_uf := fst uvwf1, g_vf := fst (snd uvwf1), g_wf := snd (snd uvwf1),
            g_out := g_out s
              @ [Call_calc_uvw (g_uc s, g_vc s, g_wc s) (g_uf s, g_vf s, g_wf s) (g_rho s) (g_mu s)
                   (total_pressure s) (source s) (g_dt s) (g_dxyz s) (g_obst s)]\<rparr>))"

definition pressure_correction :: "env \<Rightarrow> bool \<Rightarrow> sim \<Rightarrow> py_error + sim" where
  "pressure_correction env accumulate s =
     and_then (calc_p env (g_p s) (g_uf s, g_vf s, g_wf s) (g_rho s) (g_dt s) (g_dxyz s) (g_obst s))
       (\<lambda>r.
     and_then (if accumulate then arr_binop (+) (g_p_tot s) (val (p_after r))
               else Inr (g_p_tot s)) (\<lambda>p_tot.
     Inr (s\<lparr>g_uf := fst (uvwf_after r), g_vf := fst (snd (uvwf_after r)),
            g_wf := snd (snd (uvwf_after r)), g_p := p_after r, g_p_tot := p_tot,
            g_rho := rho_after r, g_obst := obst_after r, g_dt := dt_after r,
            g_dxyz := dxyz_after r,
            g_out := g_out s
              @ [Call_calc_p (g_p s) (g_uf s, g_vf s, g_wf s) (g_rho s) (g_dt s) (g_dxyz s)
                   (g_obst s)]
              @ events r\<rparr>)))"

definition correct_velocities :: "env \<Rightarrow> sim \<Rightarrow> py_error + sim" where
  "correct_velocities env s =
     and_then (corr_uvw env (g_uc s, g_vc s, g_wc s) (g_p s) (g_rho s) (g_dt s) (g_dxyz s)
                 (g_obst s)) (\<lambda>(uvwc2, p2).
     and_then (corr_uvw env (g_uf s, g_vf s, g_wf s) p2 (g_rho s) (g_dt s) (g_dxyz s)
                 (g_obst s)) (\<lambda>(uvwf3, p3).
     Inr (s\<lparr>g_uc := fst uvwc2, g_vc := fst (snd uvwc2), g_wc := snd (snd uvwc2),
            g_uf := fst uvwf3, g_vf := fst (snd uvwf3), g_wf := snd (snd uvwf3), g_p := p3,
            g_out := g_out s
              @ [Call_corr_uvw (g_uc s, g_vc s, g_wc s) (g_p s) (g_rho s) (g_dt s) (g_dxyz s)
                   (g_obst s),
                 Call_corr_uvw (g_uf s, g_vf s, g_wf s) p2 (g_rho s) (g_dt s) (g_dxyz s)
                   (g_obst s)]\<rparr>)))"

definition report_volume_error :: "env \<Rightarrow> sim \<Rightarrow> py_error + sim" where
  "report_volume_error env s =
     and_then (vol_balance env (g_uf s, g_vf s, g_wf s) (g_dxyz s) (g_obst s)) (\<lambda>err.
     and_then (amax (abs_arr err)) (\<lambda>m.
     Inr (s\<lparr>g_out := g_out s
              @ [Call_vol_balance (g_uf s, g_vf s, g_wf s) (g_dxyz s) (g_obst s),
                 Print_float ''Maximum volume error after correction'' m]\<rparr>)))"

definition report_cfl :: "env \<Rightarrow> sim \<Rightarrow> py_error + sim" where
  "report_cfl env s =
     and_then (cfl_max env (g_uc s, g_vc s, g_wc s) (g_dt s) (g_dxyz s)) (\<lambda>cfl.
     Inr (s\<lparr>g_out := g_out s
              @ [Call_cfl_max (g_uc s, g_vc s, g_wc s) (g_dt s) (g_dxyz s),
                 Print_float ''Maximum CFL number'' cfl]\<rparr>))"

fun plot_all :: "env \<Rightarrow> ndarray list \<Rightarrow> sim \<Rightarrow> py_error + sim" where
  "plot_all env [] s = Inr s"
| "plot_all env (phi # phis) s =
     and_then (plot_isolines env phi (g_uc s, g_vc s, g_wc s) (g_xyzn s) Pos_Z) (\<lambda>u.
     plot_all env phis
       (s\<lparr>g_out := g_out s
              @ [Call_plot_isolines phi (g_uc s, g_vc s, g_wc s) (g_xyzn s) Pos_Z]\<rparr>))"

definition visualise :: "env \<Rightarrow> bool \<Rightarrow> (sim \<Rightarrow> ndarray list) \<Rightarrow> sim \<Rightarrow> py_error + sim" where
  "visualise env due shown s = (if due then plot_all env (shown s) s else Inr s)"

definition phases_plumes :: "env \<Rightarrow> nat \<Rightarrow> (sim \<Rightarrow> py_error + sim) list" where
  "phases_plumes env ts =
     [announce ts,
      store_old_values,
      transport_scalar env,
      transport_momentum env
        (\<lambda>s. (zeros (g_rc s), scalar_mul 150 (val (g_t s)), zeros (g_rc s)))
        (\<lambda>s. zeros (g_rc s)),
      pressure_correction env False,
      correct_velocities env,
      report_volume_error env,
      report_cfl env,
      visualise env (ts mod 150 = 0) (\<lambda>s. [val (g_t s), val (g_p s)])]"

definition phases_cavity :: "env \<Rightarrow> bool \<Rightarrow> nat \<Rightarrow> (sim \<Rightarrow> py_error + sim) list" where
  "phases_cavity env show_plot ts =
     [announce ts,
      store_old_values,
      transport_scalar env,
      transport_momentum env (\<lambda>s. (zeros (g_rc s), val (g_t s), zeros (g_rc s))) g_p_tot,
      pressure_correction env True,
      correct_velocities env,
      report_volume_error env,
      report_cfl env,
      visualise env (show_plot \<and> ts mod 20 = 0) (\<lambda>s. [val (g_t s)])]"

text \<open>The obstacle script stores the old cell velocities only, transports no scalar, and
  draws the pressure every twentieth step.\<close>

definition store_old_velocities :: "sim \<Rightarrow> py_error + sim" where
  "store_old_velocities s =
     and_then (store_old (g_uc s)) (\<lambda>uc.
     and_then (store_old (g_vc s)) (\<lambda>vc.
     and_then (store_old (g_wc s)) (\<lambda>wc.
     Inr (s\<lparr>g_uc := uc, g_vc := vc, g_wc := wc\<rparr>))))"

definition phases_obstacles :: "env \<Rightarrow> nat \<Rightarrow> (sim \<Rightarrow> py_error + sim) list" where
  "phases_obstacles env ts =
     [announce ts,
      store_old_velocities,
      transport_momentum env (\<lambda>s. (zeros (g_rc s), zeros (g_rc s), zeros (g_rc s)))
        (\<lambda>s. zeros (g_rc s)),
      pressure_correction env False,
      correct_velocities env,
      report_volume_error env,
      report_cfl env,
      visualise env (ts mod 20 = 0) (\<lambda>s. [val (g_p s)])]"

text \<open>
  What is assumed of \<open>calc_t\<close>, \<open>calc_uvw\<close> and \<open>corr_uvw\<close> where a property of the
  snapshots \<open>old\<close> is at stake: they leave the snapshot of every field they are handed
  as they found it.
\<close>

definition olds :: "uvw \<Rightarrow> ndarray \<times> ndarray \<times> ndarray" where
  "olds uvw0 = (case uvw0 of (u, v, w) \<Rightarrow> (old u, old v, old w))"

definition preserves_old :: "env \<Rightarrow> bool" where
  "preserves_old env =
     ((\<forall>phi uvwf rho_cap kappa dt dxyz obst phi' uvwf'.
         calc_t env phi uvwf rho_cap kappa dt dxyz obst = Inr (phi', uvwf')
         \<longrightarrow> old phi' = old phi \<and> olds uvwf' = olds uvwf)
      \<and> (\<forall>uvwc uvwf rho mu p_tot ef dt dxyz obst uvwc' uvwf'.
         calc_uvw env uvwc uvwf rho mu p_tot ef dt dxyz obst = Inr (uvwc', uvwf')
         \<longrightarrow> olds uvwc' = olds uvwc \<and> olds uvwf' = olds uvwf)
      \<and> (\<forall>uvw0 phi rho dt dxyz obst uvw1 phi'.
         corr_uvw env uvw0 phi rho dt dxyz obst = Inr (uvw1, phi')
         \<longrightarrow> olds uvw1 = olds uvw0 \<and> old phi' = old phi))"

text \<open>\<open>stored phi phi'\<close>: the snapshot of \<open>phi'\<close> is what the statement
  \<open>phi.old[:] = phi.val[:]\<close> makes of \<open>phi\<close>. \<open>same_olds\<close>: no snapshot differs between
  two states. \<open>faces_old\<close>: the snapshots of the three face-velocity fields.\<close>

definition same_olds :: "sim \<Rightarrow> sim \<Rightarrow> bool" where
  "same_olds s s' =
     (old (g_uc s') = old (g_uc s) \<and> old (g_vc s') = old (g_vc s) \<and> old (g_wc s') = old (g_wc s)
      \<and> old (g_uf s') = old (g_uf s) \<and> old (g_vf s') = old (g_vf s) \<and> old (g_wf s') = old (g_wf s)
      \<and> old (g_t s') = old (g_t s) \<and> old (g_p s') = old (g_p s))"

definition stored :: "unknown \<Rightarrow> unknown \<Rightarrow> bool" where
  "stored phi phi' = (assign_all (old phi) (val phi) = Inr (old phi'))"

definition faces_old :: "sim \<Rightarrow> ndarray \<times> ndarray \<times> ndarray" where
  "faces_old s = (old (g_uf s), old (g_vf s), old (g_wf s))"

text \<open>One pressure-correction cycle: \<open>calc_p\<close>, the two calls of \<open>corr_uvw\<close> and the
  volume balance that is reported after them (lines 129 to 139 of
  \<open>test-obstacles-collocated.py\<close>). \<open>volume_errors\<close> reads from the output the maximum
  volume error that \<open>calc_p\<close> printed before the correction and the one printed after.\<close>

definition correction_cycle :: "env \<Rightarrow> sim \<Rightarrow> py_error + sim" where
  "correction_cycle env s =
     seq [pressure_correction env False, correct_velocities env, report_volume_error env] s"

definition volume_errors :: "event list \<Rightarrow> real list" where
  "volume_errors es = concat (map (\<lambda>e. case e of
       Print_float l x \<Rightarrow>
         (if l = ''Maximum volume error before correction''
             \<or> l = ''Maximum volume error after correction'' then [x] else [])
     | _ \<Rightarrow> []) es)"

definition strictly_reduced :: "real list \<Rightarrow> bool" where
  "strictly_reduced ms = (case ms of [m0, m1] \<Rightarrow> m1 < m0 | _ \<Rightarrow> False)"

text \<open>
  Modelled from the spec: \<open>vol_balance\<close> is not among the sources. Section 4.3: the
  "per-cell net outflow = sum over six faces of (face velocity times face area), with
  sign convention outward-positive", with "no obstacle masking applied at this stage".
  The face velocities of a cell are the interior values of the staggered field between
  two cells and the boundary values on the faces of the domain; the cell widths are
  read as arrays over the cells; the mask gives the cell resolution. A shape that does
  not fit is a fatal precondition violation (section 4.1).
\<close>

definition u_face :: "unknown \<Rightarrow> nat \<Rightarrow> nat \<Rightarrow> nat \<Rightarrow> nat \<Rightarrow> real" where
  "u_face fu nx i j k =
     (if i = 0 then get3 (bc_val (bnd fu ! 0)) 0 j k
      else if i = nx then get3 (bc_val (bnd fu ! 1)) 0 j k
      else get3 (val fu) (i - 1) j k)"

definition v_face :: "unknown \<Rightarrow> nat \<Rightarrow> nat \<Rightarrow> nat \<Rightarrow> nat \<Rightarrow> real" where
  "v_face fv ny i j k =
     (if j = 0 then get3 (bc_val (bnd fv ! 2)) i 0 k
      else if j = ny then get3 (bc_val (bnd fv ! 3)) i 0 k
      else get3 (val fv) i (j - 1) k)"

definition w_face :: "unknown \<Rightarrow> nat \<Rightarrow> nat \<Rightarrow> nat \<Rightarrow> nat \<Rightarrow> real" where
  "w_face fw nz i j k =
     (if k = 0 then get3 (bc_val (bnd fw ! 4)) i j 0
      else if k = nz then get3 (bc_val (bnd fw ! 5)) i j 0
      else get3 (val fw) i j (k - 1))"

definition has_shape :: "ndarray \<Rightarrow> shape3 \<Rightarrow> bool" where
  "has_shape a rc = (shape a = rc \<and> wf_array a)"

definition staggered_ok :: "uvw \<Rightarrow> spacings \<Rightarrow> shape3 \<Rightarrow> bool" where
  "staggered_ok uvwf dxyz rc = (case (uvwf, dxyz, rc) of ((fu, fv, fw), (dx, dy, dz), (nx, ny, nz)) \<Rightarrow>
     0 < nx \<and> 0 < ny \<and> 0 < nz \<and> length (bnd fu) = 6 \<and> length (bnd fv) = 6 \<and> length (bnd fw) = 6
     \<and> has_shape dx rc \<and> has_shape dy rc \<and> has_shape dz rc
     \<and> has_shape (val fu) (nx - 1, ny, nz) \<and> has_shape (val fv) (nx, ny - 1, nz)
     \<and> has_shape (val fw) (nx, ny, nz - 1)
     \<and> has_shape (bc_val (bnd fu ! 0)) (1, ny, nz) \<and> has_shape (bc_val (bnd fu ! 1)) (1, ny, nz)
     \<and> has_shape (bc_val (bnd fv ! 2)) (nx, 1, nz) \<and> has_shape (bc_val (bnd fv ! 3)) (nx, 1, nz)
     \<and> has_shape (bc_val (bnd fw ! 4)) (nx, ny, 1) \<and> has_shape (bc_val (bnd fw ! 5)) (nx, ny, 1))"

definition vol_balance_spec :: "uvw \<Rightarrow> spacings \<Rightarrow> ndarray \<Rightarrow> py_error + ndarray" where
  "vol_balance_spec uvwf dxyz obst =
     (case (uvwf, dxyz, shape obst) of ((fu, fv, fw), (dx, dy, dz), (nx, ny, nz)) \<Rightarrow>
        if staggered_ok uvwf dxyz (nx, ny, nz)
        then Inr \<lparr>shape = (nx, ny, nz),
                flat = map (\<lambda>(i, j, k).
                    (u_face fu nx (i + 1) j k - u_face fu nx i j k) * (get3 dy i j k * get3 dz i j k)
                  + (v_face fv ny i (j + 1) k - v_face fv ny i j k) * (get3 dx i j k * get3 dz i j k)
                  + (w_face fw nz i j (k + 1) - w_face fw nz i j k) * (get3 dx i j k * get3 dy i j k))
                  (indices (nx, ny, nz))\<rparr>
        else Inl ValueError)"

section \<open>Small instances\<close>

text \<open>
  Concrete inputs on which the theorems below are run. \<open>ex_unknown\<close> is a field with
  zero values and six Neumann faces, as \<open>create_unknown\<close> with NEUMANN would build it.
  \<open>ex_env\<close> fixes what the outside routines return: the divergence source \<open>src\<close>, the
  solver's iterate \<open>x\<close> and its \<open>info\<close>; its matrix is the one-dimensional Poisson
  operator on three cells, and the right-hand side its \<open>create_matrix\<close> returns is
  \<open>[9, 9, 9]\<close>. \<open>ex_sim\<close> is a script state on three cells in a row.
\<close>

definition ex_face :: "shape3 \<Rightarrow> bnd_face" where
  "ex_face rc = \<lparr>bc_typ = replicate (prod_shape rc) NEUMANN, bc_val = zeros rc\<rparr>"

definition ex_unknown :: "position \<Rightarrow> shape3 \<Rightarrow> unknown" where
  "ex_unknown d rc = (case rc of (nx, ny, nz) \<Rightarrow>
     \<lparr>pos = d, val = zeros rc, old = zeros rc,
      bnd = [ex_face (1, ny, nz), ex_face (1, ny, nz), ex_face (nx, 1, nz), ex_face (nx, 1, nz),
             ex_face (nx, ny, 1), ex_face (nx, ny, 1)]\<rparr>)"

definition ex_matrix :: matrix where
  "ex_matrix = [[1, -1, 0], [-1, 2, -1], [0, -1, 1]]"

definition ex_env :: "real list \<Rightarrow> real list \<Rightarrow> int \<Rightarrow> env" where
  "ex_env src x info =
     \<lparr>TOL = 1 / 10 ^ 8,
      create_matrix = (\<lambda>phi b c dxyz obst m. Inr (ex_matrix, b\<lparr>flat := [9, 9, 9]\<rparr>)),
      vol_balance = (\<lambda>uvwf dxyz obst. Inr (obst\<lparr>flat := src\<rparr>)),
      bicgstab = (\<lambda>A b tol. Inr (x, info)),
      obst_zero_face = (\<lambda>d v obst. Inl OtherError),
      calc_t = (\<lambda>phi uvwf rho_cap kappa dt dxyz obst.
         Inr (phi\<lparr>val := scalar_mul 2 (val phi)\<rparr>, uvwf)),
      calc_uvw = (\<lambda>uvwc uvwf rho mu p_tot ef dt dxyz obst. Inr (uvwc, uvwf)),
      corr_uvw = (\<lambda>uvw0 phi rho dt dxyz obst. Inr (uvw0, phi)),
      cfl_max = (\<lambda>uvwc dt dxyz. Inr 0),
      plot_isolines = (\<lambda>phi uvwc xyzn d. Inr ())\<rparr>"

definition ex_uvwf :: uvw where
  "ex_uvwf = (ex_unknown Pos_X (2, 1, 1), ex_unknown Pos_Y (3, 0, 1), ex_unknown Pos_Z (3, 1, 0))"

definition ex_ones :: ndarray where
  "ex_ones = \<lparr>shape = (3, 1, 1), flat = [1, 1, 1]\<rparr>"

definition ex_obst :: ndarray where
  "ex_obst = \<lparr>shape = (3, 1, 1), flat = [0, 1, 0]\<rparr>"

definition ex_sim :: "ndarray \<Rightarrow> sim" where
  "ex_sim obst =
     \<lparr>g_uc = (ex_unknown Pos_C (3, 1, 1))\<lparr>val := ex_ones\<rparr>,
      g_vc = ex_unknown Pos_C (3, 1, 1), g_wc = ex_unknown Pos_C (3, 1, 1),
      g_uf = ex_unknown Pos_X (2, 1, 1), g_vf = ex_unknown Pos_Y (3, 0, 1),
      g_wf = ex_unknown Pos_Z (3, 1, 0),
      g_t = (ex_unknown Pos_C (3, 1, 1))\<lparr>val := ex_ones\<rparr>, g_p = ex_unknown Pos_C (3, 1, 1),
      g_p_tot = zeros (3, 1, 1), g_rho = ex_ones, g_mu = ex_ones, g_cap = ex_ones,
      g_kappa = ex_ones, g_obst = obst, g_dt = 1 / 10, g_dxyz = (ex_ones, ex_ones, ex_ones),
      g_rc = (3, 1, 1), g_xyzn = ([0, 1, 2, 3], [0, 1], [0, 1]), g_out = []\<rparr>"

text \<open>
  Modelled from the spec: an instance of the outside routines on two cells in a row with
  unit spacings, for a velocity field that is already free of divergence. \<open>vol_balance\<close>
  is \<open>vol_balance_spec\<close>. Of \<open>create_matrix\<close>, \<open>bicgstab\<close> and \<open>corr_uvw\<close> the instance
  fixes only what the spec says at such a field, and raises elsewhere: the all-Neumann
  Poisson operator on two cells (section 4.2); on a right-hand side of zeros the solver
  stops at once with the zero iterate and \<open>info = 0\<close> (section 8, first scenario); the
  velocity correction subtracts a pressure gradient (section 4.6), which is zero for a
  pressure field that is zero in the cells and on the boundary.
\<close>

definition zero_field :: "unknown \<Rightarrow> bool" where
  "zero_field phi =
     (list_all (\<lambda>v. v = 0) (flat (val phi))
      \<and> list_all (\<lambda>f. list_all (\<lambda>v. v = 0) (flat (bc_val f))) (bnd phi))"

definition c6_env :: env where
  "c6_env =
     \<lparr>TOL = 1 / 10 ^ 8,
      create_matrix = (\<lambda>phi b c dxyz obst m. Inr ([[1, -1], [-1, 1]], b)),
      vol_balance = vol_balance_spec,
      bicgstab = (\<lambda>A b tol. if list_all (\<lambda>v. v = 0) b then Inr (replicate (length b) 0, 0)
                            else Inl OtherError),
      obst_zero_face = (\<lambda>d v obst. Inl OtherError),
      calc_t = (\<lambda>phi uvwf rho_cap kappa dt dxyz obst. Inl OtherError),
      calc_uvw = (\<lambda>uvwc uvwf rho mu p_tot ef dt dxyz obst. Inl OtherError),
      corr_uvw = (\<lambda>uvw0 phi rho dt dxyz obst.
         if zero_field phi then Inr (uvw0, phi) else Inl OtherError),
      cfl_max = (\<lambda>uvwc dt dxyz. Inl OtherError),
      plot_isolines = (\<lambda>phi uvwc xyzn d. Inl OtherError)\<rparr>"

definition c6_ones :: ndarray where
  "c6_ones = \<lparr>shape = (2, 1, 1), flat = [1, 1]\<rparr>"

text \<open>A uniform flow of speed one along x through two cells: in through the west face,
  out through the east face.\<close>

definition c6_uf :: unknown where
  "c6_uf = \<lparr>pos = Pos_X, val = \<lparr>shape = (1, 1, 1), flat = [1]\<rparr>, old = zeros (1, 1, 1),
     bnd = [\<lparr>bc_typ = [DIRICHLET], bc_val = \<lparr>shape = (1, 1, 1), flat = [1]\<rparr>\<rparr>,
            \<lparr>bc_typ = [OUTLET], bc_val = \<lparr>shape = (1, 1, 1), flat = [1]\<rparr>\<rparr>,
            ex_face (1, 1, 1), ex_face (1, 1, 1), ex_face (1, 1, 1), ex_face (1, 1, 1)]\<rparr>"

definition c6_sim :: sim where
  "c6_sim =
     \<lparr>g_uc = (ex_unknown Pos_C (2, 1, 1))\<lparr>val := c6_ones\<rparr>,
      g_vc = ex_unknown Pos_C (2, 1, 1), g_wc = ex_unknown Pos_C (2, 1, 1),
      g_uf = c6_uf, g_vf = ex_unknown Pos_Y (2, 0, 1), g_wf = ex_unknown Pos_Z (2, 1, 0),
      g_t = ex_unknown Pos_C (2, 1, 1), g_p = ex_unknown Pos_C (2, 1, 1),
      g_p_tot = zeros (2, 1, 1), g_rho = c6_ones, g_mu = c6_ones, g_cap = c6_ones,
      g_kappa = c6_ones, g_obst = zeros (2, 1, 1), g_dt = 1, g_dxyz = (c6_ones, c6_ones, c6_ones),
      g_rc = (2, 1, 1), g_xyzn = ([0, 1, 2], [0, 1], [0, 1]), g_out = []\<rparr>"

text \<open>
  Modelled from the spec: an instance of \<open>create_matrix\<close> in pressure mode (section 4.2)
  for unit coefficients and no obstacles, the seven-diagonal operator with \<open>-1\<close> for
  every pair of neighbouring cells and the number of neighbours on the diagonal (Neumann
  boundaries contribute nothing). \<open>solver_env cap\<close> is an instance of the routines
  outside the sources with this operator, the volume balance of section 4.3 and the
  model of the solver with iteration cap \<open>cap\<close>; the routines of the time loop are not
  part of it and raise. \<open>flow_x us\<close> is a flow along x through three cells in a row,
  with the face velocities \<open>us\<close> between the cells and closed ends;
  \<open>fluid_at_rest\<close> has velocity zero on every face; \<open>ones\<close> is an array of ones.
\<close>

definition neighbours :: "nat \<times> nat \<times> nat \<Rightarrow> nat \<times> nat \<times> nat \<Rightarrow> bool" where
  "neighbours c d = (case (c, d) of ((i, j, k), (i', j', k')) \<Rightarrow>
     (j = j' \<and> k = k' \<and> (i = Suc i' \<or> i' = Suc i))
     \<or> (i = i' \<and> k = k' \<and> (j = Suc j' \<or> j' = Suc j))
     \<or> (i = i' \<and> j = j' \<and> (k = Suc k' \<or> k' = Suc k)))"

definition neumann_laplacian :: "shape3 \<Rightarrow> matrix" where
  "neumann_laplacian rc =
     map (\<lambda>c. map (\<lambda>d. if c = d then real (length (filter (neighbours c) (indices rc)))
                        else if neighbours c d then - 1 else 0) (indices rc)) (indices rc)"

definition solver_env :: "nat \<Rightarrow> env" where
  "solver_env cap =
     \<lparr>TOL = 1 / 10 ^ 8,
      create_matrix = (\<lambda>phi b c dxyz obst m. Inr (neumann_laplacian (shape (val phi)), b)),
      vol_balance = vol_balance_spec,
      bicgstab = bicgstab_spec cap,
      obst_zero_face = (\<lambda>d v obst. Inl OtherError),
      calc_t = (\<lambda>phi uvwf rho_cap kappa dt dxyz obst. Inl OtherError),
      calc_uvw = (\<lambda>uvwc uvwf rho mu p_tot ef dt dxyz obst. Inl OtherError),
      corr_uvw = (\<lambda>uvw0 phi rho dt dxyz obst. Inl OtherError),
      cfl_max = (\<lambda>uvwc dt dxyz. Inl OtherError),
      plot_isolines = (\<lambda>phi uvwc xyzn d. Inl OtherError)\<rparr>"

definition flow_x :: "real list \<Rightarrow> uvw" where
  "flow_x us = ((ex_unknown Pos_X (2, 1, 1))\<lparr>val := \<lparr>shape = (2, 1, 1), flat = us\<rparr>\<rparr>,
                ex_unknown Pos_Y (3, 0, 1), ex_unknown Pos_Z (3, 1, 0))"

definition ones :: "shape3 \<Rightarrow> ndarray" where
  "ones rc = \<lparr>shape = rc, flat = replicate (prod_shape rc) 1\<rparr>"

definition fluid_at_rest :: "shape3 \<Rightarrow> uvw" where
  "fluid_at_rest rc = (case rc of (nx, ny, nz) \<Rightarrow>
     (ex_unknown Pos_X (nx - 1, ny, nz), ex_unknown Pos_Y (nx, ny - 1, nz),
      ex_unknown Pos_Z (nx, ny, nz - 1)))"

text \<open>The objects of the first small instance in a store: the pressure field at the
  addresses from 0, the face velocities from 10, 20 and 30, the density at 40, the cell
  widths at 41 to 43 and the mask at 44. \<open>no_effects\<close> are callees that only read.\<close>

definition no_effects :: effects where
  "no_effects = \<lparr>fx_create_matrix = (\<lambda>h p dxyz obst. h), fx_vol_balance = (\<lambda>h uvwf dxyz. h)\<rparr>"

definition ex_field_ref :: "position \<Rightarrow> addr \<Rightarrow> field_ref" where
  "ex_field_ref d a =
     \<lparr>ref_pos = d, ref_val = a, ref_old = a + 1,
      ref_bnd = map (\<lambda>b. \<lparr>slab_typ = b, slab_val = b\<rparr>) [a + 2, a + 3, a + 4, a + 5, a + 6, a + 7]\<rparr>"

fun alloc_faces :: "heap \<Rightarrow> face_ref list \<Rightarrow> bnd_face list \<Rightarrow> heap" where
  "alloc_faces h (f # fs) (b # bs) =
     alloc_faces (h\<lparr>arrays := (arrays h)(slab_val f := bc_val b),
                     kinds := (kinds h)(slab_typ f := bc_typ b)\<rparr>) fs bs"
| "alloc_faces h _ _ = h"

definition alloc :: "field_ref \<Rightarrow> unknown \<Rightarrow> heap \<Rightarrow> heap" where
  "alloc q phi h =
     alloc_faces (h\<lparr>arrays := (arrays h)(ref_val q := val phi, ref_old q := old phi)\<rparr>)
       (ref_bnd q) (bnd phi)"

definition ex_heap :: "ndarray \<Rightarrow> heap" where
  "ex_heap obst =
     (alloc (ex_field_ref Pos_C 0) (ex_unknown Pos_C (3, 1, 1))
     (alloc (ex_field_ref Pos_X 10) (ex_unknown Pos_X (2, 1, 1))
     (alloc (ex_field_ref Pos_Y 20) (ex_unknown Pos_Y (3, 0, 1))
     (alloc (ex_field_ref Pos_Z 30) (ex_unknown Pos_Z (3, 1, 0))
       \<lparr>arrays = (\<lambda>a. if a = 44 then obst else if 40 \<le> a \<and> a \<le> 43 then ex_ones
                        else zeros (0, 0, 0)),
        kinds = (\<lambda>a. [])\<rparr>))))"

definition ex_uvwf_ref :: uvw_ref where
  "ex_uvwf_ref = (ex_field_ref Pos_X 10, ex_field_ref Pos_Y 20, ex_field_ref Pos_Z 30)"

section \<open>Properties\<close>




subsection \<open>Successful calls of \<open>calc_p\<close>\<close>

lemma and_then_simps [simp]: "and_then (Inl e) f = Inl e" "and_then (Inr x) f = f x"
  by (simp_all add: and_then_def)

lemma and_then_Inr: "and_then m f = Inr y \<longleftrightarrow> (\<exists>x. m = Inr x \<and> f x = Inr y)"
  by (cases m) simp_all

lemma calc_p_Inr:
  assumes "calc_p env p uvwf rho dt dxyz obst = Inr r"
  obtains A_p b0 b_p mx b res x v1 v2 v3 p' where
    "create_matrix env p (zeros (shape (val p))) (scalar_div dt rho) dxyz obst ''n'' = Inr (A_p, b0)"
    "vol_balance env uvwf dxyz (zeros (shape (val p))) = Inr b_p"
    "amax (abs_arr b_p) = Inr mx"
    "reshape_vec b_p (prod_shape (shape (val p))) = Inr b"
    "bicgstab env A_p b (TOL env) = Inr res"
    "reshape_arr (fst res) (shape (val p)) = Inr x"
    "assign_all (val p) x = Inr v1"
    "assign_all v1 (anchor v1) = Inr v2"
    "(if any_nonzero obst
      then and_then (obst_zero_val env (pos p) v2 obst) (assign_all v2)
      else Inr v2) = Inr v3"
    "adj_n_bnds (p\<lparr>val := v3\<rparr>) = Inr p'"
    "r = \<lparr>ret = PyNone, p_after = p', uvwf_after = uvwf, rho_after = rho, dt_after = dt,
           dxyz_after = dxyz, obst_after = obst,
           events =
             [Call_create_matrix p (zeros (shape (val p))) (scalar_div dt rho) dxyz obst ''n'',
              Call_vol_balance uvwf dxyz (zeros (shape (val p))),
              Print_float ''Maximum volume error before correction'' mx,
              Print_float ''Volume imbalance before correction'' (asum b_p),
              Call_bicgstab A_p b (TOL env),
              Print_int ''res[1] = '' (snd res)]
             @ (if any_nonzero obst then [Call_obst_zero_val (pos p) v2 obst] else [])
             @ [Call_adj_n_bnds (p\<lparr>val := v3\<rparr>)]\<rparr>"
  using assms unfolding calc_p_def Let_def
  by (auto simp: and_then_Inr split: prod.splits)

lemma reshape_arr_Inr:
  "reshape_arr x rc = Inr a \<Longrightarrow> a = \<lparr>shape = rc, flat = x\<rparr> \<and> length x = prod_shape rc"
  by (auto simp: reshape_arr_def split: if_splits)

lemma assign_all_same: "shape src = shape tgt \<Longrightarrow> assign_all tgt src = Inr (tgt\<lparr>flat := flat src\<rparr>)"
  by (simp add: assign_all_def)

lemma shape_anchor [simp]: "shape (anchor a) = shape a"
  by (simp add: anchor_def sub_scalar_def)

lemma length_anchor [simp]: "length (flat (anchor a)) = length (flat a)"
  by (simp add: anchor_def sub_scalar_def)

lemma assign_anchor: "assign_all a (anchor a) = Inr (anchor a)"
  by (simp add: assign_all_def anchor_def sub_scalar_def)

lemma adj_n_bnds_frame:
  "adj_n_bnds phi = Inr phi' \<Longrightarrow> val phi' = val phi \<and> old phi' = old phi \<and> pos phi' = pos phi"
  by (auto simp: adj_n_bnds_def and_then_Inr split: prod.splits if_splits)

lemma index3_less:
  assumes "i < nx" "j < ny" "k < nz"
  shows "index3 (nx, ny, nz) i j k < prod_shape (nx, ny, nz)"
proof -
  have "i * ny + j < i * ny + ny" using assms by simp
  also have "\<dots> = Suc i * ny" by simp
  also have "\<dots> \<le> nx * ny" using assms by (intro mult_le_mono1) simp
  finally have a: "Suc (i * ny + j) \<le> nx * ny" by simp
  have "(i * ny + j) * nz + k < (i * ny + j) * nz + nz" using assms by simp
  also have "\<dots> = Suc (i * ny + j) * nz" by simp
  also have "\<dots> \<le> nx * ny * nz" using a by (intro mult_le_mono1)
  finally show ?thesis by (simp add: index3_def prod_shape_def)
qed

text \<open>What a successful call of \<open>calc_p\<close> wrote into the pressure field, in terms
  of the iterate the solver returned.\<close>

lemma calc_p_val:
  assumes "calc_p env p uvwf rho dt dxyz obst = Inr r"
  obtains A_p b res v3 where
    "bicgstab env A_p b (TOL env) = Inr res"
    "length (fst res) = prod_shape (shape (val p))"
    "(if any_nonzero obst
      then and_then (obst_zero_val env (pos p) (anchor ((val p)\<lparr>flat := fst res\<rparr>)) obst)
             (assign_all (anchor ((val p)\<lparr>flat := fst res\<rparr>)))
      else Inr (anchor ((val p)\<lparr>flat := fst res\<rparr>))) = Inr v3"
    "val (p_after r) = v3" "old (p_after r) = old p" "pos (p_after r) = pos p"
proof -
  from assms obtain A_p b0 b_p mx b res x v1 v2 v3 p' where h:
    "bicgstab env A_p b (TOL env) = Inr res"
    "reshape_arr (fst res) (shape (val p)) = Inr x"
    "assign_all (val p) x = Inr v1"
    "assign_all v1 (anchor v1) = Inr v2"
    "(if any_nonzero obst
      then and_then (obst_zero_val env (pos p) v2 obst) (assign_all v2)
      else Inr v2) = Inr v3"
    "adj_n_bnds (p\<lparr>val := v3\<rparr>) = Inr p'"
    "p_after r = p'"
    by (rule calc_p_Inr) simp
  from h(2) have x: "x = \<lparr>shape = shape (val p), flat = fst res\<rparr>"
    and len: "length (fst res) = prod_shape (shape (val p))"
    using reshape_arr_Inr by blast+
  from h(3) have v1: "v1 = (val p)\<lparr>flat := fst res\<rparr>"
    by (simp add: x assign_all_def)
  from h(4) have v2: "v2 = anchor v1"
    by (simp add: assign_anchor)
  from adj_n_bnds_frame [OF h(6)] have "val p' = v3" "old p' = old p" "pos p' = pos p"
    by simp_all
  moreover note h(5) [unfolded v2 v1] h(1) len h(7)
  ultimately show ?thesis
    by (intro that [of A_p b res v3]) simp_all
qed

lemma obst_zero_val_C:
  assumes "obst_zero_val env Pos_C v obst = Inr z"
  shows "shape obst = shape v"
    and "z = v\<lparr>flat := map2 (\<lambda>x m. if m \<noteq> 0 then 0 else x) (flat v) (flat obst)\<rparr>"
  using assms by (auto simp: obst_zero_val_def split: if_splits)

lemma calc_p_flow:
  assumes "calc_p env p uvwf rho dt dxyz obst = Inr r"
  shows "\<exists>A b0 src mx res rest.
           create_matrix env p (zeros (shape (val p))) (scalar_div dt rho) dxyz obst ''n'' = Inr (A, b0)
           \<and> vol_balance env uvwf dxyz (zeros (shape (val p))) = Inr src
           \<and> amax (abs_arr src) = Inr mx
           \<and> bicgstab env A (flat src) (TOL env) = Inr res
           \<and> (if any_nonzero obst
               then and_then (obst_zero_val env (pos p) (anchor ((val p)\<lparr>flat := fst res\<rparr>)) obst)
                      (assign_all (anchor ((val p)\<lparr>flat := fst res\<rparr>)))
               else Inr (anchor ((val p)\<lparr>flat := fst res\<rparr>))) = Inr (val (p_after r))
           \<and> events r =
               [Call_create_matrix p (zeros (shape (val p))) (scalar_div dt rho) dxyz obst ''n'',
                Call_vol_balance uvwf dxyz (zeros (shape (val p))),
                Print_float ''Maximum volume error before correction'' mx,
                Print_float ''Volume imbalance before correction'' (asum src),
                Call_bicgstab A (flat src) (TOL env),
                Print_int ''res[1] = '' (snd res)] @ rest
           \<and> list_all (\<lambda>e. kind e = ''obst_zero_val'' \<or> kind e = ''adj_n_bnds'') rest"
proof -
  from assms obtain A_p b0 b_p mx b res x v1 v2 v3 p' where h:
    "create_matrix env p (zeros (shape (val p))) (scalar_div dt rho) dxyz obst ''n'' = Inr (A_p, b0)"
    "vol_balance env uvwf dxyz (zeros (shape (val p))) = Inr b_p"
    "amax (abs_arr b_p) = Inr mx"
    "reshape_vec b_p (prod_shape (shape (val p))) = Inr b"
    "bicgstab env A_p b (TOL env) = Inr res"
    "reshape_arr (fst res) (shape (val p)) = Inr x"
    "assign_all (val p) x = Inr v1"
    "assign_all v1 (anchor v1) = Inr v2"
    "(if any_nonzero obst
      then and_then (obst_zero_val env (pos p) v2 obst) (assign_all v2)
      else Inr v2) = Inr v3"
    "adj_n_bnds (p\<lparr>val := v3\<rparr>) = Inr p'"
    "r = \<lparr>ret = PyNone, p_after = p', uvwf_after = uvwf, rho_after = rho, dt_after = dt,
           dxyz_after = dxyz, obst_after = obst,
           events =
             [Call_create_matrix p (zeros (shape (val p))) (scalar_div dt rho) dxyz obst ''n'',
              Call_vol_balance uvwf dxyz (zeros (shape (val p))),
              Print_float ''Maximum volume error before correction'' mx,
              Print_float ''Volume imbalance before correction'' (asum b_p),
              Call_bicgstab A_p b (TOL env),
              Print_int ''res[1] = '' (snd res)]
             @ (if any_nonzero obst then [Call_obst_zero_val (pos p) v2 obst] else [])
             @ [Call_adj_n_bnds (p\<lparr>val := v3\<rparr>)]\<rparr>"
      by (rule calc_p_Inr)
  from h(4) have b: "b = flat b_p"
    by (simp add: reshape_vec_def split: if_splits)
  from h(6) have x: "x = \<lparr>shape = shape (val p), flat = fst res\<rparr>"
    using reshape_arr_Inr by blast
  from h(7) have v1: "v1 = (val p)\<lparr>flat := fst res\<rparr>"
    by (simp add: x assign_all_def)
  from h(8) have v2: "v2 = anchor v1"
    by (simp add: assign_anchor)
  from adj_n_bnds_frame [OF h(10)] have v: "val (p_after r) = v3"
    by (simp add: h(11))
  let ?rest = "(if any_nonzero obst then [Call_obst_zero_val (pos p) v2 obst] else [])
             @ [Call_adj_n_bnds (p\<lparr>val := v3\<rparr>)]"
  have "events r =
               [Call_create_matrix p (zeros (shape (val p))) (scalar_div dt rho) dxyz obst ''n'',
                Call_vol_balance uvwf dxyz (zeros (shape (val p))),
                Print_float ''Maximum volume error before correction'' mx,
                Print_float ''Volume imbalance before correction'' (asum b_p),
                Call_bicgstab A_p (flat b_p) (TOL env),
                Print_int ''res[1] = '' (snd res)] @ ?rest"
    by (simp add: h(11) b)
  moreover have "list_all (\<lambda>e. kind e = ''obst_zero_val'' \<or> kind e = ''adj_n_bnds'') ?rest"
    by simp
  moreover note h(1,2,3) h(5) [unfolded b] h(9) [unfolded v2 v1, folded v]
  ultimately show ?thesis by blast
qed


lemma calls_of_simps [simp]:
  "calls_of ks [] = []"
  "calls_of ks (e # es) = (if kind e \<in> set ks then e # calls_of ks es else calls_of ks es)"
  "calls_of ks (es @ es') = calls_of ks es @ calls_of ks es'"
  by (simp_all add: calls_of_def)

lemma calls_of_none:
  "list_all (\<lambda>e. kind e \<notin> set ks) es \<Longrightarrow> calls_of ks es = []"
  by (simp add: calls_of_def list_all_iff filter_empty_conv)


subsection \<open>Evaluating the small instances\<close>

lemmas ex_defs = ex_unknown_def ex_face_def ex_env_def ex_uvwf_def ex_ones_def ex_obst_def
  ex_matrix_def

lemmas np_defs = zeros_def prod_shape_def indices_def get3_def index3_def amax_def abs_arr_def
  reshape_vec_def reshape_arr_def assign_all_def anchor_def sub_scalar_def mean_def
  any_nonzero_def asum_def scalar_div_def scalar_mul_def arr_binop_def

lemmas bnd_defs = adj_n_bnds_def adjacent_layer_def close_face_def

lemmas solver_defs = bicgstab_spec_def bicgstab_trace_def dot_def axpy_def matvec_def

lemmas vb_defs = vol_balance_spec_def staggered_ok_def has_shape_def wf_array_def u_face_def
  v_face_def w_face_def

lemmas inst_defs = solver_env_def neumann_laplacian_def neighbours_def flow_x_def

lemmas run_defs = calc_p_def ex_defs np_defs bnd_defs obst_zero_val_def upt_rec Let_def

lemmas heap_defs = calc_p_heap_def write_all_def adj_n_bnds_heap_def load_def load_face_def
  load_uvw_def load_spacings_def ex_heap_def alloc_def ex_field_ref_def ex_uvwf_ref_def
  no_effects_def

lemma ex_run:
  "\<exists>r. calc_p (ex_env [2, -1, -1] [3, 5, 1] 7) (ex_unknown Pos_C (3, 1, 1)) ex_uvwf ex_ones (1 / 10)
     (ex_ones, ex_ones, ex_ones) ex_obst = Inr r"
  by (simp add: calc_p_def ex_defs np_defs bnd_defs obst_zero_val_def upt_rec Let_def)

subsection \<open>Obstacle cells\<close>

text \<open>
  C1. After a call of \<open>calc_p\<close> every cell flagged solid (nonzero) in the obstacle mask
  has pressure value exactly \<open>0\<close> in \<open>p.val\<close>, whatever the solver returned: for a
  cell-centred pressure field and a mask \<open>obst\<close> as numpy builds it, a call that
  returns leaves \<open>p.val\<close> in the shape of the mask with \<open>0\<close> at every index
  \<open>[i, j, k]\<close> at which the mask is nonzero. The masking routine \<open>obst_zero_val\<close> and
  the boundary closure \<open>adj_n_bnds\<close> are modelled from the spec.
\<close>

theorem solid_cells_zero:
  assumes run: "calc_p env p uvwf rho dt dxyz obst = Inr r"
    and cell: "pos p = Pos_C"
    and wf: "length (flat obst) = prod_shape (shape obst)"
    and rng: "i < fst (shape obst)" "j < fst (snd (shape obst))" "k < snd (snd (shape obst))"
    and solid: "get3 obst i j k \<noteq> 0"
  shows "shape (val (p_after r)) = shape obst \<and> get3 (val (p_after r)) i j k = 0"
proof -
  obtain nx ny nz where s: "shape obst = (nx, ny, nz)"
    by (cases "shape obst") auto
  define n where "n = index3 (shape obst) i j k"
  have n: "n < length (flat obst)"
    using rng index3_less [of i nx j ny k nz] by (simp add: n_def s wf)
  have nz: "flat obst ! n \<noteq> 0"
    using solid by (simp add: get3_def n_def)
  then have any: "any_nonzero obst"
    using n by (auto simp: any_nonzero_def list_ex_iff)
  from run obtain A_p b res v3 where
    "bicgstab env A_p b (TOL env) = Inr res" and h:
    "length (fst res) = prod_shape (shape (val p))"
    "(if any_nonzero obst
      then and_then (obst_zero_val env (pos p) (anchor ((val p)\<lparr>flat := fst res\<rparr>)) obst)
             (assign_all (anchor ((val p)\<lparr>flat := fst res\<rparr>)))
      else Inr (anchor ((val p)\<lparr>flat := fst res\<rparr>))) = Inr v3"
    "val (p_after r) = v3" "old (p_after r) = old p" "pos (p_after r) = pos p"
    by (rule calc_p_val)
  define v2 where "v2 = anchor ((val p)\<lparr>flat := fst res\<rparr>)"
  from h(2) any cell obtain z where z: "obst_zero_val env Pos_C v2 obst = Inr z"
    and a: "assign_all v2 z = Inr v3"
    by (auto simp: and_then_Inr v2_def)
  note zz = obst_zero_val_C [OF z]
  have sh: "shape v2 = shape (val p)" by (simp add: v2_def)
  have v3: "v3 = z" using a zz by (simp add: assign_all_def)
  have len: "length (flat v2) = length (flat obst)"
    using h(1) zz(1) sh by (simp add: v2_def wf)
  have "flat v3 ! n = 0"
    using n nz len by (simp add: v3 zz(2))
  moreover have "shape v3 = shape obst"
    by (simp add: v3 zz)
  ultimately show ?thesis
    by (simp add: h(3) get3_def n_def)
qed

theorem solid_cells_zero_witness:
  "\<exists>r. calc_p (ex_env [2, -1, -1] [3, 5, 1] 7) (ex_unknown Pos_C (3, 1, 1)) ex_uvwf ex_ones (1 / 10)
         (ex_ones, ex_ones, ex_ones) ex_obst = Inr r
       \<and> get3 ex_obst 1 0 0 \<noteq> 0
       \<and> shape (val (p_after r)) = shape ex_obst \<and> get3 (val (p_after r)) 1 0 0 = 0"
proof -
  from ex_run obtain r where
    run: "calc_p (ex_env [2, -1, -1] [3, 5, 1] 7) (ex_unknown Pos_C (3, 1, 1)) ex_uvwf ex_ones (1 / 10)
            (ex_ones, ex_ones, ex_ones) ex_obst = Inr r" ..
  have solid: "get3 ex_obst 1 0 0 \<noteq> 0"
    by (simp add: ex_obst_def get3_def index3_def)
  have "shape (val (p_after r)) = shape ex_obst \<and> get3 (val (p_after r)) 1 0 0 = 0"
    by (rule solid_cells_zero [OF run _ _ _ _ _ solid])
       (simp_all add: ex_unknown_def ex_obst_def prod_shape_def)
  with run solid show ?thesis by blast
qed

subsection \<open>What \<open>calc_p\<close> writes\<close>

lemma close_face_frame:
  "close_face layer f = Inr f' \<Longrightarrow>
     bc_typ f' = bc_typ f \<and> shape (bc_val f') = shape (bc_val f)"
  by (auto simp: close_face_def split: if_splits)

lemma close_faces_frame:
  "close_faces v ds fs = Inr fs' \<Longrightarrow>
     map bc_typ fs' = map bc_typ fs \<and> map (\<lambda>f. shape (bc_val f)) fs' = map (\<lambda>f. shape (bc_val f)) fs"
proof (induction v ds fs arbitrary: fs' rule: close_faces.induct)
  case (2 v d ds f fs)
  from "2.prems" obtain f' fs0 where
    f': "close_face (adjacent_layer d v) f = Inr f'" and
    fs0: "close_faces v ds fs = Inr fs0" and e: "fs' = f' # fs0"
    by (auto simp: and_then_Inr)
  from "2.IH" [OF fs0] close_face_frame [OF f'] e show ?case by simp
qed simp_all

lemma adj_n_bnds_bnd:
  "adj_n_bnds phi = Inr phi' \<Longrightarrow>
     map bc_typ (bnd phi') = map bc_typ (bnd phi)
     \<and> map (\<lambda>f. shape (bc_val f)) (bnd phi') = map (\<lambda>f. shape (bc_val f)) (bnd phi)"
  by (auto simp: adj_n_bnds_def and_then_Inr split: prod.splits if_splits dest: close_faces_frame)

lemma assign_all_shape: "assign_all tgt src = Inr v \<Longrightarrow> shape v = shape tgt"
  by (auto simp: assign_all_def broadcast_to_def split: if_splits prod.splits)

lemma calc_p_shape:
  assumes "calc_p env p uvwf rho dt dxyz obst = Inr r"
  shows "shape (val (p_after r)) = shape (val p)"
proof -
  from assms obtain A_p b res v3 where
    "bicgstab env A_p b (TOL env) = Inr res"
    "length (fst res) = prod_shape (shape (val p))" and
    v3: "(if any_nonzero obst
      then and_then (obst_zero_val env (pos p) (anchor ((val p)\<lparr>flat := fst res\<rparr>)) obst)
             (assign_all (anchor ((val p)\<lparr>flat := fst res\<rparr>)))
      else Inr (anchor ((val p)\<lparr>flat := fst res\<rparr>))) = Inr v3" and
    v: "val (p_after r) = v3" "old (p_after r) = old p" "pos (p_after r) = pos p"
    by (rule calc_p_val)
  from v3 have "shape v3 = shape (val p)"
    by (auto simp: and_then_Inr split: if_splits dest!: assign_all_shape)
  with v show ?thesis by simp
qed

text \<open>On values: what a call of \<open>calc_p\<close> that returns hands back besides the
  values and the boundary values of the pressure field.\<close>

lemma calc_p_leaves:
  assumes "calc_p env p uvwf rho dt dxyz obst = Inr r"
  shows "ret r = PyNone \<and> uvwf_after r = uvwf \<and> rho_after r = rho \<and> dt_after r = dt
         \<and> dxyz_after r = dxyz \<and> obst_after r = obst
         \<and> pos (p_after r) = pos p \<and> old (p_after r) = old p
         \<and> shape (val (p_after r)) = shape (val p)
         \<and> map bc_typ (bnd (p_after r)) = map bc_typ (bnd p)
         \<and> map (\<lambda>f. shape (bc_val f)) (bnd (p_after r)) = map (\<lambda>f. shape (bc_val f)) (bnd p)"
proof -
  from assms obtain A_p b0 b_p mx b res x v1 v2 v3 p' where
    p': "adj_n_bnds (p\<lparr>val := v3\<rparr>) = Inr p'" and
    r: "ret r = PyNone" "p_after r = p'" "uvwf_after r = uvwf" "rho_after r = rho"
       "dt_after r = dt" "dxyz_after r = dxyz" "obst_after r = obst"
    by (rule calc_p_Inr) simp
  from adj_n_bnds_frame [OF p'] adj_n_bnds_bnd [OF p'] calc_p_shape [OF assms] r
  show ?thesis by simp
qed


lemma write_all_frame:
  assumes "write_all h a src = Inr h'"
  shows "kinds h' = kinds h" "\<And>b. b \<noteq> a \<Longrightarrow> arrays h' b = arrays h b"
  using assms by (auto simp: write_all_def and_then_Inr)

lemma store_slabs_frame:
  "kinds (store_slabs h fs bs) = kinds h
   \<and> (\<forall>a. a \<notin> slab_val ` set fs \<longrightarrow> arrays (store_slabs h fs bs) a = arrays h a)"
  by (induction h fs bs rule: store_slabs.induct) auto

lemma adj_n_bnds_heap_frame:
  assumes "adj_n_bnds_heap h q = Inr h'"
  shows "kinds h' = kinds h" "\<And>a. a \<notin> slab_val ` set (ref_bnd q) \<Longrightarrow> arrays h' a = arrays h a"
  using assms store_slabs_frame by (auto simp: adj_n_bnds_heap_def and_then_Inr)

lemma calc_p_heap_Inr:
  assumes "calc_p_heap env fx h p uvwf rho dt dxyz obst = Inr (rv, h', out)"
  obtains A_p b0 b_p mx b res x h3 h4 h5 where
    "create_matrix env (load h p) (zeros (shape (arrays h (ref_val p)))) (scalar_div dt (arrays h rho))
       (load_spacings h dxyz) (arrays h obst) ''n'' = Inr (A_p, b0)"
    "vol_balance env (load_uvw (fx_create_matrix fx h p dxyz obst) uvwf)
       (load_spacings (fx_create_matrix fx h p dxyz obst) dxyz)
       (zeros (shape (arrays h (ref_val p)))) = Inr b_p"
    "amax (abs_arr b_p) = Inr mx"
    "reshape_vec b_p (prod_shape (shape (arrays h (ref_val p)))) = Inr b"
    "bicgstab env A_p b (TOL env) = Inr res"
    "reshape_arr (fst res) (shape (arrays h (ref_val p))) = Inr x"
    "write_all (fx_vol_balance fx (fx_create_matrix fx h p dxyz obst) uvwf dxyz) (ref_val p) x = Inr h3"
    "write_all h3 (ref_val p) (anchor (arrays h3 (ref_val p))) = Inr h4"
    "(if any_nonzero (arrays h4 obst)
      then and_then (obst_zero_val env (ref_pos p) (arrays h4 (ref_val p)) (arrays h4 obst))
             (write_all h4 (ref_val p))
      else Inr h4) = Inr h5"
    "adj_n_bnds_heap h5 p = Inr h'"
    "rv = PyNone"
    "out = [Print_float ''Maximum volume error before correction'' mx,
            Print_float ''Volume imbalance before correction'' (asum b_p),
            Print_int ''res[1] = '' (snd res)]"
  using assms unfolding calc_p_heap_def Let_def
  by (auto simp: and_then_Inr split: prod.splits)

lemma load_frame:
  assumes "kinds h' = kinds h" "\<And>a. a \<in> field_addrs q \<Longrightarrow> arrays h' a = arrays h a"
  shows "load h' q = load h q"
proof -
  have "map (load_face h') (ref_bnd q) = map (load_face h) (ref_bnd q)"
    using assms by (intro map_cong) (auto simp: load_face_def field_addrs_def)
  then show ?thesis
    using assms by (simp add: load_def field_addrs_def)
qed

text \<open>
  C8. \<open>calc_p\<close> returns no value and mutates only the pressure field: its value array
  and, through the Neumann closure, its boundary value slabs. For a call on the store
  that returns:
  \<^item> the value returned is \<open>None\<close>;
  \<^item> every array other than \<open>p.val\<close> and the boundary value slabs of \<open>p\<close>, and
    every array of boundary kinds, is as \<open>create_matrix\<close> and \<open>vol_balance\<close> left
    it: \<open>calc_p\<close> itself writes nowhere else;
  \<^item> when \<open>create_matrix\<close> and \<open>vol_balance\<close> only read their arguments, every such
    array is as it was before the call;
  \<^item> then the three face-velocity fields, the density field, the grid spacings and the
    obstacle mask are unchanged, as long as none of their arrays is \<open>p.val\<close> or a
    slab of \<open>p\<close> (the time step is a number and cannot change), and of the pressure
    field the position, the snapshot \<open>old\<close> and the boundary kinds are unchanged.
  That \<open>create_matrix\<close> and \<open>vol_balance\<close> only read is a hypothesis: they are not
  among the sources.
\<close>

theorem calc_p_frame:
  assumes run: "calc_p_heap env fx h p uvwf rho dt dxyz obst = Inr (rv, h', out)"
  shows "rv = PyNone
         \<and> kinds h' = kinds (fx_vol_balance fx (fx_create_matrix fx h p dxyz obst) uvwf dxyz)
         \<and> (\<forall>a. a \<notin> written p \<longrightarrow>
               arrays h' a
                 = arrays (fx_vol_balance fx (fx_create_matrix fx h p dxyz obst) uvwf dxyz) a)
         \<and> (read_only fx \<longrightarrow>
               kinds h' = kinds h \<and> (\<forall>a. a \<notin> written p \<longrightarrow> arrays h' a = arrays h a))
         \<and> (read_only fx \<and> separate p uvwf rho dxyz obst \<longrightarrow>
               load_uvw h' uvwf = load_uvw h uvwf \<and> arrays h' rho = arrays h rho
               \<and> load_spacings h' dxyz = load_spacings h dxyz \<and> arrays h' obst = arrays h obst)
         \<and> (read_only fx \<and> ref_old p \<notin> written p \<longrightarrow>
               pos (load h' p) = pos (load h p) \<and> old (load h' p) = old (load h p)
               \<and> map bc_typ (bnd (load h' p)) = map bc_typ (bnd (load h p)))"
proof -
  let ?h2 = "fx_vol_balance fx (fx_create_matrix fx h p dxyz obst) uvwf dxyz"
  from run obtain x h3 h4 h5 where
    w1: "write_all ?h2 (ref_val p) x = Inr h3" and
    w2: "write_all h3 (ref_val p) (anchor (arrays h3 (ref_val p))) = Inr h4" and
    w3: "(if any_nonzero (arrays h4 obst)
      then and_then (obst_zero_val env (ref_pos p) (arrays h4 (ref_val p)) (arrays h4 obst))
             (write_all h4 (ref_val p))
      else Inr h4) = Inr h5" and
    cl: "adj_n_bnds_heap h5 p = Inr h'" and
    rv: "rv = PyNone"
    by (rule calc_p_heap_Inr)
  have k5: "kinds h5 = kinds h4" and a5: "\<And>a. a \<noteq> ref_val p \<Longrightarrow> arrays h5 a = arrays h4 a"
    using w3 by (auto simp: and_then_Inr split: if_splits dest: write_all_frame)
  have k: "kinds h' = kinds ?h2"
    using adj_n_bnds_heap_frame(1) [OF cl] k5 write_all_frame(1) [OF w2] write_all_frame(1) [OF w1]
    by simp
  have a: "arrays h' a = arrays ?h2 a" if "a \<notin> written p" for a
  proof -
    from that have n: "a \<noteq> ref_val p" "a \<notin> slab_val ` set (ref_bnd p)"
      by (simp_all add: written_def)
    have "arrays h' a = arrays h5 a" using cl n(2) by (rule adj_n_bnds_heap_frame(2))
    also have "\<dots> = arrays h4 a" using n(1) by (rule a5)
    also have "\<dots> = arrays h3 a" using w2 n(1) by (rule write_all_frame(2))
    also have "\<dots> = arrays ?h2 a" using w1 n(1) by (rule write_all_frame(2))
    finally show ?thesis .
  qed
  have ro: "?h2 = h" if "read_only fx"
    using that unfolding read_only_def by (cases dxyz; cases uvwf) simp
  have others: "load_uvw h' uvwf = load_uvw h uvwf \<and> arrays h' rho = arrays h rho
               \<and> load_spacings h' dxyz = load_spacings h dxyz \<and> arrays h' obst = arrays h obst"
    if r: "read_only fx" and s: "separate p uvwf rho dxyz obst"
  proof -
    obtain u v w where uvwf: "uvwf = (u, v, w)" by (cases uvwf) auto
    obtain dx dy dz where dxyz: "dxyz = (dx, dy, dz)" by (cases dxyz) auto
    from s have d: "\<And>a. a \<in> field_addrs u \<union> field_addrs v \<union> field_addrs w \<union> set [rho, dx, dy, dz, obst]
                      \<Longrightarrow> a \<notin> written p"
      by (auto simp: separate_def uvwf dxyz)
    have e: "\<And>a. a \<in> field_addrs u \<union> field_addrs v \<union> field_addrs w \<union> set [rho, dx, dy, dz, obst]
                      \<Longrightarrow> arrays h' a = arrays h a"
      using a d ro [OF r] by simp
    have kk: "kinds h' = kinds h" using k ro [OF r] by simp
    have "load h' u = load h u" "load h' v = load h v" "load h' w = load h w"
      using kk e by (auto intro!: load_frame)
    then show ?thesis
      using e by (simp add: load_uvw_def load_spacings_def uvwf dxyz)
  qed
  have own: "pos (load h' p) = pos (load h p) \<and> old (load h' p) = old (load h p)
               \<and> map bc_typ (bnd (load h' p)) = map bc_typ (bnd (load h p))"
    if r: "read_only fx" and o: "ref_old p \<notin> written p"
    using a [OF o] k ro [OF r] by (simp add: load_def load_face_def comp_def)
  from rv k a ro others own show ?thesis by auto
qed

lemma write_all_Inr:
  assumes "write_all h a src = Inr h'"
  obtains v where "assign_all (arrays h a) src = Inr v" "arrays h' a = v"
  using assms by (auto simp: write_all_def and_then_Inr)

lemma store_slabs_load:
  "distinct (map slab_val fs) \<Longrightarrow> length bs = length fs \<Longrightarrow>
     map (\<lambda>f. arrays (store_slabs h fs bs) (slab_val f)) fs = map bc_val bs"
proof (induction h fs bs rule: store_slabs.induct)
  case (1 h f fs b bs)
  let ?h = "h\<lparr>arrays := (arrays h)(slab_val f := bc_val b)\<rparr>"
  from "1.prems" have n: "slab_val f \<notin> slab_val ` set fs"
    by simp
  have "arrays (store_slabs ?h fs bs) (slab_val f) = arrays ?h (slab_val f)"
    using store_slabs_frame [of ?h fs bs] n by blast
  then show ?case
    using "1.IH" "1.prems" by simp
qed simp_all

lemma faces_eqI:
  "map bc_typ xs = map bc_typ ys \<Longrightarrow> map bc_val xs = map bc_val ys \<Longrightarrow> xs = (ys :: bnd_face list)"
proof (induction xs arbitrary: ys)
  case Nil
  then show ?case by simp
next
  case (Cons x xs)
  then obtain y ys' where ys: "ys = y # ys'" by (cases ys) auto
  with Cons.prems have "bc_typ x = bc_typ y" "bc_val x = bc_val y" by simp_all
  then have "x = y" by simp
  with Cons ys show ?case by simp
qed

lemma close_faces_length:
  "close_faces v ds fs = Inr fs' \<Longrightarrow> length fs' = length fs"
proof (induction v ds fs arbitrary: fs' rule: close_faces.induct)
  case (2 v d ds f fs)
  from "2.prems" obtain f' fs0 where
    fs0: "close_faces v ds fs = Inr fs0" and e: "fs' = f' # fs0"
    by (auto simp: and_then_Inr)
  from "2.IH" [OF fs0] e show ?case by simp
qed simp_all

lemma adj_n_bnds_length: "adj_n_bnds phi = Inr phi' \<Longrightarrow> length (bnd phi') = length (bnd phi)"
  by (auto simp: adj_n_bnds_def and_then_Inr split: prod.splits if_splits dest: close_faces_length)

text \<open>With callees that only read, and a pressure field whose arrays are separate
  objects, the call on the store does what \<open>calc_p\<close> does on the values.\<close>

lemma calc_p_heap_refines:
  assumes ro: "read_only fx"
    and own: "ref_val p \<notin> slab_val ` set (ref_bnd p)" "ref_old p \<notin> written p"
      "distinct (map slab_val (ref_bnd p))"
    and ob: "obst \<noteq> ref_val p"
    and run: "calc_p_heap env fx h p uvwf rho dt dxyz obst = Inr (rv, h', out)"
  shows "\<exists>r. calc_p env (load h p) (load_uvw h uvwf) (arrays h rho) dt (load_spacings h dxyz)
                (arrays h obst) = Inr r
             \<and> rv = ret r \<and> load h' p = p_after r \<and> out = calls_of [''print''] (events r)"
proof -
  let ?a = "ref_val p"
  have h2: "\<And>k. fx_vol_balance fx k uvwf dxyz = k" "\<And>k. fx_create_matrix fx k p dxyz obst = k"
    using ro unfolding read_only_def by (cases dxyz; cases uvwf; simp)+
  from run obtain A_p b0 b_p mx b res x h3 h4 h5 where g:
    "create_matrix env (load h p) (zeros (shape (arrays h ?a))) (scalar_div dt (arrays h rho))
       (load_spacings h dxyz) (arrays h obst) ''n'' = Inr (A_p, b0)"
    "vol_balance env (load_uvw (fx_create_matrix fx h p dxyz obst) uvwf)
       (load_spacings (fx_create_matrix fx h p dxyz obst) dxyz)
       (zeros (shape (arrays h ?a))) = Inr b_p"
    "amax (abs_arr b_p) = Inr mx"
    "reshape_vec b_p (prod_shape (shape (arrays h ?a))) = Inr b"
    "bicgstab env A_p b (TOL env) = Inr res"
    "reshape_arr (fst res) (shape (arrays h ?a)) = Inr x"
    "write_all (fx_vol_balance fx (fx_create_matrix fx h p dxyz obst) uvwf dxyz) ?a x = Inr h3"
    "write_all h3 ?a (anchor (arrays h3 ?a)) = Inr h4"
    "(if any_nonzero (arrays h4 obst)
      then and_then (obst_zero_val env (ref_pos p) (arrays h4 ?a) (arrays h4 obst))
             (write_all h4 ?a)
      else Inr h4) = Inr h5"
    "adj_n_bnds_heap h5 p = Inr h'"
    "rv = PyNone"
    "out = [Print_float ''Maximum volume error before correction'' mx,
            Print_float ''Volume imbalance before correction'' (asum b_p),
            Print_int ''res[1] = '' (snd res)]"
    by (rule calc_p_heap_Inr)
  note f = g [unfolded h2]
  from f(7) obtain v1 where v1: "assign_all (arrays h ?a) x = Inr v1" "arrays h3 ?a = v1"
    by (rule write_all_Inr)
  from f(8) obtain v2 where v2: "assign_all v1 (anchor v1) = Inr v2" "arrays h4 ?a = v2"
    by (auto elim!: write_all_Inr simp: v1(2))
  have o4: "arrays h4 obst = arrays h obst"
    using write_all_frame(2) [OF f(8) ob] write_all_frame(2) [OF f(7) ob] by simp
  have "\<exists>v3. (if any_nonzero (arrays h obst)
               then and_then (obst_zero_val env (ref_pos p) v2 (arrays h obst)) (assign_all v2)
               else Inr v2) = Inr v3 \<and> arrays h5 ?a = v3"
  proof (cases "any_nonzero (arrays h obst)")
    case True
    with f(9) obtain z where z: "obst_zero_val env (ref_pos p) v2 (arrays h obst) = Inr z"
      "write_all h4 ?a z = Inr h5"
      by (auto simp: o4 v2(2) and_then_Inr)
    from z(2) obtain v3 where "assign_all v2 z = Inr v3" "arrays h5 ?a = v3"
      by (auto elim!: write_all_Inr simp: v2(2))
    with True z(1) show ?thesis by simp
  next
    case False
    with f(9) have "h5 = h4" by (simp add: o4)
    with False v2(2) show ?thesis by simp
  qed
  then obtain v3 where v3: "(if any_nonzero (arrays h obst)
               then and_then (obst_zero_val env (ref_pos p) v2 (arrays h obst)) (assign_all v2)
               else Inr v2) = Inr v3" "arrays h5 ?a = v3"
    by blast
  have k5: "kinds h5 = kinds h" and a5: "\<And>c. c \<noteq> ?a \<Longrightarrow> arrays h5 c = arrays h c"
  proof -
    have "kinds h5 = kinds h4 \<and> (\<forall>c. c \<noteq> ?a \<longrightarrow> arrays h5 c = arrays h4 c)"
      using f(9) by (auto simp: and_then_Inr split: if_splits dest: write_all_frame)
    then show "kinds h5 = kinds h" "\<And>c. c \<noteq> ?a \<Longrightarrow> arrays h5 c = arrays h c"
      using write_all_frame [OF f(8)] write_all_frame [OF f(7)] by simp_all
  qed
  have old_ne: "ref_old p \<noteq> ?a" and old_ns: "ref_old p \<notin> slab_val ` set (ref_bnd p)"
    using own(2) by (simp_all add: written_def)
  have l5: "load h5 p = (load h p)\<lparr>val := v3\<rparr>"
  proof -
    have "arrays h5 (slab_val f) = arrays h (slab_val f)" if "f \<in> set (ref_bnd p)" for f
    proof -
      from that own(1) have "slab_val f \<noteq> ?a" by (metis imageI)
      then show ?thesis by (rule a5)
    qed
    then have "map (load_face h5) (ref_bnd p) = map (load_face h) (ref_bnd p)"
      using k5 by (intro map_cong) (simp_all add: load_face_def)
    then show ?thesis
      using v3(2) a5 [OF old_ne] by (simp add: load_def)
  qed
  from f(10) obtain phi where
    phi: "adj_n_bnds ((load h p)\<lparr>val := v3\<rparr>) = Inr phi" and
    h': "h' = store_slabs h5 (ref_bnd p) (bnd phi)"
    by (auto simp: adj_n_bnds_heap_def and_then_Inr l5)
  note fr = adj_n_bnds_frame [OF phi] adj_n_bnds_bnd [OF phi] adj_n_bnds_length [OF phi]
  have len: "length (bnd phi) = length (ref_bnd p)"
    using fr by (simp add: load_def)
  have kh: "kinds h' = kinds h" and ah: "\<And>c. c \<notin> slab_val ` set (ref_bnd p) \<Longrightarrow> arrays h' c = arrays h5 c"
    using store_slabs_frame [of h5 "ref_bnd p" "bnd phi"] k5 by (simp_all add: h')
  have "map bc_val (map (load_face h') (ref_bnd p)) = map bc_val (bnd phi)"
    using store_slabs_load [OF own(3) len, of h5] by (simp add: h' load_face_def comp_def)
  moreover have "map bc_typ (map (load_face h') (ref_bnd p)) = map bc_typ (bnd phi)"
    using fr kh by (simp add: load_def load_face_def comp_def)
  ultimately have b: "map (load_face h') (ref_bnd p) = bnd phi"
    by (rule faces_eqI [OF _ _, rotated]) 
  have lp: "load h' p = phi"
    using b fr ah [OF own(1)] ah [OF old_ns] v3(2) a5 [OF old_ne]
    by (simp add: load_def)
  have sh: "shape (val (load h p)) = shape (arrays h ?a)" "val (load h p) = arrays h ?a"
    "pos (load h p) = ref_pos p"
    by (simp_all add: load_def)
  have "calc_p env (load h p) (load_uvw h uvwf) (arrays h rho) dt (load_spacings h dxyz) (arrays h obst)
      = Inr \<lparr>ret = PyNone, p_after = phi, uvwf_after = load_uvw h uvwf, rho_after = arrays h rho,
             dt_after = dt, dxyz_after = load_spacings h dxyz, obst_after = arrays h obst,
             events =
               [Call_create_matrix (load h p) (zeros (shape (arrays h ?a))) (scalar_div dt (arrays h rho))
                  (load_spacings h dxyz) (arrays h obst) ''n'',
                Call_vol_balance (load_uvw h uvwf) (load_spacings h dxyz) (zeros (shape (arrays h ?a))),
                Print_float ''Maximum volume error before correction'' mx,
                Print_float ''Volume imbalance before correction'' (asum b_p),
                Call_bicgstab A_p b (TOL env),
                Print_int ''res[1] = '' (snd res)]
               @ (if any_nonzero (arrays h obst)
                  then [Call_obst_zero_val (ref_pos p) v2 (arrays h obst)] else [])
               @ [Call_adj_n_bnds ((load h p)\<lparr>val := v3\<rparr>)]\<rparr>"
  proof (cases "any_nonzero (arrays h obst)")
    case True
    with v3(1) have m: "and_then (obst_zero_val env (ref_pos p) v2 (arrays h obst)) (assign_all v2)
                          = Inr v3"
      by simp
    show ?thesis
      by (simp add: calc_p_def Let_def sh f(1-6) v1(1) v2(1) True m phi)
  next
    case False
    with v3(1) have e: "v2 = v3" by simp
    show ?thesis
      by (simp add: calc_p_def Let_def sh f(1-6) v1(1) v2(1) False e phi)
  qed
  then show ?thesis
    using lp f(11,12) by simp
qed

lemma ex_heap_run:
  "\<exists>h' out. calc_p_heap (ex_env [2, -1, -1] [3, 5, 1] 7) no_effects (ex_heap ex_obst)
       (ex_field_ref Pos_C 0) ex_uvwf_ref 40 (1 / 10) (41, 42, 43) 44 = Inr (PyNone, h', out)
     \<and> flat (arrays h' 0) = [0, 0, - 2]"
  by (simp add: heap_defs run_defs)

theorem calc_p_frame_witness:
  "read_only no_effects
   \<and> separate (ex_field_ref Pos_C 0) ex_uvwf_ref 40 (41, 42, 43) 44
   \<and> ref_old (ex_field_ref Pos_C 0) \<notin> written (ex_field_ref Pos_C 0)
   \<and> (\<exists>h' out. calc_p_heap (ex_env [2, -1, -1] [3, 5, 1] 7) no_effects (ex_heap ex_obst)
          (ex_field_ref Pos_C 0) ex_uvwf_ref 40 (1 / 10) (41, 42, 43) 44 = Inr (PyNone, h', out)
        \<and> flat (arrays (ex_heap ex_obst) 0) = [0, 0, 0] \<and> flat (arrays h' 0) = [0, 0, - 2]
        \<and> kinds h' = kinds (ex_heap ex_obst)
        \<and> load_uvw h' ex_uvwf_ref = ex_uvwf \<and> arrays h' 40 = ex_ones
        \<and> load_spacings h' (41, 42, 43) = (ex_ones, ex_ones, ex_ones) \<and> arrays h' 44 = ex_obst
        \<and> old (load h' (ex_field_ref Pos_C 0)) = zeros (3, 1, 1))"
proof -
  let ?env = "ex_env [2, -1, -1] [3, 5, 1] 7" and ?h = "ex_heap ex_obst"
  let ?p = "ex_field_ref Pos_C 0"
  from ex_heap_run obtain h' out where
    run: "calc_p_heap ?env no_effects ?h ?p ex_uvwf_ref 40 (1 / 10) (41, 42, 43) 44
            = Inr (PyNone, h', out)" and
    v: "flat (arrays h' 0) = [0, 0, - 2]"
    by blast
  have ro: "read_only no_effects"
    by (simp add: read_only_def no_effects_def)
  have sep: "separate ?p ex_uvwf_ref 40 (41, 42, 43) 44"
    by (simp add: separate_def written_def field_addrs_def ex_field_ref_def ex_uvwf_ref_def)
  have own: "ref_old ?p \<notin> written ?p"
    by (simp add: written_def ex_field_ref_def)
  have init: "flat (arrays ?h 0) = [0, 0, 0]" "load_uvw ?h ex_uvwf_ref = ex_uvwf"
    "arrays ?h 40 = ex_ones" "load_spacings ?h (41, 42, 43) = (ex_ones, ex_ones, ex_ones)"
    "arrays ?h 44 = ex_obst" "old (load ?h ?p) = zeros (3, 1, 1)"
    by (simp_all add: heap_defs ex_defs zeros_def prod_shape_def numeral_3_eq_3)
  from calc_p_frame [OF run] ro sep own have
    "kinds h' = kinds ?h \<and> load_uvw h' ex_uvwf_ref = load_uvw ?h ex_uvwf_ref
     \<and> arrays h' 40 = arrays ?h 40
     \<and> load_spacings h' (41, 42, 43) = load_spacings ?h (41, 42, 43)
     \<and> arrays h' 44 = arrays ?h 44 \<and> old (load h' ?p) = old (load ?h ?p)"
    by blast
  with init have
    "kinds h' = kinds ?h \<and> load_uvw h' ex_uvwf_ref = ex_uvwf \<and> arrays h' 40 = ex_ones
     \<and> load_spacings h' (41, 42, 43) = (ex_ones, ex_ones, ex_ones) \<and> arrays h' 44 = ex_obst
     \<and> old (load h' ?p) = zeros (3, 1, 1)"
    by simp
  with ro sep own run v init(1) show ?thesis
    by blast
qed

text \<open>An argument that is the same object as \<open>p.val\<close> is written with it: handed
  the pressure values as the density, the call changes "the density".\<close>

lemma aliased_density_is_written:
  "\<exists>h' out. calc_p_heap (ex_env [2, -1, -1] [3, 5, 1] 7) no_effects (ex_heap ex_obst)
       (ex_field_ref Pos_C 0) ex_uvwf_ref 0 (1 / 10) (41, 42, 43) 44 = Inr (PyNone, h', out)
     \<and> flat (arrays (ex_heap ex_obst) 0) = [0, 0, 0] \<and> flat (arrays h' 0) = [0, 0, - 2]
     \<and> \<not> separate (ex_field_ref Pos_C 0) ex_uvwf_ref 0 (41, 42, 43) 44"
  by (simp add: heap_defs run_defs separate_def written_def numeral_3_eq_3)

subsection \<open>The solver's verdict\<close>

lemma map_sum_and_then:
  "map_sum id g (and_then m f) = and_then m (\<lambda>x. map_sum id g (f x))"
  by (cases m) simp_all

lemma and_then_cong_fst:
  assumes "map_sum id fst m' = map_sum id fst m" and "\<And>x i i'. f (x, i) = f (x, i')"
  shows "and_then m' f = and_then m f"
proof (cases m)
  case (Inl e)
  with assms(1) show ?thesis by (cases m') auto
next
  case (Inr res)
  with assms(1) obtain res' where "m' = Inr res'" "fst res' = fst res"
    by (cases m') auto
  with Inr assms(2) [of "fst res" "snd res" "snd res'"] show ?thesis
    by (cases res; cases res') simp
qed

lemma calc_p_reported:
  assumes "calc_p env p uvwf rho dt dxyz obst = Inr r"
  shows "\<exists>A b0 src mx x info.
           create_matrix env p (zeros (shape (val p))) (scalar_div dt rho) dxyz obst ''n'' = Inr (A, b0)
           \<and> vol_balance env uvwf dxyz (zeros (shape (val p))) = Inr src
           \<and> amax (abs_arr src) = Inr mx
           \<and> bicgstab env A (flat src) (TOL env) = Inr (x, info)
           \<and> (if any_nonzero obst
               then and_then (obst_zero_val env (pos p) (anchor ((val p)\<lparr>flat := x\<rparr>)) obst)
                      (assign_all (anchor ((val p)\<lparr>flat := x\<rparr>)))
               else Inr (anchor ((val p)\<lparr>flat := x\<rparr>))) = Inr (val (p_after r))
           \<and> reported r
               = (PyNone, [Print_float ''Maximum volume error before correction'' mx,
                           Print_float ''Volume imbalance before correction'' (asum src),
                           Print_int ''res[1] = '' info])"
proof -
  from calc_p_flow [OF assms] obtain A b0 src mx res rest where h:
    "create_matrix env p (zeros (shape (val p))) (scalar_div dt rho) dxyz obst ''n'' = Inr (A, b0)"
    "vol_balance env uvwf dxyz (zeros (shape (val p))) = Inr src"
    "amax (abs_arr src) = Inr mx"
    "bicgstab env A (flat src) (TOL env) = Inr res"
    "(if any_nonzero obst
      then and_then (obst_zero_val env (pos p) (anchor ((val p)\<lparr>flat := fst res\<rparr>)) obst)
             (assign_all (anchor ((val p)\<lparr>flat := fst res\<rparr>)))
      else Inr (anchor ((val p)\<lparr>flat := fst res\<rparr>))) = Inr (val (p_after r))"
    "events r =
       [Call_create_matrix p (zeros (shape (val p))) (scalar_div dt rho) dxyz obst ''n'',
        Call_vol_balance uvwf dxyz (zeros (shape (val p))),
        Print_float ''Maximum volume error before correction'' mx,
        Print_float ''Volume imbalance before correction'' (asum src),
        Call_bicgstab A (flat src) (TOL env),
        Print_int ''res[1] = '' (snd res)] @ rest"
    "list_all (\<lambda>e. kind e = ''obst_zero_val'' \<or> kind e = ''adj_n_bnds'') rest"
    by blast
  from h(7) have rest: "filter (\<lambda>e. kind e = ''print'') rest = []"
    by (auto simp: list_all_iff filter_empty_conv)
  from assms have "ret r = PyNone"
    by (rule calc_p_Inr) simp
  then have rep: "reported r
               = (PyNone, [Print_float ''Maximum volume error before correction'' mx,
                           Print_float ''Volume imbalance before correction'' (asum src),
                           Print_int ''res[1] = '' (snd res)])"
    by (simp add: reported_def h(6) rest)
  have "bicgstab env A (flat src) (TOL env) = Inr (fst res, snd res)"
    using h(4) by simp
  with h(1,2,3,5) rep show ?thesis by blast
qed

text \<open>
  C3, as amended. \<open>calc_p\<close> does not look at the solver's \<open>info\<close>: whether the call
  raises, the value it returns and the pressure field it leaves are the same for any
  two solvers that return the same iterates, whatever \<open>info\<close> they return with them.
  A call that returns has written the iterate \<open>x\<close>, which the solver returned for the
  matrix of \<open>create_matrix\<close> and the flattened source, into \<open>p.val\<close> (then anchored
  and masked it); it returns \<open>None\<close> and prints exactly three lines: the maximum and
  the sum of the source \<open>src\<close>, both computed before the solve, and \<open>res[1]\<close>, the
  solver's \<open>info\<close>. What is returned and printed does not depend on the iterate: two
  solvers that return the same \<open>info\<close> with different iterates give the same report.
  So the achieved residual is neither returned nor printed, and of the iteration count
  only what the library puts into \<open>info\<close>.
\<close>

theorem nonconvergence_not_fatal:
  "((\<forall>A b tol. map_sum id fst (s1 A b tol) = map_sum id fst (bicgstab env A b tol)) \<longrightarrow>
      map_sum id (\<lambda>r. (ret r, p_after r)) (calc_p (env\<lparr>bicgstab := s1\<rparr>) p uvwf rho dt dxyz obst)
        = map_sum id (\<lambda>r. (ret r, p_after r)) (calc_p env p uvwf rho dt dxyz obst))
   \<and> (\<forall>r. calc_p env p uvwf rho dt dxyz obst = Inr r \<longrightarrow>
        (\<exists>A b0 src mx x info.
           create_matrix env p (zeros (shape (val p))) (scalar_div dt rho) dxyz obst ''n'' = Inr (A, b0)
           \<and> vol_balance env uvwf dxyz (zeros (shape (val p))) = Inr src
           \<and> amax (abs_arr src) = Inr mx
           \<and> bicgstab env A (flat src) (TOL env) = Inr (x, info)
           \<and> (if any_nonzero obst
               then and_then (obst_zero_val env (pos p) (anchor ((val p)\<lparr>flat := x\<rparr>)) obst)
                      (assign_all (anchor ((val p)\<lparr>flat := x\<rparr>)))
               else Inr (anchor ((val p)\<lparr>flat := x\<rparr>))) = Inr (val (p_after r))
           \<and> reported r
               = (PyNone, [Print_float ''Maximum volume error before correction'' mx,
                           Print_float ''Volume imbalance before correction'' (asum src),
                           Print_int ''res[1] = '' info])))
   \<and> ((\<forall>A b tol. map_sum id snd (s2 A b tol) = map_sum id snd (bicgstab env A b tol)) \<longrightarrow>
        (\<forall>r r2. calc_p env p uvwf rho dt dxyz obst = Inr r
                \<and> calc_p (env\<lparr>bicgstab := s2\<rparr>) p uvwf rho dt dxyz obst = Inr r2 \<longrightarrow>
                reported r2 = reported r))"
proof (intro conjI impI allI)
  assume same: "\<forall>A b tol. map_sum id fst (s1 A b tol) = map_sum id fst (bicgstab env A b tol)"
  have k: "\<And>A b tol f. (\<And>x i i'. f (x, i) = f (x, i')) \<Longrightarrow>
             and_then (s1 A b tol) f = and_then (bicgstab env A b tol) f"
    using same by (intro and_then_cong_fst) simp_all
  show "map_sum id (\<lambda>r. (ret r, p_after r)) (calc_p (env\<lparr>bicgstab := s1\<rparr>) p uvwf rho dt dxyz obst)
           = map_sum id (\<lambda>r. (ret r, p_after r)) (calc_p env p uvwf rho dt dxyz obst)"
    by (simp add: calc_p_def Let_def map_sum_and_then split_def obst_zero_val_def k cong: if_cong)
next
  fix r assume "calc_p env p uvwf rho dt dxyz obst = Inr r"
  then show "\<exists>A b0 src mx x info.
           create_matrix env p (zeros (shape (val p))) (scalar_div dt rho) dxyz obst ''n'' = Inr (A, b0)
           \<and> vol_balance env uvwf dxyz (zeros (shape (val p))) = Inr src
           \<and> amax (abs_arr src) = Inr mx
           \<and> bicgstab env A (flat src) (TOL env) = Inr (x, info)
           \<and> (if any_nonzero obst
               then and_then (obst_zero_val env (pos p) (anchor ((val p)\<lparr>flat := x\<rparr>)) obst)
                      (assign_all (anchor ((val p)\<lparr>flat := x\<rparr>)))
               else Inr (anchor ((val p)\<lparr>flat := x\<rparr>))) = Inr (val (p_after r))
           \<and> reported r
               = (PyNone, [Print_float ''Maximum volume error before correction'' mx,
                           Print_float ''Volume imbalance before correction'' (asum src),
                           Print_int ''res[1] = '' info])"
    by (rule calc_p_reported)
next
  fix r r2
  assume same: "\<forall>A b tol. map_sum id snd (s2 A b tol) = map_sum id snd (bicgstab env A b tol)"
    and runs: "calc_p env p uvwf rho dt dxyz obst = Inr r
                \<and> calc_p (env\<lparr>bicgstab := s2\<rparr>) p uvwf rho dt dxyz obst = Inr r2"
  from runs calc_p_reported [of env p uvwf rho dt dxyz obst r] obtain A b0 src mx x info where h:
    "create_matrix env p (zeros (shape (val p))) (scalar_div dt rho) dxyz obst ''n'' = Inr (A, b0)"
    "vol_balance env uvwf dxyz (zeros (shape (val p))) = Inr src"
    "amax (abs_arr src) = Inr mx"
    "bicgstab env A (flat src) (TOL env) = Inr (x, info)"
    "reported r
       = (PyNone, [Print_float ''Maximum volume error before correction'' mx,
                   Print_float ''Volume imbalance before correction'' (asum src),
                   Print_int ''res[1] = '' info])"
    by blast
  from runs calc_p_reported [of "env\<lparr>bicgstab := s2\<rparr>" p uvwf rho dt dxyz obst r2]
  obtain A' b0' src' mx' x' info' where h':
    "create_matrix env p (zeros (shape (val p))) (scalar_div dt rho) dxyz obst ''n'' = Inr (A', b0')"
    "vol_balance env uvwf dxyz (zeros (shape (val p))) = Inr src'"
    "amax (abs_arr src') = Inr mx'"
    "s2 A' (flat src') (TOL env) = Inr (x', info')"
    "reported r2
       = (PyNone, [Print_float ''Maximum volume error before correction'' mx',
                   Print_float ''Volume imbalance before correction'' (asum src'),
                   Print_int ''res[1] = '' info'])"
    by auto
  from h(1,2,3) h'(1,2,3) have e: "A' = A" "src' = src" "mx' = mx"
    by simp_all
  from same have "map_sum id snd (s2 A (flat src) (TOL env))
      = map_sum id snd (bicgstab env A (flat src) (TOL env))"
    by blast
  with h(4) h'(4) have "info' = info"
    by (simp add: e)
  with h(5) h'(5) e show "reported r2 = reported r"
    by simp
qed

lemmas c3_defs = inst_defs vb_defs run_defs solver_defs reported_def residual_def

theorem nonconvergence_not_fatal_witness:
  "(\<forall>A b tol. map_sum id fst (map_sum id (\<lambda>(x, i). (x, 0::int)) (bicgstab_spec 1 A b tol))
        = map_sum id fst (bicgstab (solver_env 1) A b tol))
   \<and> (\<forall>A b tol. map_sum id snd (map_sum id (\<lambda>(x, i::int). (map (\<lambda>v. 0::real) x, i)) (bicgstab_spec 1 A b tol))
        = map_sum id snd (bicgstab (solver_env 1) A b tol))
   \<and> (\<exists>r r1 r2.
         calc_p (solver_env 1) (ex_unknown Pos_C (3, 1, 1)) (flow_x [2, 1]) ex_ones 1
           (ex_ones, ex_ones, ex_ones) \<lparr>shape = (3, 1, 1), flat = [0, 0, 0]\<rparr> = Inr r
       \<and> calc_p ((solver_env 1)\<lparr>bicgstab := \<lambda>A b tol.
                     map_sum id (\<lambda>(x, i). (x, 0)) (bicgstab_spec 1 A b tol)\<rparr>)
           (ex_unknown Pos_C (3, 1, 1)) (flow_x [2, 1]) ex_ones 1
           (ex_ones, ex_ones, ex_ones) \<lparr>shape = (3, 1, 1), flat = [0, 0, 0]\<rparr> = Inr r1
       \<and> calc_p ((solver_env 1)\<lparr>bicgstab := \<lambda>A b tol.
                     map_sum id (\<lambda>(x, i). (map (\<lambda>v. 0) x, i)) (bicgstab_spec 1 A b tol)\<rparr>)
           (ex_unknown Pos_C (3, 1, 1)) (flow_x [2, 1]) ex_ones 1
           (ex_ones, ex_ones, ex_ones) \<lparr>shape = (3, 1, 1), flat = [0, 0, 0]\<rparr> = Inr r2
       \<and> ret r1 = ret r \<and> p_after r1 = p_after r
       \<and> flat (val (p_after r)) = [4 / 3, - (13 / 42), - (43 / 42)]
       \<and> flat (val (p_after r2)) = [0, 0, 0]
       \<and> reported r2 = reported r
       \<and> reported r = (PyNone, [Print_float ''Maximum volume error before correction'' 2,
                                 Print_float ''Volume imbalance before correction'' 0,
                                 Print_int ''res[1] = '' 1]))"
proof -
  let ?env = "solver_env 1" and ?p = "ex_unknown Pos_C (3, 1, 1)"
  let ?s1 = "\<lambda>A b tol. map_sum id (\<lambda>(x, i). (x, 0::int)) (bicgstab_spec 1 A b tol)"
  let ?s2 = "\<lambda>A b tol. map_sum id (\<lambda>(x, i::int). (map (\<lambda>v. 0::real) x, i)) (bicgstab_spec 1 A b tol)"
  let ?o = "\<lparr>shape = (3, 1, 1), flat = [0, 0, 0]\<rparr>"
  let ?d = "(ex_ones, ex_ones, ex_ones)"
  note main = nonconvergence_not_fatal [of ?s1 ?env ?p "flow_x [2, 1]" ex_ones 1 ?d ?o ?s2]
  have same1: "\<forall>A b tol. map_sum id fst (?s1 A b tol) = map_sum id fst (bicgstab ?env A b tol)"
    by (simp add: solver_env_def sum.map_comp comp_def split_def id_def)
  have same2: "\<forall>A b tol. map_sum id snd (?s2 A b tol) = map_sum id snd (bicgstab ?env A b tol)"
    by (simp add: solver_env_def sum.map_comp comp_def split_def id_def)
  have "\<exists>r. calc_p ?env ?p (flow_x [2, 1]) ex_ones 1 ?d ?o = Inr r
          \<and> flat (val (p_after r)) = [4 / 3, - (13 / 42), - (43 / 42)]
          \<and> reported r = (PyNone, [Print_float ''Maximum volume error before correction'' 2,
                                    Print_float ''Volume imbalance before correction'' 0,
                                    Print_int ''res[1] = '' 1])"
    by (simp add: c3_defs)
  then obtain r where r: "calc_p ?env ?p (flow_x [2, 1]) ex_ones 1 ?d ?o = Inr r"
    "flat (val (p_after r)) = [4 / 3, - (13 / 42), - (43 / 42)]"
    "reported r = (PyNone, [Print_float ''Maximum volume error before correction'' 2,
                            Print_float ''Volume imbalance before correction'' 0,
                            Print_int ''res[1] = '' 1])"
    by blast
  have "\<exists>r2. calc_p (?env\<lparr>bicgstab := ?s2\<rparr>) ?p (flow_x [2, 1]) ex_ones 1 ?d ?o = Inr r2
          \<and> flat (val (p_after r2)) = [0, 0, 0]"
    by (simp add: c3_defs)
  then obtain r2 where r2: "calc_p (?env\<lparr>bicgstab := ?s2\<rparr>) ?p (flow_x [2, 1]) ex_ones 1 ?d ?o = Inr r2"
    "flat (val (p_after r2)) = [0, 0, 0]"
    by blast
  from main same1 have
    "map_sum id (\<lambda>r. (ret r, p_after r)) (calc_p (?env\<lparr>bicgstab := ?s1\<rparr>) ?p (flow_x [2, 1]) ex_ones 1 ?d ?o)
       = map_sum id (\<lambda>r. (ret r, p_after r)) (calc_p ?env ?p (flow_x [2, 1]) ex_ones 1 ?d ?o)"
    by blast
  then obtain r1 where r1: "calc_p (?env\<lparr>bicgstab := ?s1\<rparr>) ?p (flow_x [2, 1]) ex_ones 1 ?d ?o = Inr r1"
    "ret r1 = ret r" "p_after r1 = p_after r"
    unfolding r(1)
    by (cases "calc_p (?env\<lparr>bicgstab := ?s1\<rparr>) ?p (flow_x [2, 1]) ex_ones 1 ?d ?o") auto
  from main same2 r(1) r2(1) have rep: "reported r2 = reported r"
    by blast
  show ?thesis
    apply (intro conjI)
      apply (rule same1)
     apply (rule same2)
    apply (rule exI [of _ r], rule exI [of _ r1], rule exI [of _ r2])
    apply (simp only: r r1 r2 rep)
    done
qed

text \<open>
  The claim as stated, that the achieved residual is returned or reported to the caller,
  fails. With the model of the solver capped at one iteration, the calls for the face
  velocities \<open>[2, 1]\<close> and \<open>[2, 0]\<close> on three cells both return \<open>None\<close> and print the
  same three lines (\<open>2\<close>, \<open>0\<close> and \<open>info = 1\<close>), while the iterates that are written
  have the residuals \<open>[5/14, -1/14, -2/7]\<close> and \<open>[2/5, -1/5, -1/5]\<close>, which differ
  in every norm; none of the printed numbers is a norm of either residual.
\<close>

theorem residual_not_reported_counterexample:
  "map_sum id (\<lambda>r. (reported r, calls_of [''bicgstab''] (events r)))
     (calc_p (solver_env 1) (ex_unknown Pos_C (3, 1, 1)) (flow_x [2, 1]) ex_ones 1
        (ex_ones, ex_ones, ex_ones) \<lparr>shape = (3, 1, 1), flat = [0, 0, 0]\<rparr>)
     = Inr ((PyNone, [Print_float ''Maximum volume error before correction'' 2,
                      Print_float ''Volume imbalance before correction'' 0,
                      Print_int ''res[1] = '' 1]),
            [Call_bicgstab ex_matrix [2, - 1, - 1] (1 / 10 ^ 8)])
   \<and> map_sum id (\<lambda>r. (reported r, calls_of [''bicgstab''] (events r)))
     (calc_p (solver_env 1) (ex_unknown Pos_C (3, 1, 1)) (flow_x [2, 0]) ex_ones 1
        (ex_ones, ex_ones, ex_ones) \<lparr>shape = (3, 1, 1), flat = [0, 0, 0]\<rparr>)
     = Inr ((PyNone, [Print_float ''Maximum volume error before correction'' 2,
                      Print_float ''Volume imbalance before correction'' 0,
                      Print_int ''res[1] = '' 1]),
            [Call_bicgstab ex_matrix [2, - 2, 0] (1 / 10 ^ 8)])
   \<and> map_sum id (\<lambda>(x, info). (x, residual ex_matrix [2, - 1, - 1] x))
        (bicgstab (solver_env 1) ex_matrix [2, - 1, - 1] (1 / 10 ^ 8))
     = Inr ([4 / 3, - (13 / 42), - (43 / 42)], [5 / 14, - (1 / 14), - (2 / 7)])
   \<and> map_sum id (\<lambda>(x, info). (x, residual ex_matrix [2, - 2, 0] x))
        (bicgstab (solver_env 1) ex_matrix [2, - 2, 0] (1 / 10 ^ 8))
     = Inr ([1, - (3 / 5), - (2 / 5)], [2 / 5, - (1 / 5), - (1 / 5)])"
  by (simp add: c3_defs calls_of_def)

subsection \<open>The four phases\<close>

lemma mask_noop:
  assumes "\<not> any_nonzero obst" "length xs = length (flat obst)"
  shows "map2 (\<lambda>x m. if m \<noteq> 0 then 0 else x) xs (flat obst) = xs"
proof -
  have "\<forall>m \<in> set (flat obst). m = 0"
    using assms(1) by (auto simp: any_nonzero_def list_ex_iff)
  then have "map2 (\<lambda>x m. if m \<noteq> 0 then 0 else x) xs (flat obst) = map fst (zip xs (flat obst))"
    by (intro map_cong) (auto dest: set_zip_rightD)
  also have "\<dots> = xs" using assms(2) by simp
  finally show ?thesis .
qed

lemma mask_stage:
  assumes "shape obst = shape v" "wf_array obst" "wf_array v"
  shows "(if any_nonzero obst then and_then (obst_zero_val env Pos_C v obst) (assign_all v) else Inr v)
           = obst_zero_val env Pos_C v obst"
proof (cases "any_nonzero obst")
  case True
  then show ?thesis using assms by (simp add: obst_zero_val_def assign_all_def)
next
  case False
  have "length (flat v) = length (flat obst)"
    using assms by (simp add: wf_array_def)
  from mask_noop [OF False this] show ?thesis
    using False assms by (simp add: obst_zero_val_def)
qed

lemma and_then_assoc:
  "and_then (and_then m f) g = and_then m (\<lambda>x. and_then (f x) g)"
  by (cases m) simp_all

lemma map_sum_eq_and_then: "map_sum id g m = and_then m (\<lambda>x. Inr (g x))"
  by (cases m) simp_all

lemma write_stages:
  assumes "pos p = Pos_C" "shape obst = shape (val p)" "wf_array obst"
  shows "and_then (reshape_arr x (shape (val p))) (\<lambda>xa.
         and_then (assign_all (val p) xa) (\<lambda>v1.
         and_then (assign_all v1 (anchor v1)) (\<lambda>v2.
         and_then (if any_nonzero obst
                   then and_then (obst_zero_val env (pos p) v2 obst) (assign_all v2)
                   else Inr v2) K)))
       = and_then (reshape_arr x (shape (val p))) (\<lambda>xa.
         and_then (obst_zero_val env (pos p) (anchor xa) obst) K)"
proof (cases "length x = prod_shape (shape (val p))")
  case False
  then show ?thesis by (simp add: reshape_arr_def)
next
  case True
  let ?x = "\<lparr>shape = shape (val p), flat = x\<rparr>"
  have r: "reshape_arr x (shape (val p)) = Inr ?x"
    using True by (simp add: reshape_arr_def)
  have a: "assign_all (val p) ?x = Inr ?x"
    by (simp add: assign_all_def)
  have w: "wf_array (anchor ?x)"
    using True by (simp add: wf_array_def)
  have s: "shape obst = shape (anchor ?x)"
    using assms(2) by simp
  show ?thesis
    by (simp only: r a assign_anchor and_then_simps assms(1) mask_stage [OF s assms(3) w])
qed

text \<open>
  C4. Every call of \<open>calc_p\<close> runs four phases in order: (1) assemble the Poisson
  operator with \<open>create_matrix\<close> in pressure mode with a zero explicit source and
  compute the source with \<open>vol_balance\<close>, (2) solve with \<open>bicgstab\<close>, (3) anchor by
  subtracting the mean of the solved field, (4) zero the solid cells and then reapply
  the Neumann closure. For a cell-centred pressure field and a mask of its shape, the
  value returned and the field left by \<open>calc_p\<close> (or the exception raised) are those
  of the composition \<open>calc_p_phases\<close> of the four phases, and the calls and printed
  lines come in the order create_matrix, vol_balance, two prints, bicgstab, print,
  obst_zero_val (when some cell is solid), adj_n_bnds. The result is a function of the
  arguments alone: the model of \<open>calc_p\<close> has no state besides them.
\<close>

theorem four_phases:
  assumes "pos p = Pos_C" "shape obst = shape (val p)" "wf_array obst"
  shows "map_sum id (\<lambda>r. (ret r, p_after r)) (calc_p env p uvwf rho dt dxyz obst)
           = map_sum id (Pair PyNone) (calc_p_phases env p uvwf rho dt dxyz obst)
         \<and> map_sum id (\<lambda>r. map kind (events r)) (calc_p env p uvwf rho dt dxyz obst)
           = map_sum id
               (\<lambda>q. [''create_matrix'', ''vol_balance'', ''print'', ''print'', ''bicgstab'', ''print'']
                     @ (if any_nonzero obst then [''obst_zero_val''] else []) @ [''adj_n_bnds''])
               (calc_p_phases env p uvwf rho dt dxyz obst)"
proof
  note w = write_stages [OF assms]
  have "map_sum id (\<lambda>r. (ret r, p_after r)) (calc_p env p uvwf rho dt dxyz obst)
      = and_then (create_matrix env p (zeros (shape (val p))) (scalar_div dt rho) dxyz obst ''n'')
          (\<lambda>Ab. and_then (vol_balance env uvwf dxyz (zeros (shape (val p)))) (\<lambda>b_p.
           and_then (amax (abs_arr b_p)) (\<lambda>mx.
           and_then (reshape_vec b_p (prod_shape (shape (val p)))) (\<lambda>b.
           and_then (bicgstab env (fst Ab) b (TOL env)) (\<lambda>res.
           and_then (reshape_arr (fst res) (shape (val p))) (\<lambda>x.
           and_then (assign_all (val p) x) (\<lambda>v1.
           and_then (assign_all v1 (anchor v1)) (\<lambda>v2.
           and_then (if any_nonzero obst
                     then and_then (obst_zero_val env (pos p) v2 obst) (assign_all v2)
                     else Inr v2) (\<lambda>v3.
           and_then (adj_n_bnds (p\<lparr>val := v3\<rparr>)) (\<lambda>p'. Inr (PyNone, p')))))))))))"
    by (simp add: calc_p_def Let_def map_sum_and_then split_def split del: if_split)
  also have "\<dots> = map_sum id (Pair PyNone) (calc_p_phases env p uvwf rho dt dxyz obst)"
    by (simp add: w calc_p_phases_def assemble_def solve_def mask_and_close_def
        map_sum_eq_and_then split_def and_then_assoc split del: if_split)
  finally show "map_sum id (\<lambda>r. (ret r, p_after r)) (calc_p env p uvwf rho dt dxyz obst)
           = map_sum id (Pair PyNone) (calc_p_phases env p uvwf rho dt dxyz obst)" .
  let ?ks = "[''create_matrix'', ''vol_balance'', ''print'', ''print'', ''bicgstab'', ''print'']
                     @ (if any_nonzero obst then [''obst_zero_val''] else []) @ [''adj_n_bnds'']"
  have "map_sum id (\<lambda>r. map kind (events r)) (calc_p env p uvwf rho dt dxyz obst)
      = and_then (create_matrix env p (zeros (shape (val p))) (scalar_div dt rho) dxyz obst ''n'')
          (\<lambda>Ab. and_then (vol_balance env uvwf dxyz (zeros (shape (val p)))) (\<lambda>b_p.
           and_then (amax (abs_arr b_p)) (\<lambda>mx.
           and_then (reshape_vec b_p (prod_shape (shape (val p)))) (\<lambda>b.
           and_then (bicgstab env (fst Ab) b (TOL env)) (\<lambda>res.
           and_then (reshape_arr (fst res) (shape (val p))) (\<lambda>x.
           and_then (assign_all (val p) x) (\<lambda>v1.
           and_then (assign_all v1 (anchor v1)) (\<lambda>v2.
           and_then (if any_nonzero obst
                     then and_then (obst_zero_val env (pos p) v2 obst) (assign_all v2)
                     else Inr v2) (\<lambda>v3.
           and_then (adj_n_bnds (p\<lparr>val := v3\<rparr>)) (\<lambda>p'. Inr ?ks))))))))))"
    by (simp add: calc_p_def Let_def map_sum_and_then split_def if_distrib [of "map kind"]
        split del: if_split cong: if_cong)
  also have "\<dots> = map_sum id (\<lambda>q. ?ks) (calc_p_phases env p uvwf rho dt dxyz obst)"
    by (simp add: w calc_p_phases_def assemble_def solve_def mask_and_close_def
        map_sum_eq_and_then split_def and_then_assoc split del: if_split)
  finally show "map_sum id (\<lambda>r. map kind (events r)) (calc_p env p uvwf rho dt dxyz obst)
           = map_sum id (\<lambda>q. ?ks) (calc_p_phases env p uvwf rho dt dxyz obst)" .
qed


theorem four_phases_witness:
  "pos (ex_unknown Pos_C (3, 1, 1)) = Pos_C
   \<and> shape ex_obst = shape (val (ex_unknown Pos_C (3, 1, 1)))
   \<and> wf_array ex_obst
   \<and> map_sum id (\<lambda>r. (ret r, p_after r))
        (calc_p (ex_env [2, -1, -1] [3, 5, 1] 7) (ex_unknown Pos_C (3, 1, 1)) ex_uvwf ex_ones (1 / 10)
           (ex_ones, ex_ones, ex_ones) ex_obst)
      = map_sum id (Pair PyNone)
        (calc_p_phases (ex_env [2, -1, -1] [3, 5, 1] 7) (ex_unknown Pos_C (3, 1, 1)) ex_uvwf ex_ones
           (1 / 10) (ex_ones, ex_ones, ex_ones) ex_obst)
   \<and> map_sum id (\<lambda>q. flat (val q))
        (calc_p_phases (ex_env [2, -1, -1] [3, 5, 1] 7) (ex_unknown Pos_C (3, 1, 1)) ex_uvwf ex_ones
           (1 / 10) (ex_ones, ex_ones, ex_ones) ex_obst) = Inr [0, 0, -2]"
proof -
  have h1: "pos (ex_unknown Pos_C (3, 1, 1)) = Pos_C"
    by (simp add: ex_unknown_def)
  have h2: "shape ex_obst = shape (val (ex_unknown Pos_C (3, 1, 1)))"
    by (simp add: ex_unknown_def ex_obst_def zeros_def)
  have h3: "wf_array ex_obst"
    by (simp add: wf_array_def ex_obst_def prod_shape_def)
  have e: "map_sum id (\<lambda>q. flat (val q))
        (calc_p_phases (ex_env [2, -1, -1] [3, 5, 1] 7) (ex_unknown Pos_C (3, 1, 1)) ex_uvwf ex_ones
           (1 / 10) (ex_ones, ex_ones, ex_ones) ex_obst) = Inr [0, 0, -2]"
    by (simp add: calc_p_phases_def assemble_def solve_def mask_and_close_def run_defs)
  from four_phases [OF h1 h2 h3] h1 h2 h3 e show ?thesis by blast
qed

subsection \<open>A source of zeros\<close>

lemma amax_zeros: "prod_shape rc \<noteq> 0 \<Longrightarrow> amax (abs_arr (zeros rc)) = Inr 0"
proof -
  assume "prod_shape rc \<noteq> 0"
  then obtain n where n: "prod_shape rc = Suc n" by (cases "prod_shape rc") auto
  have "fold max (replicate n (0::real)) 0 = 0"
    by (induction n) simp_all
  then show ?thesis
    by (simp add: amax_def abs_arr_def zeros_def n)
qed

lemma anchor_const:
  assumes "n \<noteq> 0"
  shows "anchor \<lparr>shape = rc, flat = replicate n c\<rparr> = \<lparr>shape = rc, flat = replicate n 0\<rparr>"
  using assms by (simp add: anchor_def sub_scalar_def mean_def sum_list_replicate)

lemma dot_replicate_zero [simp]: "dot (replicate n 0) (replicate n 0) = 0"
  by (induction n) (simp_all add: dot_def)

lemma bicgstab_trace_zero:
  assumes "0 < cap"
  shows "bicgstab_trace cap A (replicate n 0) tol = (replicate n 0, 0, 0)"
proof -
  from assms obtain m where "cap = Suc m" by (cases cap) auto
  then show ?thesis by (simp add: bicgstab_trace_def)
qed

lemma bicgstab_spec_zero:
  assumes "0 < cap" "length A = n" "list_all (\<lambda>row. length row = n) A"
  shows "bicgstab_spec cap A (replicate n 0) tol = Inr (replicate n 0, 0)"
  using assms by (simp add: bicgstab_spec_def bicgstab_trace_zero)

lemma set_indices:
  "(i, j, k) \<in> set (indices (nx, ny, nz)) \<longleftrightarrow> i < nx \<and> j < ny \<and> k < nz"
  by (force simp: indices_def)

lemma length_indices: "length (indices rc) = prod_shape rc"
  by (cases rc) (simp add: indices_def prod_shape_def length_concat comp_def sum_list_triv)

lemma get3_zeros:
  assumes "i < nx" "j < ny" "k < nz"
  shows "get3 (zeros (nx, ny, nz)) i j k = 0"
  using index3_less [OF assms] by (simp add: get3_def zeros_def)

lemma map_zero:
  assumes "\<And>x. x \<in> set xs \<Longrightarrow> f x = (0::real)"
  shows "map f xs = replicate (length xs) 0"
proof -
  have "map f xs = map (\<lambda>x. 0) xs"
    using assms by (intro map_cong) simp_all
  then show ?thesis by (simp add: map_replicate_const)
qed

lemma layer_zero:
  assumes "\<And>i j k. (i, j, k) \<in> set (indices rc) \<Longrightarrow> g i j k = 0"
  shows "\<lparr>shape = rc, flat = map (\<lambda>(i, j, k). g i j k) (indices rc)\<rparr> = zeros rc"
proof -
  have "map (\<lambda>(i, j, k). g i j k) (indices rc) = replicate (length (indices rc)) 0"
    using assms by (intro map_zero) auto
  then show ?thesis by (simp add: zeros_def length_indices)
qed

lemma adjacent_layer_zeros:
  assumes "0 < nx" "0 < ny" "0 < nz"
  shows "adjacent_layer Dir_W (zeros (nx, ny, nz)) = zeros (1, ny, nz)"
    "adjacent_layer Dir_E (zeros (nx, ny, nz)) = zeros (1, ny, nz)"
    "adjacent_layer Dir_S (zeros (nx, ny, nz)) = zeros (nx, 1, nz)"
    "adjacent_layer Dir_N (zeros (nx, ny, nz)) = zeros (nx, 1, nz)"
    "adjacent_layer Dir_B (zeros (nx, ny, nz)) = zeros (nx, ny, 1)"
    "adjacent_layer Dir_T (zeros (nx, ny, nz)) = zeros (nx, ny, 1)"
proof -
  have sh: "shape (zeros (nx, ny, nz)) = (nx, ny, nz)" by (simp add: zeros_def)
  have W: "\<lparr>shape = (1, ny, nz),
            flat = map (\<lambda>(i, j, k). get3 (zeros (nx, ny, nz)) 0 j k) (indices (1, ny, nz))\<rparr>
           = zeros (1, ny, nz)"
    using assms by (intro layer_zero) (simp add: set_indices get3_zeros)
  have E: "\<lparr>shape = (1, ny, nz),
            flat = map (\<lambda>(i, j, k). get3 (zeros (nx, ny, nz)) (nx - 1) j k) (indices (1, ny, nz))\<rparr>
           = zeros (1, ny, nz)"
    using assms by (intro layer_zero) (simp add: set_indices get3_zeros)
  have S: "\<lparr>shape = (nx, 1, nz),
            flat = map (\<lambda>(i, j, k). get3 (zeros (nx, ny, nz)) i 0 k) (indices (nx, 1, nz))\<rparr>
           = zeros (nx, 1, nz)"
    using assms by (intro layer_zero) (simp add: set_indices get3_zeros)
  have N: "\<lparr>shape = (nx, 1, nz),
            flat = map (\<lambda>(i, j, k). get3 (zeros (nx, ny, nz)) i (ny - 1) k) (indices (nx, 1, nz))\<rparr>
           = zeros (nx, 1, nz)"
    using assms by (intro layer_zero) (simp add: set_indices get3_zeros)
  have B: "\<lparr>shape = (nx, ny, 1),
            flat = map (\<lambda>(i, j, k). get3 (zeros (nx, ny, nz)) i j 0) (indices (nx, ny, 1))\<rparr>
           = zeros (nx, ny, 1)"
    using assms by (intro layer_zero) (simp add: set_indices get3_zeros)
  have T: "\<lparr>shape = (nx, ny, 1),
            flat = map (\<lambda>(i, j, k). get3 (zeros (nx, ny, nz)) i j (nz - 1)) (indices (nx, ny, 1))\<rparr>
           = zeros (nx, ny, 1)"
    using assms by (intro layer_zero) (simp add: set_indices get3_zeros)
  show "adjacent_layer Dir_W (zeros (nx, ny, nz)) = zeros (1, ny, nz)"
    "adjacent_layer Dir_E (zeros (nx, ny, nz)) = zeros (1, ny, nz)"
    "adjacent_layer Dir_S (zeros (nx, ny, nz)) = zeros (nx, 1, nz)"
    "adjacent_layer Dir_N (zeros (nx, ny, nz)) = zeros (nx, 1, nz)"
    "adjacent_layer Dir_B (zeros (nx, ny, nz)) = zeros (nx, ny, 1)"
    "adjacent_layer Dir_T (zeros (nx, ny, nz)) = zeros (nx, ny, 1)"
    unfolding adjacent_layer_def sh by (simp_all only: prod.case compass.case W E S N B T)
qed

lemma neumann_takes_layer:
  "length bs = n \<Longrightarrow>
     map (\<lambda>(ty, b, i). if ty = NEUMANN then i else b) (zip (replicate n NEUMANN) (zip bs (replicate n c)))
       = replicate n (c::real)"
  by (induction n arbitrary: bs) (auto simp: length_Suc_conv)

lemma close_face_neumann:
  assumes "neumann_face rc f"
  shows "close_face (zeros rc) f = Inr (f\<lparr>bc_val := zeros rc\<rparr>)"
proof -
  from assms have h: "shape (bc_val f) = rc" "length (flat (bc_val f)) = prod_shape rc"
    "bc_typ f = replicate (prod_shape rc) NEUMANN"
    by (simp_all add: neumann_face_def wf_array_def)
  have "(bc_val f)\<lparr>flat := replicate (prod_shape rc) 0\<rparr> = zeros rc"
    using h(1) by (simp add: zeros_def)
  then show ?thesis
    using h by (simp add: close_face_def zeros_def neumann_takes_layer)
qed

lemma adj_n_bnds_zeros:
  assumes "all_neumann p"
  shows "adj_n_bnds (p\<lparr>val := zeros (shape (val p))\<rparr>)
           = Inr (p\<lparr>val := zeros (shape (val p)),
                    bnd := map (\<lambda>f. f\<lparr>bc_val := zeros (shape (bc_val f))\<rparr>) (bnd p)\<rparr>)"
proof -
  obtain nx ny nz where rc: "shape (val p) = (nx, ny, nz)"
    by (cases "shape (val p)") auto
  from assms obtain f1 f2 f3 f4 f5 f6 where
    b: "bnd p = [f1, f2, f3, f4, f5, f6]" and
    f: "neumann_face (1, ny, nz) f1" "neumann_face (1, ny, nz) f2" "neumann_face (nx, 1, nz) f3"
       "neumann_face (nx, 1, nz) f4" "neumann_face (nx, ny, 1) f5" "neumann_face (nx, ny, 1) f6" and
    pos: "0 < nx" "0 < ny" "0 < nz"
    by (auto simp: all_neumann_def rc list_all2_Cons1)
  have s: "shape (bc_val f1) = (1, ny, nz)" "shape (bc_val f2) = (1, ny, nz)"
    "shape (bc_val f3) = (nx, 1, nz)" "shape (bc_val f4) = (nx, 1, nz)"
    "shape (bc_val f5) = (nx, ny, 1)" "shape (bc_val f6) = (nx, ny, 1)"
    using f by (simp_all add: neumann_face_def)
  have sh: "shape (zeros (nx, ny, nz)) = (nx, ny, nz)" by (simp add: zeros_def)
  note cf = f [THEN close_face_neumann, unfolded One_nat_def]
  show ?thesis
    using pos
    by (simp add: adj_n_bnds_def rc sh b adjacent_layer_zeros [OF pos] cf s)
qed


lemma all_neumann_cells: "all_neumann p \<Longrightarrow> prod_shape (shape (val p)) \<noteq> 0"
  by (cases "shape (val p)") (auto simp: all_neumann_def prod_shape_def)

text \<open>
  C7. If the obstacle mask is all zero and the divergence source computed from the face
  velocities is all zeros, with all-Neumann pressure boundaries, then \<open>calc_p\<close>
  produces a pressure field that is \<open>0\<close> everywhere, in every cell and in every
  boundary slab, with the solver converging within its iteration cap: the solver (the
  model of \<open>bicgstab\<close>, with any cap above zero) returns the zero vector with
  \<open>info = 0\<close> after no iteration, and \<open>res[1] = 0\<close> is printed. The matrix of
  \<open>create_matrix\<close> is square, of the size of the grid.
\<close>

theorem zero_source_zero_pressure:
  assumes slv: "bicgstab env = bicgstab_spec cap" and cap: "0 < cap"
    and cm: "create_matrix env p (zeros (shape (val p))) (scalar_div dt rho) dxyz obst ''n'' = Inr (A, b0)"
    and sq: "length A = prod_shape (shape (val p))"
            "list_all (\<lambda>row. length row = prod_shape (shape (val p))) A"
    and vb: "vol_balance env uvwf dxyz (zeros (shape (val p))) = Inr (zeros (shape (val p)))"
    and no_obst: "\<not> any_nonzero obst"
    and neu: "all_neumann p"
  shows "\<exists>r. calc_p env p uvwf rho dt dxyz obst = Inr r
            \<and> val (p_after r) = zeros (shape (val p))
            \<and> list_all (\<lambda>f. bc_val f = zeros (shape (bc_val f))) (bnd (p_after r))
            \<and> bicgstab_trace cap A (replicate (prod_shape (shape (val p))) 0) (TOL env)
                = (replicate (prod_shape (shape (val p))) 0, 0, 0)
            \<and> calls_of [''bicgstab'', ''print''] (events r)
                = [Print_float ''Maximum volume error before correction'' 0,
                   Print_float ''Volume imbalance before correction'' 0,
                   Call_bicgstab A (replicate (prod_shape (shape (val p))) 0) (TOL env),
                   Print_int ''res[1] = '' 0]"
proof -
  let ?rc = "shape (val p)"
  let ?n = "prod_shape ?rc"
  let ?p' = "p\<lparr>val := zeros ?rc, bnd := map (\<lambda>f. f\<lparr>bc_val := zeros (shape (bc_val f))\<rparr>) (bnd p)\<rparr>"
  have ne: "?n \<noteq> 0" using neu by (rule all_neumann_cells)
  have rv: "reshape_vec (zeros ?rc) ?n = Inr (replicate ?n 0)"
    by (simp add: reshape_vec_def zeros_def)
  have sv: "bicgstab env A (replicate ?n 0) (TOL env) = Inr (replicate ?n 0, 0)"
    unfolding slv using cap sq by (rule bicgstab_spec_zero)
  have ra: "reshape_arr (replicate ?n 0) ?rc = Inr (zeros ?rc)"
    by (simp add: reshape_arr_def zeros_def)
  have a1: "assign_all (val p) (zeros ?rc) = Inr (zeros ?rc)"
    by (simp add: assign_all_def zeros_def)
  have an: "anchor (zeros ?rc) = zeros ?rc"
    using anchor_const [OF ne] by (simp add: zeros_def)
  have sm: "asum (zeros ?rc) = 0"
    by (simp add: asum_def zeros_def sum_list_replicate)
  have cl: "adj_n_bnds (p\<lparr>val := zeros ?rc\<rparr>) = Inr ?p'"
    using neu by (rule adj_n_bnds_zeros)
  have run: "calc_p env p uvwf rho dt dxyz obst
      = Inr \<lparr>ret = PyNone, p_after = ?p', uvwf_after = uvwf, rho_after = rho, dt_after = dt,
             dxyz_after = dxyz, obst_after = obst,
             events =
               [Call_create_matrix p (zeros ?rc) (scalar_div dt rho) dxyz obst ''n'',
                Call_vol_balance uvwf dxyz (zeros ?rc),
                Print_float ''Maximum volume error before correction'' 0,
                Print_float ''Volume imbalance before correction'' 0,
                Call_bicgstab A (replicate ?n 0) (TOL env),
                Print_int ''res[1] = '' 0,
                Call_adj_n_bnds (p\<lparr>val := zeros ?rc\<rparr>)]\<rparr>"
    by (simp add: calc_p_def Let_def cm vb amax_zeros [OF ne] rv sv ra a1 assign_anchor an
        no_obst cl sm)
  have b: "list_all (\<lambda>f. bc_val f = zeros (shape (bc_val f))) (bnd ?p')"
    by (simp add: list_all_iff zeros_def)
  from bicgstab_trace_zero [OF cap] b show ?thesis
    unfolding run by simp
qed

lemma rest_balance:
  "vol_balance_spec (fluid_at_rest (4, 4, 4)) (ones (4, 4, 4), ones (4, 4, 4), ones (4, 4, 4))
     (zeros (4, 4, 4)) = Inr (zeros (4, 4, 4))"
  by (simp add: vb_defs fluid_at_rest_def ones_def ex_unknown_def ex_face_def zeros_def prod_shape_def
      indices_def get3_def index3_def upt_rec eval_nat_numeral)


lemma neumann_laplacian_square:
  "length (neumann_laplacian rc) = prod_shape rc"
  "list_all (\<lambda>row. length row = prod_shape rc) (neumann_laplacian rc)"
  by (simp_all add: neumann_laplacian_def length_indices list_all_iff)

lemma ex_all_neumann: "all_neumann (ex_unknown Pos_C (4, 4, 4))"
  by (simp add: all_neumann_def ex_unknown_def neumann_face_def ex_face_def zeros_def wf_array_def)

theorem zero_source_zero_pressure_witness:
  "bicgstab (solver_env 640) = bicgstab_spec 640
   \<and> all_neumann (ex_unknown Pos_C (4, 4, 4))
   \<and> \<not> any_nonzero (zeros (4, 4, 4))
   \<and> vol_balance (solver_env 640) (fluid_at_rest (4, 4, 4))
        (ones (4, 4, 4), ones (4, 4, 4), ones (4, 4, 4)) (zeros (4, 4, 4)) = Inr (zeros (4, 4, 4))
   \<and> (\<exists>r. calc_p (solver_env 640) (ex_unknown Pos_C (4, 4, 4)) (fluid_at_rest (4, 4, 4))
             (ones (4, 4, 4)) 1 (ones (4, 4, 4), ones (4, 4, 4), ones (4, 4, 4)) (zeros (4, 4, 4)) = Inr r
           \<and> val (p_after r) = zeros (4, 4, 4)
           \<and> list_all (\<lambda>f. bc_val f = zeros (shape (bc_val f))) (bnd (p_after r))
           \<and> bicgstab_trace 640 (neumann_laplacian (4, 4, 4)) (replicate 64 0) (1 / 10 ^ 8)
               = (replicate 64 0, 0, 0)
           \<and> calls_of [''bicgstab'', ''print''] (events r)
                = [Print_float ''Maximum volume error before correction'' 0,
                   Print_float ''Volume imbalance before correction'' 0,
                   Call_bicgstab (neumann_laplacian (4, 4, 4)) (replicate 64 0) (1 / 10 ^ 8),
                   Print_int ''res[1] = '' 0])"
proof -
  let ?env = "solver_env 640" and ?p = "ex_unknown Pos_C (4, 4, 4)"
  let ?d = "(ones (4, 4, 4), ones (4, 4, 4), ones (4, 4, 4))"
  have sh: "shape (val ?p) = (4, 4, 4)" by (simp add: ex_unknown_def zeros_def)
  have n: "prod_shape (4, 4, 4) = 64" by (simp add: prod_shape_def)
  have slv: "bicgstab ?env = bicgstab_spec 640" by (simp add: solver_env_def)
  have tol: "TOL ?env = 1 / 10 ^ 8" by (simp add: solver_env_def)
  have cm: "create_matrix ?env ?p (zeros (shape (val ?p))) (scalar_div 1 (ones (4, 4, 4))) ?d
              (zeros (4, 4, 4)) ''n'' = Inr (neumann_laplacian (4, 4, 4), zeros (4, 4, 4))"
    by (simp add: solver_env_def sh)
  have sq: "length (neumann_laplacian (4, 4, 4)) = prod_shape (shape (val ?p))"
    "list_all (\<lambda>row. length row = prod_shape (shape (val ?p))) (neumann_laplacian (4, 4, 4))"
    unfolding sh by (rule neumann_laplacian_square)+
  have vb: "vol_balance ?env (fluid_at_rest (4, 4, 4)) ?d (zeros (4, 4, 4)) = Inr (zeros (4, 4, 4))"
    using rest_balance by (simp add: solver_env_def)
  have vb': "vol_balance ?env (fluid_at_rest (4, 4, 4)) ?d (zeros (shape (val ?p)))
               = Inr (zeros (shape (val ?p)))"
    unfolding sh by (rule vb)
  have no: "\<not> any_nonzero (zeros (4, 4, 4))"
    by (simp add: any_nonzero_def zeros_def list_ex_iff)
  from zero_source_zero_pressure [OF slv _ cm sq vb' no ex_all_neumann, unfolded sh n tol]
  have "\<exists>r. calc_p ?env ?p (fluid_at_rest (4, 4, 4)) (ones (4, 4, 4)) 1 ?d (zeros (4, 4, 4)) = Inr r
           \<and> val (p_after r) = zeros (4, 4, 4)
           \<and> list_all (\<lambda>f. bc_val f = zeros (shape (bc_val f))) (bnd (p_after r))
           \<and> bicgstab_trace 640 (neumann_laplacian (4, 4, 4)) (replicate 64 0) (1 / 10 ^ 8)
               = (replicate 64 0, 0, 0)
           \<and> calls_of [''bicgstab'', ''print''] (events r)
                = [Print_float ''Maximum volume error before correction'' 0,
                   Print_float ''Volume imbalance before correction'' 0,
                   Call_bicgstab (neumann_laplacian (4, 4, 4)) (replicate 64 0) (1 / 10 ^ 8),
                   Print_int ''res[1] = '' 0]"
    by simp
  with slv ex_all_neumann no vb show ?thesis by blast
qed

subsection \<open>The order of a time step\<close>

lemmas phase_defs = announce_def store_old_values_def transport_scalar_def transport_momentum_def
  pressure_correction_def correct_velocities_def report_volume_error_def report_cfl_def
  visualise_def store_old_velocities_def

lemma and_then_cong_r: "(\<And>x. f x = g x) \<Longrightarrow> and_then m f = and_then m g"
  by (cases m) simp_all

lemma Inr_sim_eqI:
  "g_uc a = g_uc b \<Longrightarrow> g_vc a = g_vc b \<Longrightarrow> g_wc a = g_wc b \<Longrightarrow> g_uf a = g_uf b \<Longrightarrow>
   g_vf a = g_vf b \<Longrightarrow> g_wf a = g_wf b \<Longrightarrow> g_t a = g_t b \<Longrightarrow> g_p a = g_p b \<Longrightarrow>
   g_p_tot a = g_p_tot b \<Longrightarrow> g_rho a = g_rho b \<Longrightarrow> g_mu a = g_mu b \<Longrightarrow> g_cap a = g_cap b \<Longrightarrow>
   g_kappa a = g_kappa b \<Longrightarrow> g_obst a = g_obst b \<Longrightarrow> g_dt a = g_dt b \<Longrightarrow> g_dxyz a = g_dxyz b \<Longrightarrow>
   g_rc a = g_rc b \<Longrightarrow> g_xyzn a = g_xyzn b \<Longrightarrow> g_out a = g_out b \<Longrightarrow>
   (Inr (a::sim) :: py_error + sim) = Inr b"
  by simp

lemma step_plumes_phases: "step_plumes env ts s = seq (phases_plumes env ts) s"
  apply (cases "ts mod 150 = 0")
   apply (simp_all add: step_plumes_def phases_plumes_def phase_defs Let_def split_def and_then_assoc)
   apply (intro and_then_cong_r Inr_sim_eqI; simp)+
  done

lemma step_cavity_phases: "step_cavity env show_plot ts s = seq (phases_cavity env show_plot ts) s"
  apply (cases show_plot; cases "ts mod 20 = 0")
     apply (simp_all add: step_cavity_def phases_cavity_def phase_defs Let_def split_def
      and_then_assoc)
     apply (intro and_then_cong_r Inr_sim_eqI; simp)+
  done


lemma step_obstacles_phases: "step_obstacles env ts s = seq (phases_obstacles env ts) s"
  apply (cases "ts mod 20 = 0")
   apply (simp_all add: step_obstacles_def phases_obstacles_def phase_defs Let_def split_def
      and_then_assoc)
   apply (intro and_then_cong_r Inr_sim_eqI; simp)+
  done

lemmas sim_defs = ex_sim_def store_old_def

text \<open>
  C9. In every time step the driver runs the phases in a fixed sequential order: store
  the old field values, transport the scalar (\<open>calc_t\<close>), transport momentum
  (\<open>calc_uvw\<close>), assemble and solve the pressure correction (\<open>calc_p\<close>), correct the
  cell-centred and then the face-centred velocities (\<open>corr_uvw\<close> twice), then recompute
  the volume balance and the CFL number as diagnostics; each phase starts from the
  state the phase before it left. The bodies of the time loops of the thermal-plumes
  and the thermally-driven-cavity scripts are the compositions of these phases, after
  the line that announces the time step and before the periodic drawing.
\<close>

theorem time_step_order:
  "step_plumes env ts s = seq (phases_plumes env ts) s
   \<and> step_cavity env show_plot ts s = seq (phases_cavity env show_plot ts) s"
  by (simp add: step_plumes_phases step_cavity_phases)

theorem time_step_order_witness:
  "map_sum id (\<lambda>s'. map kind (g_out s'))
     (seq (phases_cavity (ex_env [2, -1, -1] [3, 5, 1] 7) True 20) (ex_sim ex_obst))
   = Inr [''print_time_step'', ''calc_t'', ''calc_uvw'', ''calc_p'', ''create_matrix'',
          ''vol_balance'', ''print'', ''print'', ''bicgstab'', ''print'', ''obst_zero_val'',
          ''adj_n_bnds'', ''corr_uvw'', ''corr_uvw'', ''vol_balance'', ''print'', ''cfl_max'',
          ''print'', ''plot_isolines'']
   \<and> map_sum id (\<lambda>s'. map kind (g_out s'))
     (seq (phases_plumes (ex_env [2, -1, -1] [3, 5, 1] 7) 1) (ex_sim ex_obst))
   = Inr [''print_time_step'', ''calc_t'', ''calc_uvw'', ''calc_p'', ''create_matrix'',
          ''vol_balance'', ''print'', ''print'', ''bicgstab'', ''print'', ''obst_zero_val'',
          ''adj_n_bnds'', ''corr_uvw'', ''corr_uvw'', ''vol_balance'', ''print'', ''cfl_max'',
          ''print'']"
proof -
  have c: "map_sum id (\<lambda>s'. map kind (g_out s'))
     (step_cavity (ex_env [2, -1, -1] [3, 5, 1] 7) True 20 (ex_sim ex_obst))
   = Inr [''print_time_step'', ''calc_t'', ''calc_uvw'', ''calc_p'', ''create_matrix'',
          ''vol_balance'', ''print'', ''print'', ''bicgstab'', ''print'', ''obst_zero_val'',
          ''adj_n_bnds'', ''corr_uvw'', ''corr_uvw'', ''vol_balance'', ''print'', ''cfl_max'',
          ''print'', ''plot_isolines'']"
    by (simp add: step_cavity_def sim_defs run_defs)
  have p: "map_sum id (\<lambda>s'. map kind (g_out s'))
     (step_plumes (ex_env [2, -1, -1] [3, 5, 1] 7) 1 (ex_sim ex_obst))
   = Inr [''print_time_step'', ''calc_t'', ''calc_uvw'', ''calc_p'', ''create_matrix'',
          ''vol_balance'', ''print'', ''print'', ''bicgstab'', ''print'', ''obst_zero_val'',
          ''adj_n_bnds'', ''corr_uvw'', ''corr_uvw'', ''vol_balance'', ''print'', ''cfl_max'',
          ''print'']"
    by (simp add: step_plumes_def sim_defs run_defs)
  from time_step_order [of "ex_env [2, -1, -1] [3, 5, 1] 7" 1 "ex_sim ex_obst" True]
    time_step_order [of "ex_env [2, -1, -1] [3, 5, 1] 7" 20 "ex_sim ex_obst" True] c p
  show ?thesis by simp
qed


subsection \<open>The snapshots\<close>

lemma same_olds_refl [simp]: "same_olds s s"
  by (simp add: same_olds_def)

lemma same_olds_trans: "same_olds a b \<Longrightarrow> same_olds b c \<Longrightarrow> same_olds a c"
  by (simp add: same_olds_def)

lemma olds_eq: "olds a = olds b \<longleftrightarrow>
    old (fst a) = old (fst b) \<and> old (fst (snd a)) = old (fst (snd b))
    \<and> old (snd (snd a)) = old (snd (snd b))"
  by (cases a; cases b) (auto simp: olds_def)

lemma preserves_old_calc_t:
  assumes "preserves_old env" "calc_t env phi uvwf rho_cap kappa dt dxyz obst = Inr r"
  shows "old (fst r) = old phi \<and> olds (snd r) = olds uvwf"
proof -
  from assms(2) have "calc_t env phi uvwf rho_cap kappa dt dxyz obst = Inr (fst r, snd r)" by simp
  moreover from assms(1) have "\<forall>phi uvwf rho_cap kappa dt dxyz obst phi' uvwf'.
         calc_t env phi uvwf rho_cap kappa dt dxyz obst = Inr (phi', uvwf')
         \<longrightarrow> old phi' = old phi \<and> olds uvwf' = olds uvwf"
    unfolding preserves_old_def by (elim conjE)
  ultimately show ?thesis by blast
qed

lemma preserves_old_calc_uvw:
  assumes "preserves_old env" "calc_uvw env uvwc uvwf rho mu p_tot ef dt dxyz obst = Inr q"
  shows "olds (fst q) = olds uvwc \<and> olds (snd q) = olds uvwf"
proof -
  from assms(2) have "calc_uvw env uvwc uvwf rho mu p_tot ef dt dxyz obst = Inr (fst q, snd q)"
    by simp
  with assms(1) show ?thesis unfolding preserves_old_def by blast
qed

lemma preserves_old_corr_uvw:
  assumes "preserves_old env" "corr_uvw env uvw0 phi rho dt dxyz obst = Inr c"
  shows "olds (fst c) = olds uvw0 \<and> old (snd c) = old phi"
proof -
  from assms(2) have "corr_uvw env uvw0 phi rho dt dxyz obst = Inr (fst c, snd c)" by simp
  with assms(1) show ?thesis unfolding preserves_old_def by blast
qed

lemma announce_olds: "announce ts s = Inr s' \<Longrightarrow> same_olds s s'"
  by (auto simp: announce_def same_olds_def)

lemma store_old_Inr: "store_old phi = Inr phi' \<Longrightarrow> stored phi phi' \<and> val phi' = val phi"
  by (auto simp: store_old_def stored_def and_then_Inr)

lemma store_old_values_olds:
  assumes "store_old_values s = Inr s'"
  shows "stored (g_uc s) (g_uc s') \<and> stored (g_vc s) (g_vc s') \<and> stored (g_wc s) (g_wc s')
         \<and> stored (g_t s) (g_t s') \<and> faces_old s' = faces_old s \<and> old (g_p s') = old (g_p s)"
  using assms
  by (auto simp: store_old_values_def and_then_Inr faces_old_def dest!: store_old_Inr)

lemma store_old_velocities_olds:
  assumes "store_old_velocities s = Inr s'"
  shows "stored (g_uc s) (g_uc s') \<and> stored (g_vc s) (g_vc s') \<and> stored (g_wc s) (g_wc s')
         \<and> old (g_t s') = old (g_t s) \<and> faces_old s' = faces_old s \<and> old (g_p s') = old (g_p s)"
  using assms
  by (auto simp: store_old_velocities_def and_then_Inr faces_old_def dest!: store_old_Inr)

lemma transport_scalar_olds:
  assumes env: "preserves_old env" and run: "transport_scalar env s = Inr s'"
  shows "same_olds s s'"
proof -
  from run obtain rho_cap r where
    c: "calc_t env (g_t s) (g_uf s, g_vf s, g_wf s) rho_cap (g_kappa s) (g_dt s) (g_dxyz s)
          (g_obst s) = Inr r" and
    s': "g_uc s' = g_uc s" "g_vc s' = g_vc s" "g_wc s' = g_wc s" "g_p s' = g_p s"
        "g_t s' = fst r" "g_uf s' = fst (snd r)" "g_vf s' = fst (snd (snd r))"
        "g_wf s' = snd (snd (snd r))"
    unfolding transport_scalar_def and_then_Inr split_def by auto
  from preserves_old_calc_t [OF env c] show ?thesis
    by (simp add: same_olds_def s' olds_eq)
qed

lemma transport_momentum_olds:
  assumes env: "preserves_old env" and run: "transport_momentum env src tp s = Inr s'"
  shows "same_olds s s'"
proof -
  from run obtain q where
    c: "calc_uvw env (g_uc s, g_vc s, g_wc s) (g_uf s, g_vf s, g_wf s) (g_rho s) (g_mu s) (tp s)
          (src s) (g_dt s) (g_dxyz s) (g_obst s) = Inr q" and
    s': "g_uc s' = fst (fst q)" "g_vc s' = fst (snd (fst q))" "g_wc s' = snd (snd (fst q))"
        "g_uf s' = fst (snd q)" "g_vf s' = fst (snd (snd q))" "g_wf s' = snd (snd (snd q))"
        "g_t s' = g_t s" "g_p s' = g_p s"
    unfolding transport_momentum_def and_then_Inr split_def by auto
  from preserves_old_calc_uvw [OF env c] show ?thesis
    by (simp add: same_olds_def s' olds_eq)
qed

lemma pressure_correction_Inr:
  assumes "pressure_correction env acc s = Inr s'"
  obtains r where
    "calc_p env (g_p s) (g_uf s, g_vf s, g_wf s) (g_rho s) (g_dt s) (g_dxyz s) (g_obst s) = Inr r"
    "g_uc s' = g_uc s" "g_vc s' = g_vc s" "g_wc s' = g_wc s" "g_t s' = g_t s"
    "g_p s' = p_after r" "g_uf s' = g_uf s" "g_vf s' = g_vf s" "g_wf s' = g_wf s"
    "g_rho s' = g_rho s" "g_dt s' = g_dt s" "g_dxyz s' = g_dxyz s" "g_obst s' = g_obst s"
    "g_out s' = g_out s
        @ [Call_calc_p (g_p s) (g_uf s, g_vf s, g_wf s) (g_rho s) (g_dt s) (g_dxyz s) (g_obst s)]
        @ events r"
proof -
  from assms obtain r p_tot where
    c: "calc_p env (g_p s) (g_uf s, g_vf s, g_wf s) (g_rho s) (g_dt s) (g_dxyz s) (g_obst s) = Inr r"
    and s': "s' = s\<lparr>g_uf := fst (uvwf_after r), g_vf := fst (snd (uvwf_after r)),
            g_wf := snd (snd (uvwf_after r)), g_p := p_after r, g_p_tot := p_tot,
            g_rho := rho_after r, g_obst := obst_after r, g_dt := dt_after r,
            g_dxyz := dxyz_after r,
            g_out := g_out s
              @ [Call_calc_p (g_p s) (g_uf s, g_vf s, g_wf s) (g_rho s) (g_dt s) (g_dxyz s)
                   (g_obst s)]
              @ events r\<rparr>"
    unfolding pressure_correction_def and_then_Inr by blast
  from calc_p_leaves [OF c] show ?thesis
    by (intro that [of r]) (simp_all add: c s')
qed

lemma pressure_correction_olds:
  assumes "pressure_correction env acc s = Inr s'"
  shows "same_olds s s'"
proof -
  from assms obtain r where
    c: "calc_p env (g_p s) (g_uf s, g_vf s, g_wf s) (g_rho s) (g_dt s) (g_dxyz s) (g_obst s) = Inr r"
    and s': "g_uc s' = g_uc s" "g_vc s' = g_vc s" "g_wc s' = g_wc s" "g_t s' = g_t s"
    "g_p s' = p_after r" "g_uf s' = g_uf s" "g_vf s' = g_vf s" "g_wf s' = g_wf s"
    by (rule pressure_correction_Inr)
  from calc_p_leaves [OF c] show ?thesis
    by (simp add: same_olds_def s')
qed

lemma correct_velocities_Inr:
  assumes "correct_velocities env s = Inr s'"
  obtains c1 c2 where
    "corr_uvw env (g_uc s, g_vc s, g_wc s) (g_p s) (g_rho s) (g_dt s) (g_dxyz s) (g_obst s) = Inr c1"
    "corr_uvw env (g_uf s, g_vf s, g_wf s) (snd c1) (g_rho s) (g_dt s) (g_dxyz s) (g_obst s) = Inr c2"
    "g_uc s' = fst (fst c1)" "g_vc s' = fst (snd (fst c1))" "g_wc s' = snd (snd (fst c1))"
    "g_uf s' = fst (fst c2)" "g_vf s' = fst (snd (fst c2))" "g_wf s' = snd (snd (fst c2))"
    "g_p s' = snd c2" "g_t s' = g_t s"
    "g_rho s' = g_rho s" "g_dt s' = g_dt s" "g_dxyz s' = g_dxyz s" "g_obst s' = g_obst s"
    "g_out s' = g_out s
              @ [Call_corr_uvw (g_uc s, g_vc s, g_wc s) (g_p s) (g_rho s) (g_dt s) (g_dxyz s)
                   (g_obst s),
                 Call_corr_uvw (g_uf s, g_vf s, g_wf s) (snd c1) (g_rho s) (g_dt s) (g_dxyz s)
                   (g_obst s)]"
  using assms unfolding correct_velocities_def and_then_Inr split_def by auto

lemma correct_velocities_olds:
  assumes env: "preserves_old env" and run: "correct_velocities env s = Inr s'"
  shows "same_olds s s'"
proof -
  from run obtain c1 c2 where
    c: "corr_uvw env (g_uc s, g_vc s, g_wc s) (g_p s) (g_rho s) (g_dt s) (g_dxyz s) (g_obst s) = Inr c1"
    "corr_uvw env (g_uf s, g_vf s, g_wf s) (snd c1) (g_rho s) (g_dt s) (g_dxyz s) (g_obst s) = Inr c2"
    and s': "g_uc s' = fst (fst c1)" "g_vc s' = fst (snd (fst c1))" "g_wc s' = snd (snd (fst c1))"
    "g_uf s' = fst (fst c2)" "g_vf s' = fst (snd (fst c2))" "g_wf s' = snd (snd (fst c2))"
    "g_p s' = snd c2" "g_t s' = g_t s"
    by (rule correct_velocities_Inr) blast
  from preserves_old_corr_uvw [OF env c(1)] preserves_old_corr_uvw [OF env c(2)] show ?thesis
    by (simp add: same_olds_def s' olds_eq)
qed

lemma report_volume_error_olds: "report_volume_error env s = Inr s' \<Longrightarrow> same_olds s s'"
  by (auto simp: report_volume_error_def and_then_Inr same_olds_def)

lemma report_cfl_olds: "report_cfl env s = Inr s' \<Longrightarrow> same_olds s s'"
  by (auto simp: report_cfl_def and_then_Inr same_olds_def)

lemma plot_all_olds: "plot_all env phis s = Inr s' \<Longrightarrow> same_olds s s'"
proof (induction phis arbitrary: s)
  case (Cons phi phis)
  then show ?case
    by (auto simp: and_then_Inr same_olds_def)
qed simp

lemma visualise_olds: "visualise env due shown s = Inr s' \<Longrightarrow> same_olds s s'"
  by (auto simp: visualise_def dest: plot_all_olds split: if_splits)



lemma seq_Cons_Inr: "seq (f # fs) s = Inr s' \<longleftrightarrow> (\<exists>s1. f s = Inr s1 \<and> seq fs s1 = Inr s')"
  by (simp add: and_then_Inr)

lemma same_olds_faces: "same_olds s s' \<Longrightarrow> faces_old s' = faces_old s"
  by (simp add: same_olds_def faces_old_def)

lemma stored_same: "stored a b \<Longrightarrow> old c = old b \<Longrightarrow> stored a c"
  by (simp add: stored_def)

lemma announce_fields:
  "announce ts s = Inr s1 \<Longrightarrow>
     g_uc s1 = g_uc s \<and> g_vc s1 = g_vc s \<and> g_wc s1 = g_wc s \<and> g_t s1 = g_t s"
  by (auto simp: announce_def)

lemma step_plumes_olds:
  assumes env: "preserves_old env" and run: "step_plumes env ts s = Inr s'"
  shows "stored (g_uc s) (g_uc s') \<and> stored (g_vc s) (g_vc s') \<and> stored (g_wc s) (g_wc s')
         \<and> stored (g_t s) (g_t s') \<and> faces_old s' = faces_old s \<and> old (g_p s') = old (g_p s)"
proof -
  from run obtain s1 s2 s3 s4 s5 s6 s7 s8 where
    h: "announce ts s = Inr s1" "store_old_values s1 = Inr s2" "transport_scalar env s2 = Inr s3"
       "transport_momentum env (\<lambda>s. (zeros (g_rc s), scalar_mul 150 (val (g_t s)), zeros (g_rc s)))
          (\<lambda>s. zeros (g_rc s)) s3 = Inr s4"
       "pressure_correction env False s4 = Inr s5" "correct_velocities env s5 = Inr s6"
       "report_volume_error env s6 = Inr s7" "report_cfl env s7 = Inr s8"
       "visualise env (ts mod 150 = 0) (\<lambda>s. [val (g_t s), val (g_p s)]) s8 = Inr s'"
    unfolding step_plumes_phases phases_plumes_def seq.simps and_then_Inr by blast
  note o = announce_olds [OF h(1)] transport_scalar_olds [OF env h(3)]
    transport_momentum_olds [OF env h(4)]
    pressure_correction_olds [OF h(5)]
    correct_velocities_olds [OF env h(6)]
    report_volume_error_olds [OF h(7)]
    report_cfl_olds [OF h(8)]
    visualise_olds [OF h(9)]
  from store_old_values_olds [OF h(2)] announce_fields [OF h(1)] o show ?thesis
    by (simp add: same_olds_def faces_old_def stored_def)
qed

lemma step_cavity_olds:
  assumes env: "preserves_old env" and run: "step_cavity env show_plot ts s = Inr s'"
  shows "stored (g_uc s) (g_uc s') \<and> stored (g_vc s) (g_vc s') \<and> stored (g_wc s) (g_wc s')
         \<and> stored (g_t s) (g_t s') \<and> faces_old s' = faces_old s \<and> old (g_p s') = old (g_p s)"
proof -
  from run obtain s1 s2 s3 s4 s5 s6 s7 s8 where
    h: "announce ts s = Inr s1" "store_old_values s1 = Inr s2" "transport_scalar env s2 = Inr s3"
       "transport_momentum env (\<lambda>s. (zeros (g_rc s), val (g_t s), zeros (g_rc s))) g_p_tot s3
          = Inr s4"
       "pressure_correction env True s4 = Inr s5" "correct_velocities env s5 = Inr s6"
       "report_volume_error env s6 = Inr s7" "report_cfl env s7 = Inr s8"
       "visualise env (show_plot \<and> ts mod 20 = 0) (\<lambda>s. [val (g_t s)]) s8 = Inr s'"
    unfolding step_cavity_phases phases_cavity_def seq.simps and_then_Inr by blast
  note o = announce_olds [OF h(1)] transport_scalar_olds [OF env h(3)]
    transport_momentum_olds [OF env h(4)]
    pressure_correction_olds [OF h(5)]
    correct_velocities_olds [OF env h(6)]
    report_volume_error_olds [OF h(7)]
    report_cfl_olds [OF h(8)]
    visualise_olds [OF h(9)]
  from store_old_values_olds [OF h(2)] announce_fields [OF h(1)] o show ?thesis
    by (simp add: same_olds_def faces_old_def stored_def)
qed

lemma step_obstacles_olds:
  assumes env: "preserves_old env" and run: "step_obstacles env ts s = Inr s'"
  shows "stored (g_uc s) (g_uc s') \<and> stored (g_vc s) (g_vc s') \<and> stored (g_wc s) (g_wc s')
         \<and> old (g_t s') = old (g_t s) \<and> faces_old s' = faces_old s \<and> old (g_p s') = old (g_p s)"
proof -
  from run obtain s1 s2 s4 s5 s6 s7 s8 where
    h: "announce ts s = Inr s1" "store_old_velocities s1 = Inr s2"
       "transport_momentum env (\<lambda>s. (zeros (g_rc s), zeros (g_rc s), zeros (g_rc s)))
          (\<lambda>s. zeros (g_rc s)) s2 = Inr s4"
       "pressure_correction env False s4 = Inr s5" "correct_velocities env s5 = Inr s6"
       "report_volume_error env s6 = Inr s7" "report_cfl env s7 = Inr s8"
       "visualise env (ts mod 20 = 0) (\<lambda>s. [val (g_p s)]) s8 = Inr s'"
    unfolding step_obstacles_phases phases_obstacles_def seq.simps and_then_Inr by blast
  note o = announce_olds [OF h(1)] transport_momentum_olds [OF env h(3)]
    pressure_correction_olds [OF h(4)]
    correct_velocities_olds [OF env h(5)]
    report_volume_error_olds [OF h(6)]
    report_cfl_olds [OF h(7)]
    visualise_olds [OF h(8)]
  from store_old_velocities_olds [OF h(2)] announce_fields [OF h(1)] o show ?thesis
    by (simp add: same_olds_def faces_old_def stored_def)
qed

lemma run_steps_faces:
  assumes "\<And>ts s s'. body ts s = Inr s' \<Longrightarrow> faces_old s' = faces_old s"
  shows "run_steps body tss s = Inr s' \<Longrightarrow> faces_old s' = faces_old s"
proof (induction tss arbitrary: s)
  case Nil
  then show ?case by simp
next
  case (Cons ts tss)
  from Cons.prems obtain s1 where "body ts s = Inr s1" "run_steps body tss s1 = Inr s'"
    by (auto simp: and_then_Inr)
  with Cons.IH [of s1] assms [of ts s s1] show ?case by simp
qed

lemmas step_defs = step_obstacles_def step_plumes_def step_cavity_def time_loop_obstacles_def
  time_loop_plumes_def time_loop_cavity_def

lemma ex_preserves_old: "preserves_old (ex_env src x info)"
  by (simp add: preserves_old_def ex_env_def)

lemma ex_step_obstacles:
  "\<exists>s'. step_obstacles (ex_env [2, -1, -1] [3, 5, 1] 7) 1 (ex_sim ex_obst) = Inr s'"
  by (simp add: step_defs sim_defs run_defs)

lemma ex_step_cavity:
  "\<exists>s'. step_cavity (ex_env [2, -1, -1] [3, 5, 1] 7) True 1 (ex_sim ex_obst) = Inr s'"
  by (simp add: step_defs sim_defs run_defs)

lemma ex_loop_plumes:
  "\<exists>s'. time_loop_plumes (ex_env [2, -1, -1] [3, 5, 1] 7) 2 (ex_sim ex_obst) = Inr s'"
  by (simp add: step_defs sim_defs run_defs)

text \<open>
  C10. Throughout a run only the snapshots \<open>old\<close> of the cell-centred velocity fields
  and of the temperature field are updated, at the start of each time step; the
  snapshots of the face-velocity fields (and of the pressure field) are never written
  and stay what they were at construction. The scripts themselves write \<open>old\<close> only in
  the store statements at the top of the loop body; \<open>calc_t\<close>, \<open>calc_uvw\<close> and
  \<open>corr_uvw\<close> are not among the sources and are assumed to leave the snapshots of the
  fields they are handed alone (\<open>preserves_old\<close>). After a time step the snapshot of
  each cell velocity (and of the temperature, in the scripts that have one) is the
  value the field had when the step began; after any number of time steps the
  snapshots of the face velocities are the ones the run started with.
\<close>

theorem old_snapshots:
  assumes env: "preserves_old env"
  shows "(step_obstacles env ts s = Inr s' \<longrightarrow>
            stored (g_uc s) (g_uc s') \<and> stored (g_vc s) (g_vc s') \<and> stored (g_wc s) (g_wc s')
            \<and> old (g_t s') = old (g_t s) \<and> faces_old s' = faces_old s \<and> old (g_p s') = old (g_p s))
       \<and> (step_plumes env ts s = Inr s' \<or> step_cavity env show_plot ts s = Inr s' \<longrightarrow>
            stored (g_uc s) (g_uc s') \<and> stored (g_vc s) (g_vc s') \<and> stored (g_wc s) (g_wc s')
            \<and> stored (g_t s) (g_t s') \<and> faces_old s' = faces_old s \<and> old (g_p s') = old (g_p s))
       \<and> (time_loop_obstacles env ndt s = Inr s' \<or> time_loop_plumes env ndt s = Inr s'
            \<or> time_loop_cavity env show_plot ndt s = Inr s' \<longrightarrow>
            faces_old s' = faces_old s)"
proof -
  have 1: "step_obstacles env ts s = Inr s' \<longrightarrow>
            stored (g_uc s) (g_uc s') \<and> stored (g_vc s) (g_vc s') \<and> stored (g_wc s) (g_wc s')
            \<and> old (g_t s') = old (g_t s) \<and> faces_old s' = faces_old s \<and> old (g_p s') = old (g_p s)"
    using step_obstacles_olds [OF env] by blast
  have 2: "step_plumes env ts s = Inr s' \<or> step_cavity env show_plot ts s = Inr s' \<longrightarrow>
            stored (g_uc s) (g_uc s') \<and> stored (g_vc s) (g_vc s') \<and> stored (g_wc s) (g_wc s')
            \<and> stored (g_t s) (g_t s') \<and> faces_old s' = faces_old s \<and> old (g_p s') = old (g_p s)"
    using step_plumes_olds [OF env] step_cavity_olds [OF env] by blast
  have 3: "time_loop_obstacles env ndt s = Inr s' \<or> time_loop_plumes env ndt s = Inr s'
            \<or> time_loop_cavity env show_plot ndt s = Inr s' \<longrightarrow>
            faces_old s' = faces_old s"
    unfolding time_loop_obstacles_def time_loop_plumes_def time_loop_cavity_def
    using run_steps_faces [of "step_obstacles env"] run_steps_faces [of "step_plumes env"]
      run_steps_faces [of "step_cavity env show_plot"]
      step_obstacles_olds [OF env] step_plumes_olds [OF env] step_cavity_olds [OF env]
    by blast
  from 1 2 3 show ?thesis by (intro conjI)
qed

theorem old_snapshots_witness:
  "preserves_old (ex_env [2, -1, -1] [3, 5, 1] 7)
   \<and> (\<exists>s'. step_obstacles (ex_env [2, -1, -1] [3, 5, 1] 7) 1 (ex_sim ex_obst) = Inr s'
          \<and> old (g_uc s') = ex_ones \<and> old (g_t s') = zeros (3, 1, 1)
          \<and> faces_old s' = (zeros (2, 1, 1), zeros (3, 0, 1), zeros (3, 1, 0)))
   \<and> (\<exists>s'. step_cavity (ex_env [2, -1, -1] [3, 5, 1] 7) True 1 (ex_sim ex_obst) = Inr s'
          \<and> old (g_uc s') = ex_ones \<and> old (g_t s') = ex_ones
          \<and> old (g_p s') = zeros (3, 1, 1))
   \<and> (\<exists>s'. time_loop_plumes (ex_env [2, -1, -1] [3, 5, 1] 7) 2 (ex_sim ex_obst) = Inr s'
          \<and> faces_old s' = (zeros (2, 1, 1), zeros (3, 0, 1), zeros (3, 1, 0)))"
proof -
  let ?env = "ex_env [2, -1, -1] [3, 5, 1] 7"
  let ?s = "ex_sim ex_obst"
  note env = ex_preserves_old [of "[2, -1, -1]" "[3, 5, 1]" 7]
  have f: "faces_old ?s = (zeros (2, 1, 1), zeros (3, 0, 1), zeros (3, 1, 0))"
    by (simp add: faces_old_def ex_sim_def ex_unknown_def)
  have st: "\<And>phi. stored (g_uc ?s) phi \<longleftrightarrow> old phi = ex_ones"
    "\<And>phi. stored (g_t ?s) phi \<longleftrightarrow> old phi = ex_ones"
    by (auto simp: stored_def ex_sim_def ex_unknown_def assign_all_def zeros_def ex_ones_def)
  have o: "old (g_t ?s) = zeros (3, 1, 1)" "old (g_p ?s) = zeros (3, 1, 1)"
    by (simp_all add: ex_sim_def ex_unknown_def)
  from ex_step_obstacles obtain s1 where 1: "step_obstacles ?env 1 ?s = Inr s1" ..
  from ex_step_cavity obtain s2 where 2: "step_cavity ?env True 1 ?s = Inr s2" ..
  from ex_loop_plumes obtain s3 where 3: "time_loop_plumes ?env 2 ?s = Inr s3" ..
  from old_snapshots [OF env, of 1 ?s s1] 1
  have a: "old (g_uc s1) = ex_ones \<and> old (g_t s1) = zeros (3, 1, 1)
          \<and> faces_old s1 = (zeros (2, 1, 1), zeros (3, 0, 1), zeros (3, 1, 0))"
    by (simp add: st f o)
  from old_snapshots [OF env, of 1 ?s s2 True] 2
  have b: "old (g_uc s2) = ex_ones \<and> old (g_t s2) = ex_ones \<and> old (g_p s2) = zeros (3, 1, 1)"
    by (simp add: st f o)
  from old_snapshots [OF env, of _ ?s s3 _ 2] 3
  have c: "faces_old s3 = (zeros (2, 1, 1), zeros (3, 0, 1), zeros (3, 1, 0))"
    by (simp add: f)
  from env 1 2 3 a b c show ?thesis by blast
qed

subsection \<open>The two calls of the volume balance\<close>

lemma and_then_map_sum: "and_then (map_sum id g m) f = and_then m (\<lambda>x. f (g x))"
  by (cases m) simp_all

lemma calc_p_ignores_rhs:
  "calc_p (env\<lparr>create_matrix := \<lambda>phi b c d ob m.
              map_sum id (\<lambda>Ab. (fst Ab, b')) (create_matrix env phi b c d ob m)\<rparr>)
          p uvwf rho dt dxyz obst
   = calc_p env p uvwf rho dt dxyz obst"
  by (simp add: calc_p_def Let_def and_then_map_sum split_def obst_zero_val_def cong: if_cong)

lemma announce_Inr:
  "announce ts s = Inr s1 \<Longrightarrow> s1 = s\<lparr>g_out := g_out s @ [Call_print_time_step ts]\<rparr>"
  by (auto simp: announce_def)

lemma store_old_velocities_frame:
  assumes "store_old_velocities s = Inr s'"
  shows "g_out s' = g_out s" "g_p s' = g_p s" "g_rho s' = g_rho s" "g_dt s' = g_dt s"
    "g_dxyz s' = g_dxyz s" "g_obst s' = g_obst s"
  using assms by (auto simp: store_old_velocities_def and_then_Inr)

lemma transport_momentum_frame:
  assumes "transport_momentum env src tp s = Inr s'"
  shows "g_out s' = g_out s
           @ [Call_calc_uvw (g_uc s, g_vc s, g_wc s) (g_uf s, g_vf s, g_wf s) (g_rho s) (g_mu s)
                (tp s) (src s) (g_dt s) (g_dxyz s) (g_obst s)]"
    "g_p s' = g_p s" "g_rho s' = g_rho s" "g_dt s' = g_dt s"
    "g_dxyz s' = g_dxyz s" "g_obst s' = g_obst s"
  using assms by (auto simp: transport_momentum_def and_then_Inr split_def)

lemma report_volume_error_Inr:
  assumes "report_volume_error env s = Inr s'"
  obtains err m where
    "vol_balance env (g_uf s, g_vf s, g_wf s) (g_dxyz s) (g_obst s) = Inr err"
    "amax (abs_arr err) = Inr m"
    "s' = s\<lparr>g_out := g_out s
              @ [Call_vol_balance (g_uf s, g_vf s, g_wf s) (g_dxyz s) (g_obst s),
                 Print_float ''Maximum volume error after correction'' m]\<rparr>"
  using assms unfolding report_volume_error_def and_then_Inr by auto

lemma report_cfl_Inr:
  assumes "report_cfl env s = Inr s'"
  obtains cfl where
    "s' = s\<lparr>g_out := g_out s
              @ [Call_cfl_max (g_uc s, g_vc s, g_wc s) (g_dt s) (g_dxyz s),
                 Print_float ''Maximum CFL number'' cfl]\<rparr>"
  using assms unfolding report_cfl_def and_then_Inr by auto

lemma plot_all_out:
  "plot_all env phis s = Inr s' \<Longrightarrow>
     \<exists>es. g_out s' = g_out s @ es \<and> list_all (\<lambda>e. kind e = ''plot_isolines'') es"
proof (induction phis arbitrary: s)
  case Nil
  then show ?case by simp
next
  case (Cons phi phis)
  let ?s1 = "s\<lparr>g_out := g_out s
              @ [Call_plot_isolines phi (g_uc s, g_vc s, g_wc s) (g_xyzn s) Pos_Z]\<rparr>"
  from Cons.prems have "plot_all env phis ?s1 = Inr s'"
    by (auto simp: and_then_Inr)
  from Cons.IH [OF this] obtain es where
    "g_out s' = g_out ?s1 @ es" "list_all (\<lambda>e. kind e = ''plot_isolines'') es"
    by blast
  then have "g_out s' = g_out s @ (Call_plot_isolines phi (g_uc s, g_vc s, g_wc s) (g_xyzn s) Pos_Z # es)
      \<and> list_all (\<lambda>e. kind e = ''plot_isolines'')
          (Call_plot_isolines phi (g_uc s, g_vc s, g_wc s) (g_xyzn s) Pos_Z # es)"
    by simp
  then show ?case by blast
qed

lemma visualise_out:
  "visualise env due shown s = Inr s' \<Longrightarrow>
     \<exists>es. g_out s' = g_out s @ es \<and> list_all (\<lambda>e. kind e = ''plot_isolines'') es"
  by (cases due) (auto simp: visualise_def dest: plot_all_out)

lemma store_old_velocities_faces:
  assumes "store_old_velocities s = Inr s'"
  shows "g_uf s' = g_uf s" "g_vf s' = g_vf s" "g_wf s' = g_wf s" "g_mu s' = g_mu s"
    "g_rc s' = g_rc s"
  using assms by (auto simp: store_old_velocities_def and_then_Inr)

lemma transport_momentum_Inr:
  assumes "transport_momentum env src tp s = Inr s'"
  obtains uvwc1 uvwf1 where
    "calc_uvw env (g_uc s, g_vc s, g_wc s) (g_uf s, g_vf s, g_wf s) (g_rho s) (g_mu s)
       (tp s) (src s) (g_dt s) (g_dxyz s) (g_obst s) = Inr (uvwc1, uvwf1)"
    "(g_uc s', g_vc s', g_wc s') = uvwc1" "(g_uf s', g_vf s', g_wf s') = uvwf1"
  using assms unfolding transport_momentum_def and_then_Inr by (auto simp: split_def)

text \<open>
  C2. The right-hand side of the linear system that \<open>calc_p\<close> solves is the divergence
  that \<open>vol_balance\<close> computes from the current face velocities with a mask of zeros,
  and the diagnostic call after the correction passes the obstacle mask. In a time step
  of \<open>test-obstacles-collocated.py\<close> that returns:
  \<^item> \<open>calc_p\<close> is handed the face velocities \<open>uvwf1\<close> as \<open>calc_uvw\<close> left them; it calls
    \<open>vol_balance\<close> on them with the cell widths and \<open>zeros(rc)\<close>, and the solver with the
    matrix of \<open>create_matrix\<close> and the flattened result \<open>src\<close> of that call; the pressure
    it leaves is the solver's answer to this system, anchored and masked;
  \<^item> the driver calls \<open>vol_balance\<close> a second time on the face velocities \<open>uvwf3\<close> as
    the second \<open>corr_uvw\<close> left them (the ones the step ends with), with the same cell
    widths and the obstacle mask \<open>obst\<close>, and prints the maximum of its result;
  \<^item> these calls come in the order \<open>calc_uvw\<close>, \<open>vol_balance\<close>, \<open>bicgstab\<close>,
    \<open>corr_uvw\<close>, \<open>corr_uvw\<close>, \<open>vol_balance\<close>, and there is no other call of them.
  The right-hand side that \<open>create_matrix\<close> returns is discarded: replacing it by any
  other value \<open>b'\<close> changes nothing of what \<open>calc_p\<close> does.
\<close>

theorem two_mask_arguments:
  assumes run: "step_obstacles env ts s = Inr s'"
  shows "(\<exists>uvwc0 uvwc1 uvwf1 r A b0 src res uvwc2 p2 uvwf3 p3 err m.
            calc_uvw env uvwc0 (g_uf s, g_vf s, g_wf s) (g_rho s) (g_mu s) (zeros (g_rc s))
              (zeros (g_rc s), zeros (g_rc s), zeros (g_rc s)) (g_dt s) (g_dxyz s) (g_obst s)
              = Inr (uvwc1, uvwf1)
          \<and> calc_p env (g_p s) uvwf1 (g_rho s) (g_dt s) (g_dxyz s) (g_obst s) = Inr r
          \<and> create_matrix env (g_p s) (zeros (shape (val (g_p s)))) (scalar_div (g_dt s) (g_rho s))
              (g_dxyz s) (g_obst s) ''n'' = Inr (A, b0)
          \<and> vol_balance env uvwf1 (g_dxyz s) (zeros (shape (val (g_p s)))) = Inr src
          \<and> bicgstab env A (flat src) (TOL env) = Inr res
          \<and> (if any_nonzero (g_obst s)
              then and_then (obst_zero_val env (pos (g_p s))
                               (anchor ((val (g_p s))\<lparr>flat := fst res\<rparr>)) (g_obst s))
                     (assign_all (anchor ((val (g_p s))\<lparr>flat := fst res\<rparr>)))
              else Inr (anchor ((val (g_p s))\<lparr>flat := fst res\<rparr>))) = Inr (val (p_after r))
          \<and> corr_uvw env uvwc1 (p_after r) (g_rho s) (g_dt s) (g_dxyz s) (g_obst s) = Inr (uvwc2, p2)
          \<and> corr_uvw env uvwf1 p2 (g_rho s) (g_dt s) (g_dxyz s) (g_obst s) = Inr (uvwf3, p3)
          \<and> vol_balance env uvwf3 (g_dxyz s) (g_obst s) = Inr err
          \<and> amax (abs_arr err) = Inr m
          \<and> (g_uf s', g_vf s', g_wf s') = uvwf3
          \<and> calls_of [''calc_uvw'', ''vol_balance'', ''bicgstab'', ''corr_uvw'']
               (drop (length (g_out s)) (g_out s'))
             = [Call_calc_uvw uvwc0 (g_uf s, g_vf s, g_wf s) (g_rho s) (g_mu s) (zeros (g_rc s))
                  (zeros (g_rc s), zeros (g_rc s), zeros (g_rc s)) (g_dt s) (g_dxyz s) (g_obst s),
                Call_vol_balance uvwf1 (g_dxyz s) (zeros (shape (val (g_p s)))),
                Call_bicgstab A (flat src) (TOL env),
                Call_corr_uvw uvwc1 (p_after r) (g_rho s) (g_dt s) (g_dxyz s) (g_obst s),
                Call_corr_uvw uvwf1 p2 (g_rho s) (g_dt s) (g_dxyz s) (g_obst s),
                Call_vol_balance uvwf3 (g_dxyz s) (g_obst s)]
          \<and> calls_of [''print''] (drop (length (g_out s)) (g_out s')) ! 3 = Print_float ''Maximum volume error after correction'' m)
         \<and> calc_p (env\<lparr>create_matrix := \<lambda>phi b c d ob m.
                    map_sum id (\<lambda>Ab. (fst Ab, b')) (create_matrix env phi b c d ob m)\<rparr>)
                p uvwf rho dt dxyz obst
           = calc_p env p uvwf rho dt dxyz obst"
proof
  from run obtain s1 s2 s4 s5 s6 s7 s8 where
    ph: "announce ts s = Inr s1" "store_old_velocities s1 = Inr s2"
       "transport_momentum env (\<lambda>s. (zeros (g_rc s), zeros (g_rc s), zeros (g_rc s)))
          (\<lambda>s. zeros (g_rc s)) s2 = Inr s4"
       "pressure_correction env False s4 = Inr s5" "correct_velocities env s5 = Inr s6"
       "report_volume_error env s6 = Inr s7" "report_cfl env s7 = Inr s8"
       "visualise env (ts mod 20 = 0) (\<lambda>s. [val (g_p s)]) s8 = Inr s'"
    unfolding step_obstacles_phases phases_obstacles_def seq.simps and_then_Inr by blast
  note s1 = announce_Inr [OF ph(1)]
  note s2 = store_old_velocities_frame [OF ph(2)] store_old_velocities_faces [OF ph(2)]
  note s4 = transport_momentum_frame [OF ph(3)]
  from ph(3) obtain uvwc1 uvwf1 where
    cu: "calc_uvw env (g_uc s2, g_vc s2, g_wc s2) (g_uf s2, g_vf s2, g_wf s2) (g_rho s2) (g_mu s2)
       (zeros (g_rc s2)) (zeros (g_rc s2), zeros (g_rc s2), zeros (g_rc s2)) (g_dt s2) (g_dxyz s2)
       (g_obst s2) = Inr (uvwc1, uvwf1)" and
    u1: "(g_uc s4, g_vc s4, g_wc s4) = uvwc1" "(g_uf s4, g_vf s4, g_wf s4) = uvwf1"
    by (rule transport_momentum_Inr)
  from ph(4) obtain r where
    c0: "calc_p env (g_p s4) (g_uf s4, g_vf s4, g_wf s4) (g_rho s4) (g_dt s4) (g_dxyz s4) (g_obst s4)
          = Inr r" and
    s5: "g_uc s5 = g_uc s4" "g_vc s5 = g_vc s4" "g_wc s5 = g_wc s4" "g_t s5 = g_t s4"
    "g_p s5 = p_after r" "g_uf s5 = g_uf s4" "g_vf s5 = g_vf s4" "g_wf s5 = g_wf s4"
    "g_rho s5 = g_rho s4" "g_dt s5 = g_dt s4" "g_dxyz s5 = g_dxyz s4" "g_obst s5 = g_obst s4"
    "g_out s5 = g_out s4
        @ [Call_calc_p (g_p s4) (g_uf s4, g_vf s4, g_wf s4) (g_rho s4) (g_dt s4) (g_dxyz s4)
             (g_obst s4)]
        @ events r"
    by (rule pressure_correction_Inr)
  from ph(5) obtain c1 c2 where
    s6: "corr_uvw env (g_uc s5, g_vc s5, g_wc s5) (g_p s5) (g_rho s5) (g_dt s5) (g_dxyz s5) (g_obst s5)
          = Inr c1"
    "corr_uvw env (g_uf s5, g_vf s5, g_wf s5) (snd c1) (g_rho s5) (g_dt s5) (g_dxyz s5) (g_obst s5)
          = Inr c2"
    "g_uc s6 = fst (fst c1)" "g_vc s6 = fst (snd (fst c1))" "g_wc s6 = snd (snd (fst c1))"
    "g_uf s6 = fst (fst c2)" "g_vf s6 = fst (snd (fst c2))" "g_wf s6 = snd (snd (fst c2))"
    "g_p s6 = snd c2" "g_t s6 = g_t s5"
    "g_rho s6 = g_rho s5" "g_dt s6 = g_dt s5" "g_dxyz s6 = g_dxyz s5" "g_obst s6 = g_obst s5"
    "g_out s6 = g_out s5
              @ [Call_corr_uvw (g_uc s5, g_vc s5, g_wc s5) (g_p s5) (g_rho s5) (g_dt s5) (g_dxyz s5)
                   (g_obst s5),
                 Call_corr_uvw (g_uf s5, g_vf s5, g_wf s5) (snd c1) (g_rho s5) (g_dt s5) (g_dxyz s5)
                   (g_obst s5)]"
    by (rule correct_velocities_Inr)
  from ph(6) obtain err m where
    s7: "vol_balance env (g_uf s6, g_vf s6, g_wf s6) (g_dxyz s6) (g_obst s6) = Inr err"
    "amax (abs_arr err) = Inr m"
    "s7 = s6\<lparr>g_out := g_out s6
              @ [Call_vol_balance (g_uf s6, g_vf s6, g_wf s6) (g_dxyz s6) (g_obst s6),
                 Print_float ''Maximum volume error after correction'' m]\<rparr>"
    by (rule report_volume_error_Inr)
  from ph(7) obtain cfl where
    s8: "s8 = s7\<lparr>g_out := g_out s7
              @ [Call_cfl_max (g_uc s7, g_vc s7, g_wc s7) (g_dt s7) (g_dxyz s7),
                 Print_float ''Maximum CFL number'' cfl]\<rparr>"
    by (rule report_cfl_Inr)
  from visualise_out [OF ph(8)] obtain es where
    es: "g_out s' = g_out s8 @ es" "list_all (\<lambda>e. kind e = ''plot_isolines'') es"
    by blast
  define uvwc0 where "uvwc0 = (g_uc s2, g_vc s2, g_wc s2)"
  define uvwf3 where "uvwf3 = (g_uf s6, g_vf s6, g_wf s6)"
  have cfg: "g_p s4 = g_p s" "g_rho s4 = g_rho s" "g_dt s4 = g_dt s" "g_dxyz s4 = g_dxyz s"
    "g_obst s4 = g_obst s"
    by (simp_all add: s4 s2 s1)
  have cfg2: "g_uf s2 = g_uf s" "g_vf s2 = g_vf s" "g_wf s2 = g_wf s" "g_mu s2 = g_mu s"
    "g_rc s2 = g_rc s" "g_rho s2 = g_rho s" "g_dt s2 = g_dt s" "g_dxyz s2 = g_dxyz s"
    "g_obst s2 = g_obst s"
    by (simp_all add: s2 s1)
  have cu': "calc_uvw env uvwc0 (g_uf s, g_vf s, g_wf s) (g_rho s) (g_mu s) (zeros (g_rc s))
              (zeros (g_rc s), zeros (g_rc s), zeros (g_rc s)) (g_dt s) (g_dxyz s) (g_obst s)
              = Inr (uvwc1, uvwf1)"
    using cu by (simp add: cfg2 uvwc0_def)
  from c0 have c: "calc_p env (g_p s) uvwf1 (g_rho s) (g_dt s) (g_dxyz s) (g_obst s) = Inr r"
    by (simp add: cfg u1)
  have k1: "corr_uvw env uvwc1 (p_after r) (g_rho s) (g_dt s) (g_dxyz s) (g_obst s)
              = Inr (fst c1, snd c1)"
    using s6(1) by (simp add: s5 cfg u1)
  have k2: "corr_uvw env uvwf1 (snd c1) (g_rho s) (g_dt s) (g_dxyz s) (g_obst s)
              = Inr (uvwf3, snd c2)"
    using s6(2) by (simp add: s5 cfg u1 uvwf3_def s6(6-8))
  have bal: "vol_balance env uvwf3 (g_dxyz s) (g_obst s) = Inr err"
    using s7(1) by (simp add: uvwf3_def s6(13,14) s5(11,12) cfg)
  have fin: "(g_uf s', g_vf s', g_wf s') = uvwf3"
  proof -
    from ph(8) have "g_uf s' = g_uf s8 \<and> g_vf s' = g_vf s8 \<and> g_wf s' = g_wf s8"
      by (cases "ts mod 20 = 0") (auto simp: visualise_def and_then_Inr)
    then show ?thesis by (simp add: s8 s7(3) uvwf3_def)
  qed
  from calc_p_flow [OF c] obtain A b0 src mx res rest where
    h: "create_matrix env (g_p s) (zeros (shape (val (g_p s)))) (scalar_div (g_dt s) (g_rho s))
          (g_dxyz s) (g_obst s) ''n'' = Inr (A, b0)"
       "vol_balance env uvwf1 (g_dxyz s) (zeros (shape (val (g_p s)))) = Inr src"
       "bicgstab env A (flat src) (TOL env) = Inr res"
       "(if any_nonzero (g_obst s)
              then and_then (obst_zero_val env (pos (g_p s))
                               (anchor ((val (g_p s))\<lparr>flat := fst res\<rparr>)) (g_obst s))
                     (assign_all (anchor ((val (g_p s))\<lparr>flat := fst res\<rparr>)))
              else Inr (anchor ((val (g_p s))\<lparr>flat := fst res\<rparr>))) = Inr (val (p_after r))"
       "events r =
               [Call_create_matrix (g_p s) (zeros (shape (val (g_p s)))) (scalar_div (g_dt s) (g_rho s))
                  (g_dxyz s) (g_obst s) ''n'',
                Call_vol_balance uvwf1 (g_dxyz s) (zeros (shape (val (g_p s)))),
                Print_float ''Maximum volume error before correction'' mx,
                Print_float ''Volume imbalance before correction'' (asum src),
                Call_bicgstab A (flat src) (TOL env),
                Print_int ''res[1] = '' (snd res)] @ rest"
       "list_all (\<lambda>e. kind e = ''obst_zero_val'' \<or> kind e = ''adj_n_bnds'') rest"
    by blast
  from h(6) have rest:
    "calls_of [''calc_uvw'', ''vol_balance'', ''bicgstab'', ''corr_uvw''] rest = []"
    "calls_of [''print''] rest = []"
    by (force intro!: calls_of_none simp: list_all_iff)+
  from es(2) have plots:
    "calls_of [''calc_uvw'', ''vol_balance'', ''bicgstab'', ''corr_uvw''] es = []"
    "calls_of [''print''] es = []"
    by (force intro!: calls_of_none simp: list_all_iff)+
  have o: "drop (length (g_out s)) (g_out s')
      = [Call_print_time_step ts,
         Call_calc_uvw uvwc0 (g_uf s, g_vf s, g_wf s) (g_rho s) (g_mu s) (zeros (g_rc s))
           (zeros (g_rc s), zeros (g_rc s), zeros (g_rc s)) (g_dt s) (g_dxyz s) (g_obst s),
         Call_calc_p (g_p s) uvwf1 (g_rho s) (g_dt s) (g_dxyz s) (g_obst s)]
        @ events r
        @ [Call_corr_uvw uvwc1 (p_after r) (g_rho s) (g_dt s) (g_dxyz s) (g_obst s),
           Call_corr_uvw uvwf1 (snd c1) (g_rho s) (g_dt s) (g_dxyz s) (g_obst s),
           Call_vol_balance uvwf3 (g_dxyz s) (g_obst s),
           Print_float ''Maximum volume error after correction'' m,
           Call_cfl_max (g_uc s7, g_vc s7, g_wc s7) (g_dt s7) (g_dxyz s7),
           Print_float ''Maximum CFL number'' cfl]
        @ es"
    by (simp add: es(1) s8 s7(3) s6(11-15) s5 cfg cfg2 u1 s4(1) s2(1) s1 uvwc0_def uvwf3_def)
  have 1: "calls_of [''calc_uvw'', ''vol_balance'', ''bicgstab'', ''corr_uvw'']
               (drop (length (g_out s)) (g_out s'))
             = [Call_calc_uvw uvwc0 (g_uf s, g_vf s, g_wf s) (g_rho s) (g_mu s) (zeros (g_rc s))
                  (zeros (g_rc s), zeros (g_rc s), zeros (g_rc s)) (g_dt s) (g_dxyz s) (g_obst s),
                Call_vol_balance uvwf1 (g_dxyz s) (zeros (shape (val (g_p s)))),
                Call_bicgstab A (flat src) (TOL env),
                Call_corr_uvw uvwc1 (p_after r) (g_rho s) (g_dt s) (g_dxyz s) (g_obst s),
                Call_corr_uvw uvwf1 (snd c1) (g_rho s) (g_dt s) (g_dxyz s) (g_obst s),
                Call_vol_balance uvwf3 (g_dxyz s) (g_obst s)]"
    by (simp add: o h(5) rest plots)
  have 2: "calls_of [''print''] (drop (length (g_out s)) (g_out s')) ! 3 = Print_float ''Maximum volume error after correction'' m"
    by (simp add: o h(5) rest plots)
  from cu' c h(1-4) k1 k2 bal s7(2) fin 1 2
  show "\<exists>uvwc0 uvwc1 uvwf1 r A b0 src res uvwc2 p2 uvwf3 p3 err m.
            calc_uvw env uvwc0 (g_uf s, g_vf s, g_wf s) (g_rho s) (g_mu s) (zeros (g_rc s))
              (zeros (g_rc s), zeros (g_rc s), zeros (g_rc s)) (g_dt s) (g_dxyz s) (g_obst s)
              = Inr (uvwc1, uvwf1)
          \<and> calc_p env (g_p s) uvwf1 (g_rho s) (g_dt s) (g_dxyz s) (g_obst s) = Inr r
          \<and> create_matrix env (g_p s) (zeros (shape (val (g_p s)))) (scalar_div (g_dt s) (g_rho s))
              (g_dxyz s) (g_obst s) ''n'' = Inr (A, b0)
          \<and> vol_balance env uvwf1 (g_dxyz s) (zeros (shape (val (g_p s)))) = Inr src
          \<and> bicgstab env A (flat src) (TOL env) = Inr res
          \<and> (if any_nonzero (g_obst s)
              then and_then (obst_zero_val env (pos (g_p s))
                               (anchor ((val (g_p s))\<lparr>flat := fst res\<rparr>)) (g_obst s))
                     (assign_all (anchor ((val (g_p s))\<lparr>flat := fst res\<rparr>)))
              else Inr (anchor ((val (g_p s))\<lparr>flat := fst res\<rparr>))) = Inr (val (p_after r))
          \<and> corr_uvw env uvwc1 (p_after r) (g_rho s) (g_dt s) (g_dxyz s) (g_obst s) = Inr (uvwc2, p2)
          \<and> corr_uvw env uvwf1 p2 (g_rho s) (g_dt s) (g_dxyz s) (g_obst s) = Inr (uvwf3, p3)
          \<and> vol_balance env uvwf3 (g_dxyz s) (g_obst s) = Inr err
          \<and> amax (abs_arr err) = Inr m
          \<and> (g_uf s', g_vf s', g_wf s') = uvwf3
          \<and> calls_of [''calc_uvw'', ''vol_balance'', ''bicgstab'', ''corr_uvw'']
               (drop (length (g_out s)) (g_out s'))
             = [Call_calc_uvw uvwc0 (g_uf s, g_vf s, g_wf s) (g_rho s) (g_mu s) (zeros (g_rc s))
                  (zeros (g_rc s), zeros (g_rc s), zeros (g_rc s)) (g_dt s) (g_dxyz s) (g_obst s),
                Call_vol_balance uvwf1 (g_dxyz s) (zeros (shape (val (g_p s)))),
                Call_bicgstab A (flat src) (TOL env),
                Call_corr_uvw uvwc1 (p_after r) (g_rho s) (g_dt s) (g_dxyz s) (g_obst s),
                Call_corr_uvw uvwf1 p2 (g_rho s) (g_dt s) (g_dxyz s) (g_obst s),
                Call_vol_balance uvwf3 (g_dxyz s) (g_obst s)]
          \<and> calls_of [''print''] (drop (length (g_out s)) (g_out s')) ! 3 = Print_float ''Maximum volume error after correction'' m"
    by blast
  show "calc_p (env\<lparr>create_matrix := \<lambda>phi b c d ob m.
                    map_sum id (\<lambda>Ab. (fst Ab, b')) (create_matrix env phi b c d ob m)\<rparr>)
                p uvwf rho dt dxyz obst
           = calc_p env p uvwf rho dt dxyz obst"
    by (rule calc_p_ignores_rhs)
qed

theorem two_mask_arguments_witness:
  "\<exists>s' e1 uvwf1 e4 e5 uvwf3.
     step_obstacles (ex_env [2, -1, -1] [3, 5, 1] 7) 1 (ex_sim ex_obst) = Inr s'
     \<and> calls_of [''calc_uvw'', ''vol_balance'', ''bicgstab'', ''corr_uvw''] (g_out s')
         = [e1, Call_vol_balance uvwf1 (ex_ones, ex_ones, ex_ones) (zeros (3, 1, 1)),
            Call_bicgstab ex_matrix [2, -1, -1] (1 / 10 ^ 8), e4, e5,
            Call_vol_balance uvwf3 (ex_ones, ex_ones, ex_ones) ex_obst]
     \<and> (g_uf s', g_vf s', g_wf s') = uvwf3"
proof -
  let ?env = "ex_env [2, -1, -1] [3, 5, 1] 7" and ?s = "ex_sim ex_obst"
  from ex_step_obstacles obtain s1 where 1: "step_obstacles ?env 1 ?s = Inr s1" ..
  have f: "g_out ?s = []" "g_dxyz ?s = (ex_ones, ex_ones, ex_ones)" "g_obst ?s = ex_obst"
    "shape (val (g_p ?s)) = (3, 1, 1)"
    by (simp_all add: ex_sim_def ex_unknown_def zeros_def)
  from two_mask_arguments [OF 1, THEN conjunct1] obtain e1 uvwf1 A b0 src e4 e5 uvwf3 where
    h: "create_matrix ?env (g_p ?s) (zeros (3, 1, 1)) (scalar_div (g_dt ?s) (g_rho ?s))
              (ex_ones, ex_ones, ex_ones) ex_obst ''n'' = Inr (A, b0)"
       "vol_balance ?env uvwf1 (ex_ones, ex_ones, ex_ones) (zeros (3, 1, 1)) = Inr src"
       "(g_uf s1, g_vf s1, g_wf s1) = uvwf3"
       "calls_of [''calc_uvw'', ''vol_balance'', ''bicgstab'', ''corr_uvw''] (g_out s1)
         = [e1, Call_vol_balance uvwf1 (ex_ones, ex_ones, ex_ones) (zeros (3, 1, 1)),
            Call_bicgstab A (flat src) (TOL ?env), e4, e5,
            Call_vol_balance uvwf3 (ex_ones, ex_ones, ex_ones) ex_obst]"
    unfolding f drop_0 list.size by blast
  from h(1) have A: "A = ex_matrix"
    by (simp add: ex_env_def)
  from h(2) have src: "flat src = [2, -1, -1]"
    by (auto simp: ex_env_def)
  have tol: "TOL ?env = 1 / 10 ^ 8"
    by (simp add: ex_env_def)
  from 1 h(3) h(4) [unfolded A src tol] show ?thesis by blast
qed

subsection \<open>A flow that is free of divergence\<close>

text \<open>
  The maximum that \<open>calc_p\<close> prints before the correction and the one the driver prints
  after it are maxima of absolute values, and so not negative. For the uniform flow
  through two cells, which is free of divergence, one cycle of \<open>calc_p\<close>, the two
  \<open>corr_uvw\<close> calls and the driver's volume balance reports \<open>0\<close> before and \<open>0\<close>
  after the correction.
\<close>

lemma fold_max_ge: "(x::real) \<le> fold max xs x"
proof (induction xs arbitrary: x)
  case Nil
  then show ?case by simp
next
  case (Cons y ys)
  have "x \<le> max y x" by simp
  also have "\<dots> \<le> fold max ys (max y x)" by (rule Cons.IH)
  finally show ?case by simp
qed

lemma amax_abs_nonneg:
  assumes "amax (abs_arr a) = Inr m"
  shows "0 \<le> m"
proof (cases "flat a")
  case Nil
  with assms show ?thesis by (simp add: amax_def abs_arr_def)
next
  case (Cons x xs)
  with assms have m: "m = fold max (map abs xs) \<bar>x\<bar>"
    by (simp add: amax_def abs_arr_def)
  have "0 \<le> \<bar>x\<bar>" by simp
  also have "\<dots> \<le> fold max (map abs xs) \<bar>x\<bar>" by (rule fold_max_ge)
  finally show ?thesis by (simp add: m)
qed

lemmas c6_defs = c6_env_def c6_sim_def c6_uf_def c6_ones_def zero_field_def vol_balance_spec_def
  staggered_ok_def has_shape_def wf_array_def u_face_def v_face_def w_face_def
  correction_cycle_def

lemma c6_run:
  "map_sum id (\<lambda>s'. volume_errors (g_out s')) (correction_cycle c6_env c6_sim) = Inr [0, 0]"
  by (simp add: c6_defs phase_defs run_defs volume_errors_def eval_nat_numeral)

end
